(* ===== verification/Prelude.thy ===== *)
theory Prelude
  imports Main "HOL-Library.Word"
begin

text \<open>
  Shared vocabulary of the development. Host objects that the fixture only
  holds pointers to (document shells, view shells, pages, objects, style
  sheets) are \<open>handle\<close>s, and a raw pointer that may be \<open>nullptr\<close> is a
  \<open>handle option\<close>. A failed \<^verbatim>\<open>CPPUNIT_ASSERT\<close> throws and aborts the test; a
  dereference of \<open>nullptr\<close> is undefined behaviour. Both are values of
  \<open>error\<close>, tagged with the source line of \<^verbatim>\<open>dialogs-test.cxx\<close> where they
  happen. The fixture's member functions run in an exception-and-state monad
  \<open>('s, 'a) exc\<close>: a failure carries the state at the throw, because
  CppUnit still runs \<^verbatim>\<open>tearDown\<close> on that state. The monad is plain
  definitions (\<open>ok\<close>, \<open>throw\<close>, \<open>bindE\<close>, \<open>gets\<close>, \<open>modify\<close>), with the
  collection \<open>preserves_intros\<close> that proves an invariant of a composed
  operation from invariants of its parts, and generic lemmas on the map built
  by a sequence of \<^verbatim>\<open>operator[]\<close> assignments.
\<close>

type_synonym handle = nat

datatype error =
    AssertFailed nat
  | NullDeref nat

type_synonym ('s, 'a) exc = "'s \<Rightarrow> (error + 'a) \<times> 's"

definition ok :: "'a \<Rightarrow> ('s, 'a) exc" where
  "ok a = (\<lambda>s. (Inr a, s))"

definition throw :: "error \<Rightarrow> ('s, 'a) exc" where
  "throw e = (\<lambda>s. (Inl e, s))"

definition bindE :: "('s, 'a) exc \<Rightarrow> ('a \<Rightarrow> ('s, 'b) exc) \<Rightarrow> ('s, 'b) exc" where
  "bindE m f = (\<lambda>s. case m s of (Inl e, s') \<Rightarrow> (Inl e, s') | (Inr a, s') \<Rightarrow> f a s')"

definition gets :: "('s \<Rightarrow> 'a) \<Rightarrow> ('s, 'a) exc" where
  "gets f = (\<lambda>s. (Inr (f s), s))"

definition modify :: "('s \<Rightarrow> 's) \<Rightarrow> ('s, unit) exc" where
  "modify f = (\<lambda>s. (Inr (), f s))"

text \<open>\<^verbatim>\<open>CPPUNIT_ASSERT(p)\<close> on a pointer, and \<^verbatim>\<open>p->\<dots>\<close> on a pointer nobody checked.\<close>

definition assert_ptr :: "nat \<Rightarrow> 'a option \<Rightarrow> ('s, 'a) exc" where
  "assert_ptr l p = (case p of None \<Rightarrow> throw (AssertFailed l) | Some x \<Rightarrow> ok x)"

definition deref :: "nat \<Rightarrow> 'a option \<Rightarrow> ('s, 'a) exc" where
  "deref l p = (case p of None \<Rightarrow> throw (NullDeref l) | Some x \<Rightarrow> ok x)"

definition preserves :: "('s \<Rightarrow> bool) \<Rightarrow> ('s, 'a) exc \<Rightarrow> bool" where
  "preserves I m \<longleftrightarrow> (\<forall>s. I s \<longrightarrow> I (snd (m s)))"

text \<open>
  \<open>fails_only P Q m\<close>: from a state satisfying \<open>P\<close>, every error \<open>m\<close> raises
  satisfies \<open>Q\<close>; \<open>is_assert\<close> tells a failed assertion from a null dereference.
\<close>

fun is_assert :: "error \<Rightarrow> bool" where
  "is_assert (AssertFailed l) = True"
| "is_assert (NullDeref l) = False"

definition fails_only :: "('s \<Rightarrow> bool) \<Rightarrow> (error \<Rightarrow> bool) \<Rightarrow> ('s, 'a) exc \<Rightarrow> bool" where
  "fails_only P Q m \<longleftrightarrow> (\<forall>s e. P s \<longrightarrow> fst (m s) = Inl e \<longrightarrow> Q e)"

text \<open>
  \<open>agree R m\<close>: run on two states related by \<open>R\<close>, \<open>m\<close> returns the same
  value or error and leaves related states. With \<open>R\<close> relating a state to
  one with the same observable part, it says that \<open>m\<close>'s result does not
  depend on the rest (a relational refinement, proved for a composed
  operation by the collection \<open>agree_intros\<close>).
\<close>

definition agree :: "('s \<Rightarrow> 's \<Rightarrow> bool) \<Rightarrow> ('s, 'a) exc \<Rightarrow> bool" where
  "agree R m \<longleftrightarrow> (\<forall>s t. R s t \<longrightarrow> fst (m s) = fst (m t) \<and> R (snd (m s)) (snd (m t)))"

text \<open>\<^verbatim>\<open>m[k] = v\<close> executed for each pair of a list, in order.\<close>

abbreviation assign_all :: "('k \<times> 'v) list \<Rightarrow> ('k \<rightharpoonup> 'v) \<Rightarrow> ('k \<rightharpoonup> 'v)" where
  "assign_all xs m \<equiv> fold (\<lambda>(k, v) m. m(k \<mapsto> v)) xs m"

named_theorems preserves_intros "rules proving that a composed operation keeps an invariant"
named_theorems fails_intros "rules bounding the errors a composed operation can raise"
named_theorems exc_simps "evaluation rules of the exception-and-state monad"
named_theorems agree_intros "rules proving that a composed operation agrees on related states"

lemmas exc_defs = ok_def throw_def bindE_def gets_def modify_def assert_ptr_def deref_def

subsection \<open>Monad laws and evaluation\<close>

lemma bindE_ok [simp, exc_simps]: "bindE (ok a) f = f a"
  by (simp add: bindE_def ok_def)

lemma bindE_throw [simp, exc_simps]: "bindE (throw e) f = throw e"
  by (simp add: bindE_def throw_def)

lemma bindE_ok_right [simp]: "bindE m ok = m"
  by (rule ext) (simp add: bindE_def ok_def split: prod.splits sum.splits)

lemma bindE_assoc: "bindE (bindE m f) g = bindE m (\<lambda>a. bindE (f a) g)"
  by (rule ext) (simp add: bindE_def split: prod.splits sum.splits)

lemma bindE_Inr [exc_simps]: "m s = (Inr a, s') \<Longrightarrow> bindE m f s = f a s'"
  by (simp add: bindE_def)

lemma bindE_Inl [exc_simps]: "m s = (Inl e, s') \<Longrightarrow> bindE m f s = (Inl e, s')"
  by (simp add: bindE_def)

lemma bindE_gets [simp, exc_simps]: "bindE (gets g) f s = f (g s) s"
  by (simp add: bindE_def gets_def)

lemma bindE_modify [simp, exc_simps]: "bindE (modify g) f s = f () (g s)"
  by (simp add: bindE_def modify_def)

lemma ok_apply [simp, exc_simps]: "ok a s = (Inr a, s)"
  by (simp add: ok_def)

lemma throw_apply [simp, exc_simps]: "throw e s = (Inl e, s)"
  by (simp add: throw_def)

lemma modify_apply [simp, exc_simps]: "modify f s = (Inr (), f s)"
  and gets_apply [simp, exc_simps]: "gets g s = (Inr (g s), s)"
  by (simp_all add: modify_def gets_def)

lemma assert_ptr_Some [simp, exc_simps]: "assert_ptr l (Some x) = ok x"
  and assert_ptr_None [simp, exc_simps]: "assert_ptr l None = throw (AssertFailed l)"
  by (simp_all add: assert_ptr_def)

lemma deref_Some [simp, exc_simps]: "deref l (Some x) = ok x"
  and deref_None [simp, exc_simps]: "deref l None = throw (NullDeref l)"
  by (simp_all add: deref_def)

subsection \<open>Invariants of composed operations\<close>

lemma preservesD: "preserves I m \<Longrightarrow> I s \<Longrightarrow> I (snd (m s))"
  by (simp add: preserves_def)

lemma preservesI: "(\<And>s. I s \<Longrightarrow> I (snd (m s))) \<Longrightarrow> preserves I m"
  by (simp add: preserves_def)

lemma preserves_ok [preserves_intros]: "preserves I (ok a)"
  and preserves_throw [preserves_intros]: "preserves I (throw e)"
  and preserves_gets [preserves_intros]: "preserves I (gets g)"
  by (simp_all add: preserves_def gets_def)

lemma preserves_bindE [preserves_intros]:
  assumes "preserves I m" and "\<And>a. preserves I (f a)"
  shows "preserves I (bindE m f)"
proof (rule preservesI)
  fix s assume "I s"
  with assms(1) have "I (snd (m s))" by (rule preservesD)
  with assms(2) show "I (snd (bindE m f s))"
    by (auto simp: bindE_def preserves_def split: prod.splits sum.splits)
qed

lemma preserves_assert_ptr [preserves_intros]: "preserves I (assert_ptr l p)"
  and preserves_deref [preserves_intros]: "preserves I (deref l p)"
  by (simp_all add: assert_ptr_def deref_def preserves_def split: option.splits)

lemma preserves_if [preserves_intros]:
  "preserves I m1 \<Longrightarrow> preserves I m2 \<Longrightarrow> preserves I (if b then m1 else m2)"
  by simp

lemma preserves_case_option [preserves_intros]:
  "preserves I m1 \<Longrightarrow> (\<And>x. preserves I (m2 x)) \<Longrightarrow>
   preserves I (case p of None \<Rightarrow> m1 | Some x \<Rightarrow> m2 x)"
  by (simp split: option.splits)

lemma preserves_by_result:
  assumes "\<And>s r s'. m s = (r, s') \<Longrightarrow> I s \<Longrightarrow> I s'"
  shows "preserves I m"
  by (rule preservesI) (metis assms prod.collapse)

subsection \<open>Bounding the errors of an operation\<close>

lemma fails_onlyI: "(\<And>s e. P s \<Longrightarrow> fst (m s) = Inl e \<Longrightarrow> Q e) \<Longrightarrow> fails_only P Q m"
  by (auto simp: fails_only_def)

lemma is_assert_AssertFailed [fails_intros]: "is_assert (AssertFailed l)" by simp

lemma fails_only_ok [fails_intros]: "fails_only P Q (ok x)"
  and fails_only_gets [fails_intros]: "fails_only P Q (gets g)"
  and fails_only_modify [fails_intros]: "fails_only P Q (modify f)"
  by (simp_all add: fails_only_def gets_def modify_def)

lemma fails_only_assert [fails_intros]: "Q (AssertFailed l) \<Longrightarrow> fails_only P Q (assert_ptr l p)"
  by (cases p) (simp_all add: fails_only_def assert_ptr_def)

lemma fails_only_bindE [fails_intros]:
  assumes "fails_only P Q m" and "preserves P m" and "\<And>a. fails_only P Q (f a)"
  shows "fails_only P Q (bindE m f)"
proof (rule fails_onlyI)
  fix s e assume p: "P s" and r: "fst (bindE m f s) = Inl e"
  obtain x s' where m: "m s = (x, s')" by fastforce
  show "Q e"
  proof (cases x)
    case (Inl e')
    with m r assms(1) p show ?thesis by (auto simp: fails_only_def bindE_Inl)
  next
    case (Inr a)
    with m assms(2) p have "P s'" by (metis preservesD snd_conv)
    with Inr m r assms(3) [of a] show ?thesis by (auto simp: fails_only_def bindE_Inr)
  qed
qed

lemma fails_only_if [fails_intros]:
  "fails_only P Q m1 \<Longrightarrow> fails_only P Q m2 \<Longrightarrow> fails_only P Q (if b then m1 else m2)"
  by simp

lemma fails_only_case_option [fails_intros]:
  "fails_only P Q m1 \<Longrightarrow> (\<And>x. fails_only P Q (m2 x)) \<Longrightarrow>
   fails_only P Q (case p of None \<Rightarrow> m1 | Some x \<Rightarrow> m2 x)"
  by (simp split: option.splits)

subsection \<open>Agreement on related states\<close>

lemma agreeI:
  "(\<And>s t. R s t \<Longrightarrow> fst (m s) = fst (m t) \<and> R (snd (m s)) (snd (m t))) \<Longrightarrow> agree R m"
  by (simp add: agree_def)

lemma agree_ok [agree_intros]: "agree R (ok x)"
  and agree_assert [agree_intros]: "agree R (assert_ptr l p)"
  and agree_deref [agree_intros]: "agree R (deref l p)"
  by (simp_all add: agree_def assert_ptr_def deref_def split: option.splits)

lemma agree_bindE [agree_intros]:
  assumes "agree R m" and "\<And>a. agree R (f a)"
  shows "agree R (bindE m f)"
proof (rule agreeI)
  fix s t assume r: "R s t"
  from assms(1) r have e: "fst (m s) = fst (m t)" and rr: "R (snd (m s)) (snd (m t))"
    by (simp_all add: agree_def)
  show "fst (bindE m f s) = fst (bindE m f t) \<and> R (snd (bindE m f s)) (snd (bindE m f t))"
  proof (cases "fst (m s)")
    case (Inl x)
    then have "m s = (Inl x, snd (m s))" and "m t = (Inl x, snd (m t))"
      using e by (metis prod.collapse)+
    with rr show ?thesis by (simp add: bindE_Inl)
  next
    case (Inr a)
    then have "m s = (Inr a, snd (m s))" and "m t = (Inr a, snd (m t))"
      using e by (metis prod.collapse)+
    with rr assms(2) [of a] show ?thesis by (simp add: bindE_Inr agree_def)
  qed
qed

lemma agree_if [agree_intros]: "agree R m1 \<Longrightarrow> agree R m2 \<Longrightarrow> agree R (if b then m1 else m2)"
  by simp

lemma agree_case_option [agree_intros]:
  "agree R m1 \<Longrightarrow> (\<And>x. agree R (m2 x)) \<Longrightarrow> agree R (case p of None \<Rightarrow> m1 | Some x \<Rightarrow> m2 x)"
  by (simp split: option.splits)

subsection \<open>Maps built by a sequence of assignments\<close>

lemma assign_all_eq: "assign_all xs m = m ++ map_of (rev xs)"
  by (induction xs arbitrary: m) (auto simp: map_add_def fun_eq_iff split: option.splits)

lemma map_of_rev_distinct: "distinct (map fst xs) \<Longrightarrow> map_of (rev xs) = map_of xs"
  by (simp add: map_of_inject_set rev_map [symmetric])

lemma map_of_injective:
  assumes "distinct (map fst xs)" and "distinct (map snd xs)"
    and "map_of xs a = Some v" and "map_of xs b = Some v"
  shows "a = b"
proof -
  from assms have "(a, v) \<in> set xs" and "(b, v) \<in> set xs" by simp_all
  with assms(2) show ?thesis by (metis distinct_map inj_onD prod.inject snd_conv)
qed

end
