(* ===== verification/ItemSet.thy ===== *)
theory ItemSet
  imports Prelude
begin

text \<open>
  The attribute sets the fixture builds (\<^verbatim>\<open>SfxItemSet\<close> of svl, not part of
  this repository's sources, modelled from the spec's glossary: "a
  sub-range-scoped mapping from attribute ID to typed value"). An attribute
  id (\<^verbatim>\<open>which\<close>) is one of the \<^verbatim>\<open>ATTR_*\<close> / \<^verbatim>\<open>XATTR_*\<close> names the test
  uses, or some other id of the document's item pool. A set is constructed
  either over the whole pool or over the id ranges given by
  \<^verbatim>\<open>svl::Items<FIRST, LAST>\<close>; it maps an admitted id to an item that is
  set or invalidated (\<^verbatim>\<open>InvalidateItem\<close>). \<^verbatim>\<open>Put\<close> and \<^verbatim>\<open>InvalidateItem\<close>
  of an id outside the set's ranges leave it unchanged. The real numeric
  values of the ids (\<^verbatim>\<open>sdattr.hrc\<close>, \<^verbatim>\<open>svx/xdef.hxx\<close>) are not in this
  repository, so a range is the set of the named ids the test uses in it:
  ids of a range that the test never names are not represented. In
  particular the fill-style range \<^verbatim>\<open>XATTR_FILL_FIRST\<close> to
  \<^verbatim>\<open>XATTR_FILL_LAST\<close> holds \<^verbatim>\<open>XATTR_FILLSTYLE\<close> alone here. Which ids a
  set admits is therefore a modelling choice, not a fact about the code, and
  no property of the development depends on it beyond the ids the test
  writes.
\<close>

datatype which =
    ATTR_SNAPLINE_X | ATTR_SNAPLINE_Y
  | ATTR_LAYER_NAME | ATTR_LAYER_TITLE | ATTR_LAYER_DESC | ATTR_LAYER_VISIBLE
  | ATTR_LAYER_PRINTABLE | ATTR_LAYER_LOCKED | ATTR_LAYER_THISPAGE
  | ATTR_PRESENT_ALL | ATTR_PRESENT_CUSTOMSHOW | ATTR_PRESENT_DIANAME
  | ATTR_PRESENT_ENDLESS | ATTR_PRESENT_MANUEL | ATTR_PRESENT_MOUSE | ATTR_PRESENT_PEN
  | ATTR_PRESENT_ANIMATION_ALLOWED | ATTR_PRESENT_CHANGE_PAGE | ATTR_PRESENT_ALWAYS_ON_TOP
  | ATTR_PRESENT_FULLSCREEN | ATTR_PRESENT_PAUSE_TIMEOUT | ATTR_PRESENT_SHOW_PAUSELOGO
  | ATTR_PRESENT_INTERACTIVE | ATTR_PRESENT_DISPLAY
  | ATTR_ANIMATION_ACTIVE | ATTR_ANIMATION_EFFECT | ATTR_ANIMATION_TEXTEFFECT
  | ATTR_ANIMATION_SPEED | ATTR_ANIMATION_FADEOUT | ATTR_ANIMATION_COLOR
  | ATTR_ANIMATION_INVISIBLE | ATTR_ANIMATION_SOUNDON | ATTR_ANIMATION_SOUNDFILE
  | ATTR_ANIMATION_PLAYFULL
  | ATTR_ACTION | ATTR_ACTION_FILENAME | ATTR_ACTION_EFFECT | ATTR_ACTION_EFFECTSPEED
  | ATTR_ACTION_SOUNDON | ATTR_ACTION_PLAYFULL
  | XATTR_FILLSTYLE
  | OtherWhich nat

text \<open>The id ranges \<^verbatim>\<open>svl::Items<\<dots>_START, \<dots>_END>\<close> the test names, by the prefix of their ids.\<close>

datatype which_range =
    SnaplineRange | LayerRange | PresentRange | AnimationRange | ActionRange | FillRange

fun range_of :: "which \<Rightarrow> which_range option" where
  "range_of ATTR_SNAPLINE_X = Some SnaplineRange"
| "range_of ATTR_SNAPLINE_Y = Some SnaplineRange"
| "range_of ATTR_LAYER_NAME = Some LayerRange"
| "range_of ATTR_LAYER_TITLE = Some LayerRange"
| "range_of ATTR_LAYER_DESC = Some LayerRange"
| "range_of ATTR_LAYER_VISIBLE = Some LayerRange"
| "range_of ATTR_LAYER_PRINTABLE = Some LayerRange"
| "range_of ATTR_LAYER_LOCKED = Some LayerRange"
| "range_of ATTR_LAYER_THISPAGE = Some LayerRange"
| "range_of ATTR_PRESENT_ALL = Some PresentRange"
| "range_of ATTR_PRESENT_CUSTOMSHOW = Some PresentRange"
| "range_of ATTR_PRESENT_DIANAME = Some PresentRange"
| "range_of ATTR_PRESENT_ENDLESS = Some PresentRange"
| "range_of ATTR_PRESENT_MANUEL = Some PresentRange"
| "range_of ATTR_PRESENT_MOUSE = Some PresentRange"
| "range_of ATTR_PRESENT_PEN = Some PresentRange"
| "range_of ATTR_PRESENT_ANIMATION_ALLOWED = Some PresentRange"
| "range_of ATTR_PRESENT_CHANGE_PAGE = Some PresentRange"
| "range_of ATTR_PRESENT_ALWAYS_ON_TOP = Some PresentRange"
| "range_of ATTR_PRESENT_FULLSCREEN = Some PresentRange"
| "range_of ATTR_PRESENT_PAUSE_TIMEOUT = Some PresentRange"
| "range_of ATTR_PRESENT_SHOW_PAUSELOGO = Some PresentRange"
| "range_of ATTR_PRESENT_INTERACTIVE = Some PresentRange"
| "range_of ATTR_PRESENT_DISPLAY = Some PresentRange"
| "range_of ATTR_ANIMATION_ACTIVE = Some AnimationRange"
| "range_of ATTR_ANIMATION_EFFECT = Some AnimationRange"
| "range_of ATTR_ANIMATION_TEXTEFFECT = Some AnimationRange"
| "range_of ATTR_ANIMATION_SPEED = Some AnimationRange"
| "range_of ATTR_ANIMATION_FADEOUT = Some AnimationRange"
| "range_of ATTR_ANIMATION_COLOR = Some AnimationRange"
| "range_of ATTR_ANIMATION_INVISIBLE = Some AnimationRange"
| "range_of ATTR_ANIMATION_SOUNDON = Some AnimationRange"
| "range_of ATTR_ANIMATION_SOUNDFILE = Some AnimationRange"
| "range_of ATTR_ANIMATION_PLAYFULL = Some AnimationRange"
| "range_of ATTR_ACTION = Some ActionRange"
| "range_of ATTR_ACTION_FILENAME = Some ActionRange"
| "range_of ATTR_ACTION_EFFECT = Some ActionRange"
| "range_of ATTR_ACTION_EFFECTSPEED = Some ActionRange"
| "range_of ATTR_ACTION_SOUNDON = Some ActionRange"
| "range_of ATTR_ACTION_PLAYFULL = Some ActionRange"
| "range_of XATTR_FILLSTYLE = Some FillRange"
| "range_of (OtherWhich n) = None"

text \<open>
  String arguments are either literals (\<^verbatim>\<open>u"foo"_ustr\<close>, \<^verbatim>\<open>OUString()\<close>)
  or resource strings \<^verbatim>\<open>SdResId(STR_\<dots>)\<close>, kept by their resource id.
\<close>

datatype ustring = Lit string | Res string

datatype fill_style = FillStyle_NONE | FillStyle_Other nat

text \<open>
  Item values by item class. Integer items keep the bits of their C++ type
  (\<^verbatim>\<open>SfxInt32Item\<close> and \<^verbatim>\<open>SfxUInt32Item\<close> a \<open>32 word\<close>, read with \<open>sint\<close> or
  \<open>unat\<close>; \<^verbatim>\<open>SfxUInt16Item\<close> a \<open>16 word\<close>). \<open>DefaultItem\<close> is the item a
  \<^verbatim>\<open>makeSdAttrLayer\<dots>()\<close> helper builds from its default argument.
\<close>

datatype item_value =
    BoolItem bool
  | Int32Item "32 word"
  | UInt16Item "16 word"
  | UInt32Item "32 word"
  | StringItem ustring
  | ColorItem string
  | FillStyleItem fill_style
  | DefaultItem
  | PoolItem nat

datatype item_state = ItemSet item_value | ItemInvalid

record item_set =
  which_ranges :: "which_range list option"
  items :: "which \<rightharpoonup> item_state"

definition admits :: "item_set \<Rightarrow> which \<Rightarrow> bool" where
  "admits s w = (case which_ranges s of
      None \<Rightarrow> True
    | Some rs \<Rightarrow> (case range_of w of None \<Rightarrow> False | Some r \<Rightarrow> r \<in> set rs))"

text \<open>\<^verbatim>\<open>SfxItemSet(pool)\<close> (\<open>None\<close>) and \<^verbatim>\<open>SfxItemSet(pool, svl::Items<\<dots>>)\<close>, empty.\<close>

definition new_item_set :: "which_range list option \<Rightarrow> item_set" where
  "new_item_set rs = \<lparr>which_ranges = rs, items = Map.empty\<rparr>"

definition put_item :: "which \<Rightarrow> item_value \<Rightarrow> item_set \<Rightarrow> item_set" where
  "put_item w v s = (if admits s w then s\<lparr>items := (items s)(w \<mapsto> ItemSet v)\<rparr> else s)"

definition invalidate_item :: "which \<Rightarrow> item_set \<Rightarrow> item_set" where
  "invalidate_item w s = (if admits s w then s\<lparr>items := (items s)(w \<mapsto> ItemInvalid)\<rparr> else s)"

definition get_item :: "item_set \<Rightarrow> which \<Rightarrow> item_state option" where
  "get_item s w = items s w"

subsection \<open>Laws of the item-set operations\<close>

lemma admits_new [simp]:
  "admits (new_item_set rs) w = (case rs of None \<Rightarrow> True
     | Some rs \<Rightarrow> (case range_of w of None \<Rightarrow> False | Some r \<Rightarrow> r \<in> set rs))"
  by (simp add: admits_def new_item_set_def)

lemma which_ranges_new [simp]: "which_ranges (new_item_set rs) = rs"
  by (simp add: new_item_set_def)

lemma items_new [simp]: "items (new_item_set rs) = Map.empty"
  by (simp add: new_item_set_def)

lemma admits_items_update [simp]: "admits (s\<lparr>items := m\<rparr>) = admits s"
  by (simp add: admits_def fun_eq_iff)

lemma which_ranges_put [simp]: "which_ranges (put_item w v s) = which_ranges s"
  and which_ranges_invalidate [simp]: "which_ranges (invalidate_item w s) = which_ranges s"
  by (simp_all add: put_item_def invalidate_item_def)

lemma admits_put [simp]: "admits (put_item w v s) = admits s"
  and admits_invalidate [simp]: "admits (invalidate_item w s) = admits s"
  by (simp_all add: admits_def fun_eq_iff)

lemma get_new [simp]: "get_item (new_item_set rs) w = None"
  by (simp add: get_item_def new_item_set_def)

lemma get_put:
  "get_item (put_item w v s) w' =
     (if w' = w \<and> admits s w then Some (ItemSet v) else get_item s w')"
  by (simp add: get_item_def put_item_def)

lemma get_invalidate:
  "get_item (invalidate_item w s) w' =
     (if w' = w \<and> admits s w then Some ItemInvalid else get_item s w')"
  by (simp add: get_item_def invalidate_item_def)

lemmas get_item_simps [simp] = get_put get_invalidate

end
