(* ===== verification/Host.thy ===== *)
theory Host
  imports ItemSet
begin

text \<open>
  The host application as the fixture sees it: the objects reachable from
  the loaded Impress document and the queries the test calls on them. None
  of this is code of \<^verbatim>\<open>src/\<close>; it is the "borrowed" data model of the
  spec (a loaded document, a document shell, a view shell, a draw view, the
  pages and objects of the document, its style sheets and its presentation
  settings). Each query is a field of the record \<open>host\<close>, a function of
  the handle of the object it is called on, returning \<open>None\<close> where the C++
  call returns \<open>nullptr\<close>. Two fields describe the environment of
  \<^verbatim>\<open>setUp\<close>: \<open>h_base_ok\<close> says whether the base class's
  \<^verbatim>\<open>ScreenshotTest::setUp()\<close> (line 103) completes, and \<open>h_load\<close> is the
  component \<^verbatim>\<open>loadFromDesktop\<close> returns at line 106, \<open>None\<close> when the
  load fails and the reference is empty. Each test runs on a fresh fixture
  with its own host, so a host's load result is the one document of that
  test. \<open>doc_ok\<close> collects the preconditions the test
  asserts; \<open>example_host\<close> is one host that satisfies them, used by the
  witnesses.
\<close>

text \<open>The dynamic type of the \<^verbatim>\<open>::sd::View*\<close> a view shell returns.\<close>

datatype view_kind = DrawViewKind | OtherViewKind

datatype style_family = Page | Pseudo

text \<open>The fields of \<^verbatim>\<open>::sd::PresentationSettings\<close> that \<^verbatim>\<open>createDialogByID(12)\<close> reads.\<close>

record presentation_settings =
  mbAll :: bool
  mbCustomShow :: bool
  mbEndless :: bool
  mbManual :: bool
  mbMouseVisible :: bool
  mbMouseAsPen :: bool
  mbAnimationAllowed :: bool
  mbLockedPages :: bool
  mbAlwaysOnTop :: bool
  mbFullScreen :: bool
  mnPauseTimeout :: "32 word"
  mbShowPauseLogo :: bool
  mbInteractive :: bool

record host =
  h_factory :: "handle option"
  h_base_ok :: bool
  h_load :: "handle option"
  h_is_impress :: "handle \<Rightarrow> bool"
  h_doc_shell :: "handle \<Rightarrow> handle option"
  h_doc :: "handle \<Rightarrow> handle option"
  h_view_shell :: "handle \<Rightarrow> handle option"
  h_draw_view :: "handle \<Rightarrow> (handle \<times> view_kind) option"
  h_frame_weld :: "handle \<Rightarrow> handle"
  h_sd_page :: "handle \<Rightarrow> nat \<Rightarrow> handle option"
  h_obj :: "handle \<Rightarrow> nat \<Rightarrow> handle option"
  h_merged_items :: "handle \<Rightarrow> item_set"
  h_style_pool :: "handle \<Rightarrow> handle option"
  h_first_style :: "handle \<Rightarrow> style_family \<Rightarrow> handle option"
  h_presentation :: "handle \<Rightarrow> presentation_settings"

text \<open>\<^verbatim>\<open>dynamic_cast<::sd::DrawView*>\<close> of the view a view shell returns.\<close>

definition draw_view_cast :: "(handle \<times> view_kind) option \<Rightarrow> handle option" where
  "draw_view_cast v = (case v of Some (p, DrawViewKind) \<Rightarrow> Some p | _ \<Rightarrow> None)"

text \<open>The merged item set of the first object of the first standard page.\<close>

definition object_item_set :: "host \<Rightarrow> handle \<Rightarrow> item_set option" where
  "object_item_set h d =
     (case h_doc h d of None \<Rightarrow> None | Some dd \<Rightarrow>
       (case h_sd_page h dd 0 of None \<Rightarrow> None | Some pg \<Rightarrow>
         (case h_obj h pg 0 of None \<Rightarrow> None | Some ob \<Rightarrow> Some (h_merged_items h ob))))"

text \<open>Everything the test asserts about the document \<open>d\<close> holds.\<close>

definition doc_ok :: "host \<Rightarrow> handle \<Rightarrow> bool" where
  "doc_ok h d =
     ((case h_doc_shell h d of None \<Rightarrow> False | Some ds \<Rightarrow>
        (case h_view_shell h ds of None \<Rightarrow> False | Some vs \<Rightarrow>
           draw_view_cast (h_draw_view h vs) \<noteq> None) \<and>
        (case h_style_pool h ds of None \<Rightarrow> False | Some p \<Rightarrow>
           h_first_style h p Page \<noteq> None \<and> h_first_style h p Pseudo \<noteq> None)) \<and>
      object_item_set h d \<noteq> None)"

subsection \<open>An example host\<close>

definition default_presentation :: presentation_settings where
  "default_presentation =
     \<lparr>mbAll = True, mbCustomShow = False, mbEndless = False, mbManual = False,
      mbMouseVisible = False, mbMouseAsPen = False, mbAnimationAllowed = True,
      mbLockedPages = False, mbAlwaysOnTop = False, mbFullScreen = True,
      mnPauseTimeout = 0, mbShowPauseLogo = False, mbInteractive = True\<rparr>"

definition example_host :: host where
  "example_host =
     \<lparr>h_factory = Some 1, h_base_ok = True, h_load = Some 2, h_is_impress = (\<lambda>d. d = 2),
      h_doc_shell = (\<lambda>d. if d = 2 then Some 3 else None),
      h_doc = (\<lambda>d. if d = 2 then Some 4 else None),
      h_view_shell = (\<lambda>ds. if ds = 3 then Some 5 else None),
      h_draw_view = (\<lambda>vs. if vs = 5 then Some (6, DrawViewKind) else None),
      h_frame_weld = (\<lambda>vs. 7),
      h_sd_page = (\<lambda>dd i. if dd = 4 \<and> i = 0 then Some 8 else None),
      h_obj = (\<lambda>pg i. if pg = 8 \<and> i = 0 then Some 9 else None),
      h_merged_items = (\<lambda>ob. put_item (OtherWhich 1) (PoolItem 7) (new_item_set None)),
      h_style_pool = (\<lambda>ds. if ds = 3 then Some 10 else None),
      h_first_style = (\<lambda>p f. if p = 10 then Some (case f of Page \<Rightarrow> 11 | Pseudo \<Rightarrow> 12) else None),
      h_presentation = (\<lambda>dd. default_presentation)\<rparr>"

lemma draw_view_cast_Some [simp]: "draw_view_cast (Some (p, DrawViewKind)) = Some p"
  and draw_view_cast_other [simp]: "draw_view_cast (Some (p, OtherViewKind)) = None"
  and draw_view_cast_None [simp]: "draw_view_cast None = None"
  by (simp_all add: draw_view_cast_def)

lemma example_host_doc_ok: "doc_ok example_host 2"
  by (simp add: doc_ok_def example_host_def object_item_set_def)

end
