(* ===== verification/Bundles.thy ===== *)
theory Bundles
  imports Host "HOL-Library.Monad_Syntax"
begin

text \<open>
  The attribute bundles \<^verbatim>\<open>dialogs-test.cxx\<close> builds by hand: the empty
  pool-wide set and the fill-style set of the lazy getters, and the sets of
  the snap-line (case 6), insert-layer (case 7), start-presentation (case 12)
  and interaction (case 17) dialogs. Each is the source's sequence of
  \<^verbatim>\<open>Put\<close> / \<^verbatim>\<open>InvalidateItem\<close> calls, applied in order with \<open>fold id\<close>.
  For the presentation set, the settings can be read back from it
  (\<open>read_presentation_settings\<close>), which shows that the case copies every
  setting it reads into its own item id.
\<close>

text \<open>UNO enum values \<^verbatim>\<open>AnimationEffect_NONE\<close> and \<^verbatim>\<open>ClickAction_NONE\<close> (the first enumerators).\<close>

definition AnimationEffect_NONE :: "16 word" where
  "AnimationEffect_NONE = 0"

definition ClickAction_NONE :: "16 word" where
  "ClickAction_NONE = 0"

text \<open>\<^verbatim>\<open>new SfxItemSet(pDrawDoc->GetItemPool())\<close> in \<^verbatim>\<open>getEmptySfxItemSet\<close>.\<close>

definition empty_pool_item_set :: item_set where
  "empty_pool_item_set = new_item_set None"

text \<open>\<^verbatim>\<open>getEmptyFillStyleSfxItemSet\<close>: the fill range, with \<^verbatim>\<open>XFillStyleItem(FillStyle_NONE)\<close>.\<close>

definition fill_style_item_set :: item_set where
  "fill_style_item_set =
     put_item XATTR_FILLSTYLE (FillStyleItem FillStyle_NONE) (new_item_set (Some [FillRange]))"

text \<open>Case 6, \<^verbatim>\<open>CreateSdSnapLineDlg\<close>.\<close>

definition snapline_item_set :: item_set where
  "snapline_item_set = fold id
     [put_item ATTR_SNAPLINE_X (Int32Item 0),
      put_item ATTR_SNAPLINE_Y (Int32Item 0)]
     (new_item_set (Some [SnaplineRange]))"

text \<open>Case 7, \<^verbatim>\<open>CreateSdInsertLayerDlg\<close>.\<close>

definition layer_item_set :: item_set where
  "layer_item_set = fold id
     [put_item ATTR_LAYER_NAME (StringItem (Res ''STR_LAYER'')),
      put_item ATTR_LAYER_TITLE DefaultItem,
      put_item ATTR_LAYER_DESC DefaultItem,
      put_item ATTR_LAYER_VISIBLE DefaultItem,
      put_item ATTR_LAYER_PRINTABLE DefaultItem,
      put_item ATTR_LAYER_LOCKED DefaultItem,
      put_item ATTR_LAYER_THISPAGE DefaultItem]
     (new_item_set (Some [LayerRange]))"

text \<open>Case 12, \<^verbatim>\<open>CreateSdStartPresentationDlg\<close>, from the document's presentation settings.\<close>

definition presentation_item_set :: "presentation_settings \<Rightarrow> item_set" where
  "presentation_item_set ps = fold id
     [put_item ATTR_PRESENT_ALL (BoolItem (mbAll ps)),
      put_item ATTR_PRESENT_CUSTOMSHOW (BoolItem (mbCustomShow ps)),
      put_item ATTR_PRESENT_DIANAME (StringItem (Lit [])),
      put_item ATTR_PRESENT_ENDLESS (BoolItem (mbEndless ps)),
      put_item ATTR_PRESENT_MANUEL (BoolItem (mbManual ps)),
      put_item ATTR_PRESENT_MOUSE (BoolItem (mbMouseVisible ps)),
      put_item ATTR_PRESENT_PEN (BoolItem (mbMouseAsPen ps)),
      put_item ATTR_PRESENT_ANIMATION_ALLOWED (BoolItem (mbAnimationAllowed ps)),
      put_item ATTR_PRESENT_CHANGE_PAGE (BoolItem (\<not> mbLockedPages ps)),
      put_item ATTR_PRESENT_ALWAYS_ON_TOP (BoolItem (mbAlwaysOnTop ps)),
      put_item ATTR_PRESENT_FULLSCREEN (BoolItem (mbFullScreen ps)),
      put_item ATTR_PRESENT_PAUSE_TIMEOUT (UInt32Item (mnPauseTimeout ps)),
      put_item ATTR_PRESENT_SHOW_PAUSELOGO (BoolItem (mbShowPauseLogo ps)),
      put_item ATTR_PRESENT_INTERACTIVE (BoolItem (mbInteractive ps)),
      put_item ATTR_PRESENT_DISPLAY (Int32Item 0)]
     (new_item_set (Some [PresentRange]))"

text \<open>Case 17, \<^verbatim>\<open>CreatSdActionDialog\<close>: the range \<^verbatim>\<open>ATTR_ANIMATION_START..ATTR_ACTION_END\<close>.\<close>

definition action_item_set :: item_set where
  "action_item_set = fold id
     [put_item ATTR_ANIMATION_ACTIVE (BoolItem False),
      put_item ATTR_ANIMATION_EFFECT (UInt16Item AnimationEffect_NONE),
      put_item ATTR_ANIMATION_TEXTEFFECT (UInt16Item AnimationEffect_NONE),
      invalidate_item ATTR_ANIMATION_SPEED,
      put_item ATTR_ANIMATION_FADEOUT (BoolItem False),
      put_item ATTR_ANIMATION_COLOR (ColorItem ''COL_LIGHTGRAY''),
      put_item ATTR_ANIMATION_INVISIBLE (BoolItem False),
      put_item ATTR_ANIMATION_SOUNDON (BoolItem False),
      invalidate_item ATTR_ANIMATION_SOUNDFILE,
      put_item ATTR_ANIMATION_PLAYFULL (BoolItem False),
      put_item ATTR_ACTION (UInt16Item ClickAction_NONE),
      invalidate_item ATTR_ACTION_FILENAME,
      put_item ATTR_ACTION_EFFECT (UInt16Item AnimationEffect_NONE),
      invalidate_item ATTR_ACTION_EFFECTSPEED,
      put_item ATTR_ACTION_SOUNDON (BoolItem False),
      put_item ATTR_ACTION_PLAYFULL (BoolItem False)]
     (new_item_set (Some [AnimationRange, ActionRange]))"

subsection \<open>Reading the presentation settings back\<close>

text \<open>
  What the start-presentation dialog can recover from its set: each setting
  from the item of its id, \<^verbatim>\<open>mbLockedPages\<close> as the negation of
  \<^verbatim>\<open>ATTR_PRESENT_CHANGE_PAGE\<close>. \<open>None\<close> when an item is missing or of another class.
\<close>

definition get_bool :: "item_set \<Rightarrow> which \<Rightarrow> bool option" where
  "get_bool s w = (case get_item s w of Some (ItemSet (BoolItem b)) \<Rightarrow> Some b | _ \<Rightarrow> None)"

definition get_uint32 :: "item_set \<Rightarrow> which \<Rightarrow> 32 word option" where
  "get_uint32 s w = (case get_item s w of Some (ItemSet (UInt32Item n)) \<Rightarrow> Some n | _ \<Rightarrow> None)"

definition read_presentation_settings :: "item_set \<Rightarrow> presentation_settings option" where
  "read_presentation_settings s = do {
     a \<leftarrow> get_bool s ATTR_PRESENT_ALL;
     c \<leftarrow> get_bool s ATTR_PRESENT_CUSTOMSHOW;
     e \<leftarrow> get_bool s ATTR_PRESENT_ENDLESS;
     m \<leftarrow> get_bool s ATTR_PRESENT_MANUEL;
     mv \<leftarrow> get_bool s ATTR_PRESENT_MOUSE;
     pen \<leftarrow> get_bool s ATTR_PRESENT_PEN;
     an \<leftarrow> get_bool s ATTR_PRESENT_ANIMATION_ALLOWED;
     cp \<leftarrow> get_bool s ATTR_PRESENT_CHANGE_PAGE;
     top \<leftarrow> get_bool s ATTR_PRESENT_ALWAYS_ON_TOP;
     fs \<leftarrow> get_bool s ATTR_PRESENT_FULLSCREEN;
     t \<leftarrow> get_uint32 s ATTR_PRESENT_PAUSE_TIMEOUT;
     logo \<leftarrow> get_bool s ATTR_PRESENT_SHOW_PAUSELOGO;
     i \<leftarrow> get_bool s ATTR_PRESENT_INTERACTIVE;
     Some \<lparr>mbAll = a, mbCustomShow = c, mbEndless = e, mbManual = m, mbMouseVisible = mv,
       mbMouseAsPen = pen, mbAnimationAllowed = an, mbLockedPages = (\<not> cp),
       mbAlwaysOnTop = top, mbFullScreen = fs, mnPauseTimeout = t,
       mbShowPauseLogo = logo, mbInteractive = i\<rparr>
   }"

subsection \<open>What each dialog receives\<close>

text \<open>
  C5. The start-presentation dialog receives every setting the test copies
  from the document: reading the set back gives the presentation settings
  it was built from, with \<^verbatim>\<open>mbLockedPages\<close> recovered from the negated
  \<^verbatim>\<open>ATTR_PRESENT_CHANGE_PAGE\<close>.
\<close>

theorem presentation_settings_roundtrip:
  "read_presentation_settings (presentation_item_set ps) = Some ps"
  by (simp add: read_presentation_settings_def presentation_item_set_def get_bool_def get_uint32_def)

end
