(* ===== verification/Fixture.thy ===== *)
theory Fixture
  imports Bundles
begin

text \<open>
  The test fixture \<^verbatim>\<open>SdDialogsTest\<close> of \<^verbatim>\<open>src/sd/qa/unit/dialogs-test.cxx\<close>:
  its members as the record \<open>fixture\<close>, the constructor, \<^verbatim>\<open>setUp\<close>,
  \<^verbatim>\<open>tearDown\<close>, and the lazy getters that fetch a host object on first use,
  assert it is not null and cache it. Each member function is a value of the
  exception-and-state monad of the prelude, taking the host as a parameter.
  The field \<open>disposed\<close> is not a member: it logs the documents on which the
  fixture called \<^verbatim>\<open>dispose()\<close>, which is the effect of \<^verbatim>\<open>tearDown\<close> on the host.
  The invariant \<open>fixture_inv\<close> says every cached pointer is the one the
  host returns for the cached object it was fetched from. \<^verbatim>\<open>setUp\<close> stores
  whatever the load returned, an empty reference included, before it
  asserts the Impress document. \<^verbatim>\<open>tearDown\<close> models the fixture's own
  lines 115 to 117; the base class's \<^verbatim>\<open>ScreenshotTest::tearDown()\<close> it
  calls at line 118 is outside \<^verbatim>\<open>src/\<close> and has no effect on the fixture's
  members, so it is not modelled.
\<close>

record fixture =
  mxComponent :: "handle option"
  mpFact :: "handle option"
  mpImpressDocument :: "handle option"
  mpDocShell :: "handle option"
  mpViewShell :: "handle option"
  mpDrawView :: "handle option"
  mpSfxItemSetFromSdrObject :: "item_set option"
  mpEmptySfxItemSet :: "item_set option"
  mpEmptyFillStyleSfxItemSet :: "item_set option"
  disposed :: "handle list"

type_synonym 'a test = "(fixture, 'a) exc"

definition SdDialogsTest :: fixture where
  "SdDialogsTest =
     \<lparr>mxComponent = None, mpFact = None, mpImpressDocument = None,
      mpDocShell = None, mpViewShell = None, mpDrawView = None,
      mpSfxItemSetFromSdrObject = None, mpEmptySfxItemSet = None,
      mpEmptyFillStyleSfxItemSet = None, disposed = []\<rparr>"

text \<open>\<^verbatim>\<open>dynamic_cast<SdXImpressDocument*>(mxComponent.get())\<close>.\<close>

definition impress_cast :: "host \<Rightarrow> handle option \<Rightarrow> handle option" where
  "impress_cast h c = (case c of None \<Rightarrow> None | Some d \<Rightarrow> if h_is_impress h d then Some d else None)"

definition setUp :: "host \<Rightarrow> unit test" where
  "setUp h =
     bindE (modify (\<lambda>s. s\<lparr>mpFact := h_factory h\<rparr>)) (\<lambda>_.
     bindE (modify (\<lambda>s. s\<lparr>mxComponent := h_load h\<rparr>)) (\<lambda>_.
     bindE (gets mxComponent) (\<lambda>c.
     bindE (modify (\<lambda>s. s\<lparr>mpImpressDocument := impress_cast h c\<rparr>)) (\<lambda>_.
     bindE (gets mpImpressDocument) (\<lambda>d.
     bindE (assert_ptr 109 d) (\<lambda>_. ok ()))))))"

definition tearDown :: "unit test" where
  "tearDown =
     bindE (modify (\<lambda>s. s\<lparr>mpSfxItemSetFromSdrObject := None\<rparr>)) (\<lambda>_.
     bindE (modify (\<lambda>s. s\<lparr>mpEmptySfxItemSet := None\<rparr>)) (\<lambda>_.
     bindE (modify (\<lambda>s. s\<lparr>mpEmptyFillStyleSfxItemSet := None\<rparr>)) (\<lambda>_.
     bindE (gets mxComponent) (\<lambda>c.
     bindE (deref 117 c) (\<lambda>d.
     modify (\<lambda>s. s\<lparr>disposed := d # disposed s\<rparr>))))))"

definition getSdAbstractDialogFactory :: "handle option test" where
  "getSdAbstractDialogFactory = gets mpFact"

definition getSdXImpressDocument :: "handle option test" where
  "getSdXImpressDocument = gets mpImpressDocument"

definition getDocShell :: "host \<Rightarrow> handle test" where
  "getDocShell h =
     bindE (gets mpDocShell) (\<lambda>c. case c of Some ds \<Rightarrow> ok ds | None \<Rightarrow>
       bindE getSdXImpressDocument (\<lambda>p. bindE (deref 135 p) (\<lambda>doc.
       bindE (modify (\<lambda>s. s\<lparr>mpDocShell := h_doc_shell h doc\<rparr>)) (\<lambda>_.
       bindE (gets mpDocShell) (assert_ptr 136)))))"

definition getViewShell :: "host \<Rightarrow> handle test" where
  "getViewShell h =
     bindE (gets mpViewShell) (\<lambda>c. case c of Some vs \<Rightarrow> ok vs | None \<Rightarrow>
       bindE (getDocShell h) (\<lambda>ds.
       bindE (modify (\<lambda>s. s\<lparr>mpViewShell := h_view_shell h ds\<rparr>)) (\<lambda>_.
       bindE (gets mpViewShell) (assert_ptr 147))))"

definition getDrawView :: "host \<Rightarrow> handle test" where
  "getDrawView h =
     bindE (gets mpDrawView) (\<lambda>c. case c of Some v \<Rightarrow> ok v | None \<Rightarrow>
       bindE (getViewShell h) (\<lambda>vs.
       bindE (modify (\<lambda>s. s\<lparr>mpDrawView := draw_view_cast (h_draw_view h vs)\<rparr>)) (\<lambda>_.
       bindE (gets mpDrawView) (assert_ptr 158))))"

definition getSfxItemSetFromSdrObject :: "host \<Rightarrow> item_set test" where
  "getSfxItemSetFromSdrObject h =
     bindE (gets mpSfxItemSetFromSdrObject) (\<lambda>c. case c of Some x \<Rightarrow> ok x | None \<Rightarrow>
       bindE getSdXImpressDocument (\<lambda>p. bindE (deref 168 p) (\<lambda>doc.
       bindE (assert_ptr 169 (h_doc h doc)) (\<lambda>dd.
       bindE (assert_ptr 171 (h_sd_page h dd 0)) (\<lambda>pg.
       bindE (assert_ptr 173 (h_obj h pg 0)) (\<lambda>ob.
       bindE (modify (\<lambda>s. s\<lparr>mpSfxItemSetFromSdrObject := Some (h_merged_items h ob)\<rparr>)) (\<lambda>_.
       bindE (gets mpSfxItemSetFromSdrObject) (assert_ptr 175))))))))"

definition getEmptySfxItemSet :: "host \<Rightarrow> item_set test" where
  "getEmptySfxItemSet h =
     bindE (gets mpEmptySfxItemSet) (\<lambda>c. case c of Some x \<Rightarrow> ok x | None \<Rightarrow>
       bindE getSdXImpressDocument (\<lambda>p. bindE (deref 186 p) (\<lambda>doc.
       bindE (assert_ptr 187 (h_doc h doc)) (\<lambda>dd.
       bindE (modify (\<lambda>s. s\<lparr>mpEmptySfxItemSet := Some empty_pool_item_set\<rparr>)) (\<lambda>_.
       bindE (gets mpEmptySfxItemSet) (assert_ptr 189))))))"

definition getEmptyFillStyleSfxItemSet :: "host \<Rightarrow> item_set test" where
  "getEmptyFillStyleSfxItemSet h =
     bindE (gets mpEmptyFillStyleSfxItemSet) (\<lambda>c. case c of Some x \<Rightarrow> ok x | None \<Rightarrow>
       bindE getSdXImpressDocument (\<lambda>p. bindE (deref 199 p) (\<lambda>doc.
       bindE (assert_ptr 200 (h_doc h doc)) (\<lambda>dd.
       bindE (modify (\<lambda>s. s\<lparr>mpEmptyFillStyleSfxItemSet := Some fill_style_item_set\<rparr>)) (\<lambda>_.
       bindE (gets mpEmptyFillStyleSfxItemSet) (assert_ptr 202))))))"

text \<open>Every cached pointer is the host's answer for the cached object it came from.\<close>

definition fixture_inv :: "host \<Rightarrow> fixture \<Rightarrow> bool" where
  "fixture_inv h s =
     ((case mpDocShell s of None \<Rightarrow> True | Some ds \<Rightarrow>
        (case mpImpressDocument s of None \<Rightarrow> False | Some d \<Rightarrow> h_doc_shell h d = Some ds)) \<and>
      (case mpViewShell s of None \<Rightarrow> True | Some vs \<Rightarrow>
        (case mpDocShell s of None \<Rightarrow> False | Some ds \<Rightarrow> h_view_shell h ds = Some vs)) \<and>
      (case mpDrawView s of None \<Rightarrow> True | Some v \<Rightarrow>
        (case mpViewShell s of None \<Rightarrow> False | Some vs \<Rightarrow> draw_view_cast (h_draw_view h vs) = Some v)) \<and>
      (case mpSfxItemSetFromSdrObject s of None \<Rightarrow> True | Some x \<Rightarrow>
        (case mpImpressDocument s of None \<Rightarrow> False | Some d \<Rightarrow> object_item_set h d = Some x)) \<and>
      (case mpEmptySfxItemSet s of None \<Rightarrow> True | Some x \<Rightarrow> x = empty_pool_item_set) \<and>
      (case mpEmptyFillStyleSfxItemSet s of None \<Rightarrow> True | Some x \<Rightarrow> x = fill_style_item_set))"

text \<open>
  A fixture is \<open>ready\<close> for the document \<open>d\<close> when the invariant holds,
  \<open>d\<close> is the loaded Impress document and the host satisfies everything the
  test asserts about it. The \<open>\<dots>_of\<close> functions name the objects the host
  then provides.
\<close>

definition ready :: "host \<Rightarrow> handle \<Rightarrow> fixture \<Rightarrow> bool" where
  "ready h d s \<longleftrightarrow> fixture_inv h s \<and> mpImpressDocument s = Some d \<and> doc_ok h d"

definition doc_shell_of :: "host \<Rightarrow> handle \<Rightarrow> handle" where
  "doc_shell_of h d = the (h_doc_shell h d)"
definition view_shell_of :: "host \<Rightarrow> handle \<Rightarrow> handle" where
  "view_shell_of h d = the (h_view_shell h (doc_shell_of h d))"
definition draw_view_of :: "host \<Rightarrow> handle \<Rightarrow> handle" where
  "draw_view_of h d = the (draw_view_cast (h_draw_view h (view_shell_of h d)))"
definition draw_doc_of :: "host \<Rightarrow> handle \<Rightarrow> handle" where
  "draw_doc_of h d = the (h_doc h d)"
definition page_of :: "host \<Rightarrow> handle \<Rightarrow> handle" where
  "page_of h d = the (h_sd_page h (draw_doc_of h d) 0)"
definition object_of :: "host \<Rightarrow> handle \<Rightarrow> handle" where
  "object_of h d = the (h_obj h (page_of h d) 0)"
definition style_pool_of :: "host \<Rightarrow> handle \<Rightarrow> handle" where
  "style_pool_of h d = the (h_style_pool h (doc_shell_of h d))"
definition first_style_of :: "host \<Rightarrow> handle \<Rightarrow> style_family \<Rightarrow> handle" where
  "first_style_of h d f = the (h_first_style h (style_pool_of h d) f)"

text \<open>The members no getter writes: component, factory, document, dispose log.\<close>

definition fixture_frame :: "fixture \<Rightarrow> handle option \<times> handle option \<times> handle option \<times> handle list" where
  "fixture_frame s = (mxComponent s, mpFact s, mpImpressDocument s, disposed s)"

text \<open>The fixture after \<^verbatim>\<open>setUp\<close> on \<open>example_host\<close>.\<close>

definition example_fixture :: fixture where
  "example_fixture = SdDialogsTest\<lparr>mxComponent := Some 2, mpFact := Some 1, mpImpressDocument := Some 2\<rparr>"

text \<open>
  \<open>runs h d m x\<close>: from every ready fixture, \<open>m\<close> returns \<open>x\<close> and leaves
  the fixture ready. The rules \<open>runs_intros\<close> compute the run of a composed
  operation from the runs of its parts.
\<close>

text \<open>The fixture holds a loaded document (after a successful \<^verbatim>\<open>setUp\<close>).\<close>

definition doc_loaded :: "fixture \<Rightarrow> bool" where
  "doc_loaded s \<longleftrightarrow> mpImpressDocument s \<noteq> None"

definition runs :: "host \<Rightarrow> handle \<Rightarrow> 'a test \<Rightarrow> 'a \<Rightarrow> bool" where
  "runs h d m x \<longleftrightarrow> (\<forall>s. ready h d s \<longrightarrow> (\<exists>s'. m s = (Inr x, s') \<and> ready h d s'))"

subsection \<open>Closed forms, frames and caching of the getters\<close>

text \<open>
  Each getter either returns its cached value, or queries the host, stores
  the answer and returns it, or fails at its assertion (or null dereference)
  with the state it had; it touches only its own cache fields and those of
  the getters it calls.
\<close>

lemma getDocShell_eq:
  "getDocShell h s =
     (case mpDocShell s of Some ds \<Rightarrow> (Inr ds, s) | None \<Rightarrow>
       (case mpImpressDocument s of None \<Rightarrow> (Inl (NullDeref 135), s) | Some d \<Rightarrow>
         (case h_doc_shell h d of None \<Rightarrow> (Inl (AssertFailed 136), s)
          | Some ds \<Rightarrow> (Inr ds, s\<lparr>mpDocShell := Some ds\<rparr>))))"
  by (simp add: getDocShell_def getSdXImpressDocument_def split: option.splits)

lemma fixture_upd_same [simp]:
  "mpDocShell s = x \<Longrightarrow> s\<lparr>mpDocShell := x\<rparr> = s"
  "mpViewShell s = y \<Longrightarrow> s\<lparr>mpViewShell := y\<rparr> = s"
  "mpDrawView s = z \<Longrightarrow> s\<lparr>mpDrawView := z\<rparr> = s"
  by auto

lemma getDocShell_frame: "getDocShell h s = (r, s') \<Longrightarrow> \<exists>x. s' = s\<lparr>mpDocShell := x\<rparr>"
  by (rule exI [of _ "mpDocShell s'"]) (auto simp: getDocShell_eq split: option.splits)

lemma getViewShell_eq:
  "getViewShell h s =
     (case mpViewShell s of Some vs \<Rightarrow> (Inr vs, s) | None \<Rightarrow>
       (case getDocShell h s of (Inl e, s') \<Rightarrow> (Inl e, s') | (Inr ds, s') \<Rightarrow>
         (case h_view_shell h ds of None \<Rightarrow> (Inl (AssertFailed 147), s')
          | Some vs \<Rightarrow> (Inr vs, s'\<lparr>mpViewShell := Some vs\<rparr>))))"
proof (cases "mpViewShell s")
  case None
  obtain r s' where r: "getDocShell h s = (r, s')" by fastforce
  with None have "mpViewShell s' = None" by (auto dest: getDocShell_frame)
  with None r show ?thesis
    by (cases r) (simp_all add: getViewShell_def bindE_Inl bindE_Inr split: option.splits)
qed (simp add: getViewShell_def)

lemma getViewShell_frame:
  "getViewShell h s = (r, s') \<Longrightarrow> \<exists>x y. s' = s\<lparr>mpDocShell := x, mpViewShell := y\<rparr>"
proof (cases "mpViewShell s")
  case None
  assume r: "getViewShell h s = (r, s')"
  obtain r0 s0 where r0: "getDocShell h s = (r0, s0)" by fastforce
  then obtain x where s0: "s0 = s\<lparr>mpDocShell := x\<rparr>" by (auto dest: getDocShell_frame)
  show ?thesis
  proof (cases r0)
    case (Inl e)
    with r r0 None s0 have "s' = s\<lparr>mpDocShell := x, mpViewShell := mpViewShell s\<rparr>"
      by (auto simp: getViewShell_eq)
    then show ?thesis by blast
  next
    case (Inr ds)
    show ?thesis
    proof (cases "h_view_shell h ds")
      case None
      with Inr r r0 \<open>mpViewShell s = None\<close> s0
      have "s' = s\<lparr>mpDocShell := x, mpViewShell := mpViewShell s\<rparr>"
        by (auto simp: getViewShell_eq)
      then show ?thesis by blast
    next
      case (Some vs)
      with Inr r r0 \<open>mpViewShell s = None\<close> s0 have "s' = s\<lparr>mpDocShell := x, mpViewShell := Some vs\<rparr>"
        by (auto simp: getViewShell_eq)
      then show ?thesis by blast
    qed
  qed
next
  case (Some vs)
  moreover assume "getViewShell h s = (r, s')"
  ultimately have "s' = s\<lparr>mpDocShell := mpDocShell s, mpViewShell := mpViewShell s\<rparr>"
    by (simp add: getViewShell_eq)
  then show ?thesis by blast
qed

lemma getDrawView_eq:
  "getDrawView h s =
     (case mpDrawView s of Some v \<Rightarrow> (Inr v, s) | None \<Rightarrow>
       (case getViewShell h s of (Inl e, s') \<Rightarrow> (Inl e, s') | (Inr vs, s') \<Rightarrow>
         (case draw_view_cast (h_draw_view h vs) of None \<Rightarrow> (Inl (AssertFailed 158), s')
          | Some v \<Rightarrow> (Inr v, s'\<lparr>mpDrawView := Some v\<rparr>))))"
proof (cases "mpDrawView s")
  case None
  obtain r s' where r: "getViewShell h s = (r, s')" by fastforce
  with None have "mpDrawView s' = None" by (auto dest: getViewShell_frame)
  with None r show ?thesis
    by (cases r) (simp_all add: getDrawView_def bindE_Inl bindE_Inr split: option.splits)
qed (simp add: getDrawView_def)

lemma getDrawView_frame:
  "getDrawView h s = (r, s') \<Longrightarrow> \<exists>x y z. s' = s\<lparr>mpDocShell := x, mpViewShell := y, mpDrawView := z\<rparr>"
proof (cases "mpDrawView s")
  case None
  assume r: "getDrawView h s = (r, s')"
  obtain r0 s0 where r0: "getViewShell h s = (r0, s0)" by fastforce
  then obtain x y where s0: "s0 = s\<lparr>mpDocShell := x, mpViewShell := y\<rparr>" by (auto dest: getViewShell_frame)
  show ?thesis
  proof (cases r0)
    case (Inl e)
    with r r0 None s0 have "s' = s\<lparr>mpDocShell := x, mpViewShell := y, mpDrawView := mpDrawView s\<rparr>"
      by (auto simp: getDrawView_eq)
    then show ?thesis by blast
  next
    case (Inr vs)
    show ?thesis
    proof (cases "draw_view_cast (h_draw_view h vs)")
      case None
      with Inr r r0 \<open>mpDrawView s = None\<close> s0
      have "s' = s\<lparr>mpDocShell := x, mpViewShell := y, mpDrawView := mpDrawView s\<rparr>"
        by (auto simp: getDrawView_eq)
      then show ?thesis by blast
    next
      case (Some v)
      with Inr r r0 \<open>mpDrawView s = None\<close> s0
      have "s' = s\<lparr>mpDocShell := x, mpViewShell := y, mpDrawView := Some v\<rparr>"
        by (auto simp: getDrawView_eq)
      then show ?thesis by blast
    qed
  qed
next
  case (Some v)
  moreover assume "getDrawView h s = (r, s')"
  ultimately have "s' = s\<lparr>mpDocShell := mpDocShell s, mpViewShell := mpViewShell s,
      mpDrawView := mpDrawView s\<rparr>"
    by (simp add: getDrawView_eq)
  then show ?thesis by blast
qed

lemma getSfxItemSetFromSdrObject_eq:
  "getSfxItemSetFromSdrObject h s =
     (case mpSfxItemSetFromSdrObject s of Some x \<Rightarrow> (Inr x, s) | None \<Rightarrow>
       (case mpImpressDocument s of None \<Rightarrow> (Inl (NullDeref 168), s) | Some d \<Rightarrow>
         (case h_doc h d of None \<Rightarrow> (Inl (AssertFailed 169), s) | Some dd \<Rightarrow>
           (case h_sd_page h dd 0 of None \<Rightarrow> (Inl (AssertFailed 171), s) | Some pg \<Rightarrow>
             (case h_obj h pg 0 of None \<Rightarrow> (Inl (AssertFailed 173), s) | Some ob \<Rightarrow>
               (Inr (h_merged_items h ob), s\<lparr>mpSfxItemSetFromSdrObject := Some (h_merged_items h ob)\<rparr>))))))"
  by (simp add: getSfxItemSetFromSdrObject_def getSdXImpressDocument_def split: option.splits)

lemma getEmptySfxItemSet_eq:
  "getEmptySfxItemSet h s =
     (case mpEmptySfxItemSet s of Some x \<Rightarrow> (Inr x, s) | None \<Rightarrow>
       (case mpImpressDocument s of None \<Rightarrow> (Inl (NullDeref 186), s) | Some d \<Rightarrow>
         (case h_doc h d of None \<Rightarrow> (Inl (AssertFailed 187), s) | Some dd \<Rightarrow>
           (Inr empty_pool_item_set, s\<lparr>mpEmptySfxItemSet := Some empty_pool_item_set\<rparr>))))"
  by (simp add: getEmptySfxItemSet_def getSdXImpressDocument_def split: option.splits)

lemma getEmptyFillStyleSfxItemSet_eq:
  "getEmptyFillStyleSfxItemSet h s =
     (case mpEmptyFillStyleSfxItemSet s of Some x \<Rightarrow> (Inr x, s) | None \<Rightarrow>
       (case mpImpressDocument s of None \<Rightarrow> (Inl (NullDeref 199), s) | Some d \<Rightarrow>
         (case h_doc h d of None \<Rightarrow> (Inl (AssertFailed 200), s) | Some dd \<Rightarrow>
           (Inr fill_style_item_set, s\<lparr>mpEmptyFillStyleSfxItemSet := Some fill_style_item_set\<rparr>))))"
  by (simp add: getEmptyFillStyleSfxItemSet_def getSdXImpressDocument_def split: option.splits)


subsection \<open>The invariant\<close>

lemma getDocShell_cached: "getDocShell h s = (Inr ds, s') \<Longrightarrow> mpDocShell s' = Some ds"
  by (auto simp: getDocShell_eq split: option.splits)

lemma getViewShell_cached: "getViewShell h s = (Inr vs, s') \<Longrightarrow> mpViewShell s' = Some vs"
  by (auto simp: getViewShell_eq split: option.splits prod.splits sum.splits)

lemma getDrawView_cached: "getDrawView h s = (Inr v, s') \<Longrightarrow> mpDrawView s' = Some v"
  by (auto simp: getDrawView_eq split: option.splits prod.splits sum.splits)

lemma getDocShell_inv [preserves_intros]: "preserves (fixture_inv h) (getDocShell h)"
  by (rule preservesI) (auto simp: getDocShell_eq fixture_inv_def split: option.splits)

lemma getViewShell_inv [preserves_intros]: "preserves (fixture_inv h) (getViewShell h)"
proof (rule preservesI)
  fix s assume inv: "fixture_inv h s"
  show "fixture_inv h (snd (getViewShell h s))"
  proof (cases "mpViewShell s")
    case None
    obtain r s0 where r: "getDocShell h s = (r, s0)" by fastforce
    have inv0: "fixture_inv h s0" using preservesD [OF getDocShell_inv inv] r by simp
    from r obtain x where "s0 = s\<lparr>mpDocShell := x\<rparr>" by (auto dest: getDocShell_frame)
    with None inv0 have dv: "mpDrawView s0 = None" and vs: "mpViewShell s0 = None"
      by (auto simp: fixture_inv_def split: option.splits)
    show ?thesis
    proof (cases r)
      case (Inr ds)
      with r have "mpDocShell s0 = Some ds" by (simp add: getDocShell_cached)
      with Inr r None inv0 dv vs show ?thesis
        by (auto simp: getViewShell_eq fixture_inv_def split: option.splits)
    qed (use r None inv0 in \<open>simp add: getViewShell_eq\<close>)
  qed (simp add: getViewShell_eq inv)
qed

lemma getDrawView_inv [preserves_intros]: "preserves (fixture_inv h) (getDrawView h)"
proof (rule preservesI)
  fix s assume inv: "fixture_inv h s"
  show "fixture_inv h (snd (getDrawView h s))"
  proof (cases "mpDrawView s")
    case None
    obtain r s0 where r: "getViewShell h s = (r, s0)" by fastforce
    have inv0: "fixture_inv h s0" using preservesD [OF getViewShell_inv inv] r by simp
    from r obtain x y where "s0 = s\<lparr>mpDocShell := x, mpViewShell := y\<rparr>"
      by (auto dest: getViewShell_frame)
    with None have dv: "mpDrawView s0 = None" by simp
    show ?thesis
    proof (cases r)
      case (Inr vs)
      with r have "mpViewShell s0 = Some vs" by (simp add: getViewShell_cached)
      with Inr r None inv0 dv show ?thesis
        by (auto simp: getDrawView_eq fixture_inv_def split: option.splits)
    qed (use r None inv0 in \<open>simp add: getDrawView_eq\<close>)
  qed (simp add: getDrawView_eq inv)
qed

lemma getSfxItemSetFromSdrObject_inv [preserves_intros]:
  "preserves (fixture_inv h) (getSfxItemSetFromSdrObject h)"
  by (rule preservesI)
    (auto simp: getSfxItemSetFromSdrObject_eq fixture_inv_def object_item_set_def split: option.splits)

lemma getEmptySfxItemSet_inv [preserves_intros]: "preserves (fixture_inv h) (getEmptySfxItemSet h)"
  and getEmptyFillStyleSfxItemSet_inv [preserves_intros]:
    "preserves (fixture_inv h) (getEmptyFillStyleSfxItemSet h)"
  by (auto intro!: preservesI simp: getEmptySfxItemSet_eq getEmptyFillStyleSfxItemSet_eq
      fixture_inv_def split: option.splits)

lemma getSdXImpressDocument_inv [preserves_intros]: "preserves I getSdXImpressDocument"
  and getSdAbstractDialogFactory_inv [preserves_intros]: "preserves I getSdAbstractDialogFactory"
  by (simp_all add: getSdXImpressDocument_def getSdAbstractDialogFactory_def preserves_intros)


lemma frame_preserves:
  assumes "\<And>s r s'. m s = (r, s') \<Longrightarrow> fixture_frame s' = fixture_frame s"
  shows "preserves (\<lambda>s. P (fixture_frame s)) m"
proof (rule preservesI)
  fix s assume "P (fixture_frame s)"
  moreover obtain r s' where "m s = (r, s')" by fastforce
  ultimately show "P (fixture_frame (snd (m s)))" using assms by simp
qed

lemma getters_keep_frame [preserves_intros]:
  "preserves (\<lambda>s. P (fixture_frame s)) (getDocShell h)"
  "preserves (\<lambda>s. P (fixture_frame s)) (getViewShell h)"
  "preserves (\<lambda>s. P (fixture_frame s)) (getDrawView h)"
  "preserves (\<lambda>s. P (fixture_frame s)) (getSfxItemSetFromSdrObject h)"
  "preserves (\<lambda>s. P (fixture_frame s)) (getEmptySfxItemSet h)"
  "preserves (\<lambda>s. P (fixture_frame s)) (getEmptyFillStyleSfxItemSet h)"
  by (rule frame_preserves; auto simp: fixture_frame_def getSfxItemSetFromSdrObject_eq
      getEmptySfxItemSet_eq getEmptyFillStyleSfxItemSet_eq split: option.splits
      dest!: getDocShell_frame getViewShell_frame getDrawView_frame)+

subsection \<open>Running from a ready fixture\<close>

lemmas canonical_defs = doc_shell_of_def view_shell_of_def draw_view_of_def draw_doc_of_def
  page_of_def object_of_def style_pool_of_def first_style_of_def

lemma doc_ok_objects:
  assumes "doc_ok h d"
  shows "h_doc_shell h d = Some (doc_shell_of h d)"
    and "h_view_shell h (doc_shell_of h d) = Some (view_shell_of h d)"
    and "draw_view_cast (h_draw_view h (view_shell_of h d)) = Some (draw_view_of h d)"
    and "h_doc h d = Some (draw_doc_of h d)"
    and "h_sd_page h (draw_doc_of h d) 0 = Some (page_of h d)"
    and "h_obj h (page_of h d) 0 = Some (object_of h d)"
    and "h_style_pool h (doc_shell_of h d) = Some (style_pool_of h d)"
    and "h_first_style h (style_pool_of h d) f = Some (first_style_of h d f)"
proof -
  from assms show "h_first_style h (style_pool_of h d) f = Some (first_style_of h d f)"
    by (cases f) (auto simp: doc_ok_def canonical_defs split: option.splits)
qed (use assms in \<open>simp_all add: doc_ok_def object_item_set_def canonical_defs split: option.splits\<close>)

named_theorems runs_intros "rules computing an operation run from a ready fixture"

lemma runsI:
  "(\<And>s. ready h d s \<Longrightarrow> \<exists>s'. m s = (Inr x, s') \<and> ready h d s') \<Longrightarrow> runs h d m x"
  by (simp add: runs_def)

lemma runsD: "runs h d m x \<Longrightarrow> ready h d s \<Longrightarrow> \<exists>s'. m s = (Inr x, s') \<and> ready h d s'"
  by (simp add: runs_def)

lemma runs_ok [runs_intros]: "runs h d (ok x) x"
  by (simp add: runs_def)

lemma runs_bindE [runs_intros]: "runs h d m x \<Longrightarrow> runs h d (f x) y \<Longrightarrow> runs h d (bindE m f) y"
  by (fastforce simp: runs_def bindE_def)

lemma runs_assert_Some [runs_intros]: "runs h d (assert_ptr l (Some x)) x"
  and runs_deref_Some [runs_intros]: "runs h d (deref l (Some x)) x"
  by (simp_all add: runs_def)

lemma runs_getSdXImpressDocument [runs_intros]: "runs h d getSdXImpressDocument (Some d)"
  by (simp add: runs_def ready_def getSdXImpressDocument_def gets_def)


lemma inv_doc_shell:
  "fixture_inv h s \<Longrightarrow> mpImpressDocument s = Some d \<Longrightarrow> mpDocShell s = Some ds \<Longrightarrow>
   h_doc_shell h d = Some ds"
  by (simp add: fixture_inv_def)

lemma ready_preserved:
  assumes "preserves (fixture_inv h) m" and "ready h d s" and "m s = (r, s')"
    and "mpImpressDocument s' = mpImpressDocument s"
  shows "ready h d s'"
proof -
  from assms(2) have "fixture_inv h s" by (simp add: ready_def)
  with assms(1) have "fixture_inv h (snd (m s))" by (rule preservesD)
  with assms show ?thesis by (simp add: ready_def)
qed

lemma inv_view_shell:
  "fixture_inv h s \<Longrightarrow> mpViewShell s = Some vs \<Longrightarrow> \<exists>ds. mpDocShell s = Some ds \<and> h_view_shell h ds = Some vs"
  by (auto simp: fixture_inv_def split: option.splits)

lemma inv_draw_view:
  "fixture_inv h s \<Longrightarrow> mpDrawView s = Some v \<Longrightarrow>
   \<exists>vs. mpViewShell s = Some vs \<and> draw_view_cast (h_draw_view h vs) = Some v"
  by (auto simp: fixture_inv_def split: option.splits)

lemma inv_object_items:
  "fixture_inv h s \<Longrightarrow> mpImpressDocument s = Some d \<Longrightarrow> mpSfxItemSetFromSdrObject s = Some x \<Longrightarrow>
   object_item_set h d = Some x"
  and inv_empty_items: "fixture_inv h s \<Longrightarrow> mpEmptySfxItemSet s = Some y \<Longrightarrow> y = empty_pool_item_set"
  and inv_fill_items: "fixture_inv h s \<Longrightarrow> mpEmptyFillStyleSfxItemSet s = Some z \<Longrightarrow> z = fill_style_item_set"
  by (simp_all add: fixture_inv_def)

lemma getters_keep_document:
  "getDocShell h s = (r1, s1) \<Longrightarrow> mpImpressDocument s1 = mpImpressDocument s"
  "getViewShell h s = (r2, s2) \<Longrightarrow> mpImpressDocument s2 = mpImpressDocument s"
  "getDrawView h s = (r3, s3) \<Longrightarrow> mpImpressDocument s3 = mpImpressDocument s"
  "getSfxItemSetFromSdrObject h s = (r4, s4) \<Longrightarrow> mpImpressDocument s4 = mpImpressDocument s"
  "getEmptySfxItemSet h s = (r5, s5) \<Longrightarrow> mpImpressDocument s5 = mpImpressDocument s"
  "getEmptyFillStyleSfxItemSet h s = (r6, s6) \<Longrightarrow> mpImpressDocument s6 = mpImpressDocument s"
  by (auto dest!: getDocShell_frame getViewShell_frame getDrawView_frame
      simp: getSfxItemSetFromSdrObject_eq getEmptySfxItemSet_eq getEmptyFillStyleSfxItemSet_eq
      split: option.splits)

lemma runs_by_result:
  assumes "preserves (fixture_inv h) m"
    and "\<And>s r s'. m s = (r, s') \<Longrightarrow> mpImpressDocument s' = mpImpressDocument s"
    and "\<And>s. ready h d s \<Longrightarrow> fst (m s) = Inr x"
  shows "runs h d m x"
proof (rule runsI)
  fix s assume rd: "ready h d s"
  obtain r s' where r: "m s = (r, s')" by fastforce
  with assms(2) have "mpImpressDocument s' = mpImpressDocument s" .
  with rd r have "ready h d s'" by (rule ready_preserved [OF assms(1)])
  moreover from assms(3) [OF rd] r have "r = Inr x" by simp
  ultimately show "\<exists>s'. m s = (Inr x, s') \<and> ready h d s'" using r by blast
qed

lemma runs_getDocShell [runs_intros]: "runs h d (getDocShell h) (doc_shell_of h d)"
proof (rule runs_by_result [OF getDocShell_inv getters_keep_document(1)])
  fix s assume "ready h d s"
  then have inv: "fixture_inv h s" and doc: "mpImpressDocument s = Some d" and ok: "doc_ok h d"
    by (simp_all add: ready_def)
  show "fst (getDocShell h s) = Inr (doc_shell_of h d)"
  proof (cases "mpDocShell s")
    case (Some ds)
    with inv doc have "h_doc_shell h d = Some ds" by (rule inv_doc_shell)
    with Some doc_ok_objects(1) [OF ok] show ?thesis by (simp add: getDocShell_eq)
  qed (use doc doc_ok_objects(1) [OF ok] in \<open>simp add: getDocShell_eq\<close>)
qed

lemma runs_getViewShell [runs_intros]: "runs h d (getViewShell h) (view_shell_of h d)"
proof (rule runs_by_result [OF getViewShell_inv getters_keep_document(2)])
  fix s assume rd: "ready h d s"
  then have inv: "fixture_inv h s" and doc: "mpImpressDocument s = Some d" and ok: "doc_ok h d"
    by (simp_all add: ready_def)
  show "fst (getViewShell h s) = Inr (view_shell_of h d)"
  proof (cases "mpViewShell s")
    case None
    from runsD [OF runs_getDocShell rd] obtain s0 where "getDocShell h s = (Inr (doc_shell_of h d), s0)"
      by blast
    with None doc_ok_objects(2) [OF ok] show ?thesis by (simp add: getViewShell_eq)
  next
    case (Some vs)
    with inv obtain ds where ds: "mpDocShell s = Some ds" and vs: "h_view_shell h ds = Some vs"
      by (blast dest: inv_view_shell)
    from inv doc ds have "h_doc_shell h d = Some ds" by (rule inv_doc_shell)
    with vs Some doc_ok_objects(1,2) [OF ok] show ?thesis by (simp add: getViewShell_eq)
  qed
qed

lemma runs_getDrawView [runs_intros]: "runs h d (getDrawView h) (draw_view_of h d)"
proof (rule runs_by_result [OF getDrawView_inv getters_keep_document(3)])
  fix s assume rd: "ready h d s"
  then have inv: "fixture_inv h s" and doc: "mpImpressDocument s = Some d" and ok: "doc_ok h d"
    by (simp_all add: ready_def)
  show "fst (getDrawView h s) = Inr (draw_view_of h d)"
  proof (cases "mpDrawView s")
    case None
    from runsD [OF runs_getViewShell rd] obtain s0 where "getViewShell h s = (Inr (view_shell_of h d), s0)"
      by blast
    with None doc_ok_objects(3) [OF ok] show ?thesis by (simp add: getDrawView_eq)
  next
    case (Some v)
    with inv obtain vs where vs: "mpViewShell s = Some vs" and v: "draw_view_cast (h_draw_view h vs) = Some v"
      by (blast dest: inv_draw_view)
    from inv vs obtain ds where ds: "mpDocShell s = Some ds" and "h_view_shell h ds = Some vs"
      by (blast dest: inv_view_shell)
    moreover from inv doc ds have "h_doc_shell h d = Some ds" by (rule inv_doc_shell)
    ultimately have "vs = view_shell_of h d" using doc_ok_objects(1,2) [OF ok] by simp
    with v Some doc_ok_objects(3) [OF ok] show ?thesis by (simp add: getDrawView_eq)
  qed
qed

lemma runs_getSfxItemSetFromSdrObject [runs_intros]:
  "runs h d (getSfxItemSetFromSdrObject h) (h_merged_items h (object_of h d))"
proof (rule runs_by_result [OF getSfxItemSetFromSdrObject_inv getters_keep_document(4)])
  fix s assume "ready h d s"
  then have inv: "fixture_inv h s" and doc: "mpImpressDocument s = Some d" and ok: "doc_ok h d"
    by (simp_all add: ready_def)
  then have obj: "object_item_set h d = Some (h_merged_items h (object_of h d))"
    using doc_ok_objects(4,5,6) [OF ok] by (simp add: object_item_set_def)
  show "fst (getSfxItemSetFromSdrObject h s) = Inr (h_merged_items h (object_of h d))"
  proof (cases "mpSfxItemSetFromSdrObject s")
    case (Some x)
    with inv doc have "object_item_set h d = Some x" by (rule inv_object_items)
    with Some obj show ?thesis by (simp add: getSfxItemSetFromSdrObject_eq)
  qed (use doc doc_ok_objects(4,5,6) [OF ok] in \<open>simp add: getSfxItemSetFromSdrObject_eq\<close>)
qed

lemma runs_getEmptySfxItemSet [runs_intros]: "runs h d (getEmptySfxItemSet h) empty_pool_item_set"
  by (rule runs_by_result [OF getEmptySfxItemSet_inv getters_keep_document(5)])
    (auto simp: ready_def getEmptySfxItemSet_eq doc_ok_objects(4) dest: inv_empty_items
      split: option.splits)

lemma runs_getEmptyFillStyleSfxItemSet [runs_intros]:
  "runs h d (getEmptyFillStyleSfxItemSet h) fill_style_item_set"
  by (rule runs_by_result [OF getEmptyFillStyleSfxItemSet_inv getters_keep_document(6)])
    (auto simp: ready_def getEmptyFillStyleSfxItemSet_eq doc_ok_objects(4) dest: inv_fill_items
      split: option.splits)

lemma runs_assert_host:
  assumes "doc_ok h d \<Longrightarrow> p = Some x"
  shows "runs h d (assert_ptr l p) x"
  using assms by (auto simp: runs_def ready_def)

lemma runs_host_objects [runs_intros]:
  "runs h d (assert_ptr l (h_doc h d)) (draw_doc_of h d)"
  "runs h d (assert_ptr l (h_sd_page h (draw_doc_of h d) 0)) (page_of h d)"
  "runs h d (assert_ptr l (h_obj h (page_of h d) 0)) (object_of h d)"
  "runs h d (assert_ptr l (h_style_pool h (doc_shell_of h d))) (style_pool_of h d)"
  "runs h d (assert_ptr l (h_first_style h (style_pool_of h d) f)) (first_style_of h d f)"
  by (rule runs_assert_host; simp add: doc_ok_objects)+

subsection \<open>Lifecycle and getter properties\<close>

lemma getDocShell_coherent:
  "fixture_inv h s \<Longrightarrow> mpImpressDocument s = Some d \<Longrightarrow> h_doc_shell h d = Some ds \<Longrightarrow>
   getDocShell h s = (Inr ds, s\<lparr>mpDocShell := Some ds\<rparr>)"
  by (auto simp: getDocShell_eq fixture_inv_def split: option.splits)

lemma getViewShell_coherent:
  assumes "fixture_inv h s" and "mpImpressDocument s = Some d" and "h_doc_shell h d = Some ds"
    and "h_view_shell h ds = Some vs"
  shows "getViewShell h s = (Inr vs, s\<lparr>mpDocShell := Some ds, mpViewShell := Some vs\<rparr>)"
proof (cases "mpViewShell s")
  case None
  with getDocShell_coherent [OF assms(1-3)] assms(4) show ?thesis by (simp add: getViewShell_eq)
next
  case (Some vs')
  with assms have "mpDocShell s = Some ds" and "vs' = vs"
    by (auto simp: fixture_inv_def split: option.splits)
  with Some show ?thesis by (simp add: getViewShell_eq)
qed

lemma getters_keep_doc_loaded [preserves_intros]:
  "preserves doc_loaded (getDocShell h)" "preserves doc_loaded (getViewShell h)"
  "preserves doc_loaded (getDrawView h)" "preserves doc_loaded (getSfxItemSetFromSdrObject h)"
  "preserves doc_loaded (getEmptySfxItemSet h)" "preserves doc_loaded (getEmptyFillStyleSfxItemSet h)"
proof -
  have eq: "doc_loaded = (\<lambda>s. (\<lambda>f. fst (snd (snd f)) \<noteq> None) (fixture_frame s))"
    by (simp add: fun_eq_iff doc_loaded_def fixture_frame_def)
  show "preserves doc_loaded (getDocShell h)" "preserves doc_loaded (getViewShell h)"
    "preserves doc_loaded (getDrawView h)" "preserves doc_loaded (getSfxItemSetFromSdrObject h)"
    "preserves doc_loaded (getEmptySfxItemSet h)" "preserves doc_loaded (getEmptyFillStyleSfxItemSet h)"
    unfolding eq by (rule getters_keep_frame)+
qed

lemma cache_updates_keep_doc_loaded [preserves_intros]:
  "preserves doc_loaded (modify (mpDocShell_update g))"
  "preserves doc_loaded (modify (mpViewShell_update g))"
  "preserves doc_loaded (modify (mpDrawView_update g))"
  by (simp_all add: preserves_def doc_loaded_def)

lemma getDocShell_fails [fails_intros]: "fails_only doc_loaded is_assert (getDocShell h)"
  by (rule fails_onlyI) (auto simp: doc_loaded_def getDocShell_eq split: option.splits)

lemma getViewShell_fails [fails_intros]: "fails_only doc_loaded is_assert (getViewShell h)"
  unfolding getViewShell_def by (intro fails_intros preserves_intros)

lemma getDrawView_fails [fails_intros]: "fails_only doc_loaded is_assert (getDrawView h)"
  unfolding getDrawView_def by (intro fails_intros preserves_intros)

lemma item_getters_fail [fails_intros]:
  "fails_only doc_loaded is_assert (getSfxItemSetFromSdrObject h)"
  "fails_only doc_loaded is_assert (getEmptySfxItemSet h)"
  "fails_only doc_loaded is_assert (getEmptyFillStyleSfxItemSet h)"
  by (rule fails_onlyI; auto simp: doc_loaded_def getSfxItemSetFromSdrObject_eq getEmptySfxItemSet_eq
      getEmptyFillStyleSfxItemSet_eq split: option.splits)+

lemma setUp_eq:
  "setUp h s =
     (if impress_cast h (h_load h) = None
      then (Inl (AssertFailed 109), s\<lparr>mpFact := h_factory h, mxComponent := h_load h,
                      mpImpressDocument := None\<rparr>)
      else (Inr (), s\<lparr>mpFact := h_factory h, mxComponent := h_load h,
                      mpImpressDocument := impress_cast h (h_load h)\<rparr>))"
  by (cases "impress_cast h (h_load h)") (simp_all add: setUp_def)

lemma example_fixture_factory [simp]: "mpFact example_fixture = Some 1"
  by (simp add: example_fixture_def)

lemma ready_example: "ready example_host 2 example_fixture"
  using example_host_doc_ok
  by (simp add: ready_def fixture_inv_def example_fixture_def SdDialogsTest_def)

lemma setUp_example: "setUp example_host SdDialogsTest = (Inr (), example_fixture)"
  by (simp add: setUp_def example_host_def example_fixture_def SdDialogsTest_def impress_cast_def)

text \<open>
  C6. The lazy getters cache what they fetch: once \<^verbatim>\<open>getDrawView\<close> has
  returned a view, calling it again returns the same view and changes
  nothing, whatever the host would now answer (no second query).
\<close>

theorem getDrawView_memo:
  "getDrawView h s = (Inr v, s') \<Longrightarrow> getDrawView h' s' = (Inr v, s')"
  by (simp add: getDrawView_eq getDrawView_cached)

lemma getDrawView_memo_witness:
  "getDrawView example_host example_fixture =
     (Inr 6, example_fixture\<lparr>mpDocShell := Some 3, mpViewShell := Some 5, mpDrawView := Some 6\<rparr>) \<and>
   getDrawView example_host (example_fixture\<lparr>mpDocShell := Some 3, mpViewShell := Some 5, mpDrawView := Some 6\<rparr>) =
     (Inr 6, example_fixture\<lparr>mpDocShell := Some 3, mpViewShell := Some 5, mpDrawView := Some 6\<rparr>)"
proof -
  have r: "getDrawView example_host example_fixture =
     (Inr 6, example_fixture\<lparr>mpDocShell := Some 3, mpViewShell := Some 5, mpDrawView := Some 6\<rparr>)"
    by (simp add: getDrawView_eq getViewShell_eq getDocShell_eq example_fixture_def SdDialogsTest_def example_host_def)
  show ?thesis using r getDrawView_memo [OF r] by simp
qed

text \<open>
  C8. What \<^verbatim>\<open>getDrawView\<close> returns from a coherent fixture is the draw view of
  the view shell of the document shell of the loaded document: the chain
  of host queries the three getters make, each answer non-null.
\<close>

theorem getDrawView_result:
  assumes "fixture_inv h s" and "mpImpressDocument s = Some d" and "getDrawView h s = (Inr v, s')"
  shows "\<exists>ds vs. h_doc_shell h d = Some ds \<and> h_view_shell h ds = Some vs \<and>
    draw_view_cast (h_draw_view h vs) = Some v"
proof -
  from assms(1) have inv: "fixture_inv h s'" using preservesD [OF getDrawView_inv, of h s] assms(3) by simp
  from assms(3) obtain x y z where "s' = s\<lparr>mpDocShell := x, mpViewShell := y, mpDrawView := z\<rparr>"
    by (blast dest: getDrawView_frame)
  with assms(2) have doc: "mpImpressDocument s' = Some d" by simp
  from assms(3) have "mpDrawView s' = Some v" by (rule getDrawView_cached)
  with inv obtain vs where vs: "mpViewShell s' = Some vs" and v: "draw_view_cast (h_draw_view h vs) = Some v"
    by (blast dest: inv_draw_view)
  from inv vs obtain ds where ds: "mpDocShell s' = Some ds" and "h_view_shell h ds = Some vs"
    by (blast dest: inv_view_shell)
  moreover from inv doc ds have "h_doc_shell h d = Some ds" by (rule inv_doc_shell)
  ultimately show ?thesis using v by blast
qed

lemma getDrawView_result_witness:
  "fixture_inv example_host example_fixture \<and> mpImpressDocument example_fixture = Some 2 \<and>
   getDrawView example_host example_fixture =
     (Inr 6, example_fixture\<lparr>mpDocShell := Some 3, mpViewShell := Some 5, mpDrawView := Some 6\<rparr>) \<and>
   (\<exists>ds vs. h_doc_shell example_host 2 = Some ds \<and> h_view_shell example_host ds = Some vs \<and>
      draw_view_cast (h_draw_view example_host vs) = Some 6)"
proof -
  have i: "fixture_inv example_host example_fixture"
    by (simp add: fixture_inv_def example_fixture_def SdDialogsTest_def)
  have d: "mpImpressDocument example_fixture = Some 2"
    by (simp add: example_fixture_def)
  have r: "getDrawView example_host example_fixture =
     (Inr 6, example_fixture\<lparr>mpDocShell := Some 3, mpViewShell := Some 5, mpDrawView := Some 6\<rparr>)"
    by (simp add: getDrawView_eq getViewShell_eq getDocShell_eq example_fixture_def SdDialogsTest_def
        example_host_def)
  show ?thesis using getDrawView_result [OF i d r] i d r by blast
qed

text \<open>
  C9. On a freshly constructed fixture whose host loads an Impress document
  satisfying every precondition the test asserts, \<^verbatim>\<open>setUp\<close> succeeds and
  leaves a fixture ready for every dialog, holding the factory and the
  loaded component.
\<close>

theorem setUp_ready:
  assumes "h_load h = Some c" and "h_is_impress h c" and "doc_ok h c"
  shows "\<exists>s'. setUp h SdDialogsTest = (Inr (), s') \<and> ready h c s' \<and>
    mpFact s' = h_factory h \<and> mxComponent s' = Some c"
  using assms
  by (simp add: setUp_def SdDialogsTest_def impress_cast_def ready_def fixture_inv_def)

lemma setUp_ready_witness:
  "h_load example_host = Some 2 \<and> h_is_impress example_host 2 \<and> doc_ok example_host 2 \<and>
   (\<exists>s'. setUp example_host SdDialogsTest = (Inr (), s') \<and> ready example_host 2 s' \<and>
      mpFact s' = h_factory example_host \<and> mxComponent s' = Some 2)"
proof -
  have l: "h_load example_host = Some 2" and i: "h_is_impress example_host 2"
    by (simp_all add: example_host_def)
  show ?thesis using setUp_ready [OF l i example_host_doc_ok] l i example_host_doc_ok by blast
qed

text \<open>
  C14. When the load returns no component, or a component that is not an
  Impress document, \<^verbatim>\<open>setUp\<close> fails at the assertion of line 109, after
  storing the factory and whatever component the load returned (so that
  \<^verbatim>\<open>tearDown\<close> can still dispose a non-Impress one).
\<close>

theorem setUp_not_impress:
  "impress_cast h (h_load h) = None \<Longrightarrow>
   setUp h s = (Inl (AssertFailed 109), s\<lparr>mpFact := h_factory h, mxComponent := h_load h, mpImpressDocument := None\<rparr>)"
  by (simp add: setUp_eq)

lemma setUp_not_impress_witness:
  "impress_cast (example_host\<lparr>h_is_impress := \<lambda>d. False\<rparr>) (h_load (example_host\<lparr>h_is_impress := \<lambda>d. False\<rparr>)) = None \<and>
   setUp (example_host\<lparr>h_is_impress := \<lambda>d. False\<rparr>) SdDialogsTest =
     (Inl (AssertFailed 109), SdDialogsTest\<lparr>mpFact := Some 1, mxComponent := Some 2, mpImpressDocument := None\<rparr>)"
proof -
  have n: "impress_cast (example_host\<lparr>h_is_impress := \<lambda>d. False\<rparr>) (h_load (example_host\<lparr>h_is_impress := \<lambda>d. False\<rparr>)) = None"
    by (simp add: impress_cast_def example_host_def)
  show ?thesis using setUp_not_impress [OF n] n by (simp add: example_host_def)
qed

lemma tearDown_eq:
  "tearDown s =
     (let s0 = s\<lparr>mpSfxItemSetFromSdrObject := None, mpEmptySfxItemSet := None,
                 mpEmptyFillStyleSfxItemSet := None\<rparr>
      in case mxComponent s of None \<Rightarrow> (Inl (NullDeref 117), s0)
         | Some c \<Rightarrow> (Inr (), s0\<lparr>disposed := c # disposed s\<rparr>))"
  by (cases "mxComponent s") (simp_all add: tearDown_def)

text \<open>
  C10. \<^verbatim>\<open>tearDown\<close> releases the three cached item sets and disposes the loaded
  component, or dereferences a null component (line 117) when none was
  loaded; the cached document shell, view shell and draw view are left as
  they were.
\<close>

theorem tearDown_effect:
  assumes "tearDown s = (r, s')"
  shows "mpSfxItemSetFromSdrObject s' = None \<and> mpEmptySfxItemSet s' = None \<and>
    mpEmptyFillStyleSfxItemSet s' = None \<and>
    mpDocShell s' = mpDocShell s \<and> mpViewShell s' = mpViewShell s \<and> mpDrawView s' = mpDrawView s \<and>
    (case mxComponent s of
       None \<Rightarrow> r = Inl (NullDeref 117) \<and> disposed s' = disposed s
     | Some c \<Rightarrow> r = Inr () \<and> disposed s' = c # disposed s)"
  using assms by (cases "mxComponent s") (auto simp: tearDown_eq)

lemma tearDown_effect_witness:
  "tearDown example_fixture = (Inr (), example_fixture\<lparr>disposed := [2]\<rparr>) \<and>
   mpSfxItemSetFromSdrObject (example_fixture\<lparr>disposed := [2]\<rparr>) = None \<and>
   (case mxComponent example_fixture of
      None \<Rightarrow> Inr () = Inl (NullDeref 117) \<and> disposed (example_fixture\<lparr>disposed := [2]\<rparr>) = disposed example_fixture
    | Some c \<Rightarrow> Inr () = (Inr () :: error + unit) \<and> disposed (example_fixture\<lparr>disposed := [2]\<rparr>) = c # disposed example_fixture)"
proof -
  have r: "tearDown example_fixture = (Inr (), example_fixture\<lparr>disposed := [2]\<rparr>)"
    by (simp add: tearDown_eq example_fixture_def SdDialogsTest_def)
  show ?thesis using tearDown_effect [OF r] r by blast
qed

text \<open>
  C13. \<^verbatim>\<open>getEmptySfxItemSet\<close> returns an empty pool-wide set, not the set of
  the first object its comment at line 185 mentions.
\<close>

theorem getEmptySfxItemSet_is_empty:
  assumes "fixture_inv h s" and "getEmptySfxItemSet h s = (Inr x, s')"
  shows "x = empty_pool_item_set \<and> items x = Map.empty"
  using assms by (auto simp: getEmptySfxItemSet_eq empty_pool_item_set_def dest: inv_empty_items
      split: option.splits)

lemma getEmptySfxItemSet_is_empty_witness:
  "getEmptySfxItemSet example_host example_fixture =
     (Inr empty_pool_item_set, example_fixture\<lparr>mpEmptySfxItemSet := Some empty_pool_item_set\<rparr>) \<and>
   items empty_pool_item_set = Map.empty \<and>
   h_merged_items example_host 9 \<noteq> empty_pool_item_set"
proof -
  have i: "fixture_inv example_host example_fixture"
    by (simp add: fixture_inv_def example_fixture_def SdDialogsTest_def)
  have r: "getEmptySfxItemSet example_host example_fixture =
     (Inr empty_pool_item_set, example_fixture\<lparr>mpEmptySfxItemSet := Some empty_pool_item_set\<rparr>)"
    by (simp add: getEmptySfxItemSet_eq example_fixture_def SdDialogsTest_def example_host_def)
  have "items (h_merged_items example_host 9) (OtherWhich 1) \<noteq> items empty_pool_item_set (OtherWhich 1)"
    by (simp add: example_host_def empty_pool_item_set_def put_item_def)
  then have "h_merged_items example_host 9 \<noteq> empty_pool_item_set" by auto
  then show ?thesis using getEmptySfxItemSet_is_empty [OF i r] r by blast
qed

text \<open>
  C16. When the view shell's view is not a \<^verbatim>\<open>::sd::DrawView\<close>,
  \<^verbatim>\<open>getDrawView\<close> fails at the assertion of line 158, having cached the
  document shell and the view shell on the way and leaving the draw-view
  cache empty, so a later call tries again.
\<close>

theorem getDrawView_not_draw_view:
  assumes "fixture_inv h s" and "mpDrawView s = None" and "mpImpressDocument s = Some d"
    and "h_doc_shell h d = Some ds" and "h_view_shell h ds = Some vs"
    and "h_draw_view h vs = Some (v, OtherViewKind)"
  shows "getDrawView h s = (Inl (AssertFailed 158), s\<lparr>mpDocShell := Some ds, mpViewShell := Some vs\<rparr>)"
  using getViewShell_coherent [OF assms(1,3-5)] assms(2,6) by (simp add: getDrawView_eq)

lemma getDrawView_not_draw_view_witness:
  "getDrawView (example_host\<lparr>h_draw_view := \<lambda>vs. Some (6, OtherViewKind)\<rparr>) example_fixture =
     (Inl (AssertFailed 158), example_fixture\<lparr>mpDocShell := Some 3, mpViewShell := Some 5\<rparr>)"
proof -
  have i: "fixture_inv (example_host\<lparr>h_draw_view := \<lambda>vs. Some (6, OtherViewKind)\<rparr>) example_fixture"
    and n: "mpDrawView example_fixture = None" and d: "mpImpressDocument example_fixture = Some 2"
    and ds: "h_doc_shell (example_host\<lparr>h_draw_view := \<lambda>vs. Some (6, OtherViewKind)\<rparr>) 2 = Some 3"
    and vs: "h_view_shell (example_host\<lparr>h_draw_view := \<lambda>vs. Some (6, OtherViewKind)\<rparr>) 3 = Some 5"
    and v: "h_draw_view (example_host\<lparr>h_draw_view := \<lambda>vs. Some (6, OtherViewKind)\<rparr>) 5 =
      Some (6, OtherViewKind)"
    by (simp_all add: fixture_inv_def example_fixture_def SdDialogsTest_def example_host_def)
  show ?thesis by (rule getDrawView_not_draw_view [OF i n d ds vs v])
qed

end
