(* ===== verification/Registry.thy ===== *)
theory Registry
  imports Prelude
begin

text \<open>
  The known-dialog registry: \<^verbatim>\<open>registerKnownDialogsByID\<close> assigns each
  dialog's UI-description path a small integer id in the harness's
  \<^verbatim>\<open>mapType\<close> (a \<^verbatim>\<open>std::map<OString, sal_uInt32>\<close>, here a map from strings to
  \<open>32 word\<close>). The twenty-two \<^verbatim>\<open>rKnownDialogs[path] = id\<close> assignments are
  the list \<open>known_dialogs\<close>, executed in order. The lemma shows that
  registering into the empty map gives the ids 0 to 21, each for one path.
\<close>

type_synonym mapType = "string \<rightharpoonup> 32 word"

definition known_dialogs :: "(string \<times> 32 word) list" where
  "known_dialogs =
     [(''modules/sdraw/ui/breakdialog.ui'', 0),
      (''modules/sdraw/ui/copydlg.ui'', 1),
      (''modules/simpress/ui/customslideshows.ui'', 2),
      (''modules/sdraw/ui/drawchardialog.ui'', 3),
      (''modules/sdraw/ui/drawpagedialog.ui'', 4),
      (''modules/simpress/ui/dlgfield.ui'', 5),
      (''modules/sdraw/ui/dlgsnap.ui'', 6),
      (''modules/sdraw/ui/insertlayer.ui'', 7),
      (''modules/sdraw/ui/insertslidesdialog.ui'', 8),
      (''modules/sdraw/ui/crossfadedialog.ui'', 9),
      (''modules/sdraw/ui/bulletsandnumbering.ui'', 10),
      (''modules/sdraw/ui/drawparadialog.ui'', 11),
      (''modules/simpress/ui/presentationdialog.ui'', 12),
      (''modules/simpress/ui/remotedialog.ui'', 13),
      (''modules/sdraw/ui/drawprtldialog.ui'', 14),
      (''modules/simpress/ui/slidedesigndialog.ui'', 15),
      (''modules/simpress/ui/templatedialog.ui'', 16),
      (''modules/simpress/ui/interactiondialog.ui'', 17),
      (''modules/sdraw/ui/vectorize.ui'', 18),
      (''modules/simpress/ui/photoalbum.ui'', 19),
      (''modules/simpress/ui/masterlayoutdlg.ui'', 20),
      (''modules/simpress/ui/headerfooterdialog.ui'', 21)]"

definition registerKnownDialogsByID :: "mapType \<Rightarrow> mapType" where
  "registerKnownDialogsByID rKnownDialogs = assign_all known_dialogs rKnownDialogs"

subsection \<open>The registered ids\<close>

lemma known_dialogs_distinct: "distinct (map fst known_dialogs)" "distinct (map snd known_dialogs)"
  by (simp_all add: known_dialogs_def)

lemma word_below_22:
  fixes n :: "32 word"
  shows "n < 22 \<longleftrightarrow> n \<in> set (map snd known_dialogs)"
proof
  assume "n < 22"
  then have "unat n \<in> {..<22}" by unat_arith
  then have "unat n \<in> unat ` set (map snd known_dialogs)"
    by (simp add: known_dialogs_def lessThan_nat_numeral) (elim disjE; simp)
  then show "n \<in> set (map snd known_dialogs)"
    by (simp add: inj_image_mem_iff inj_def word_unat_eq_iff)
next
  assume "n \<in> set (map snd known_dialogs)"
  then show "n < 22" by (auto simp: known_dialogs_def)
qed

text \<open>
  On a map that already holds entries, the registration overwrites the
  twenty-two paths and keeps every other entry, as the \<^verbatim>\<open>operator[]\<close>
  assignments do.
\<close>

lemma registerKnownDialogsByID_eq:
  "registerKnownDialogsByID m = m ++ map_of known_dialogs"
  by (simp add: registerKnownDialogsByID_def assign_all_eq map_of_rev_distinct known_dialogs_distinct)

lemma registered_id_bound:
  "registerKnownDialogsByID Map.empty p = Some n \<Longrightarrow> n < 22"
  by (auto simp: registerKnownDialogsByID_eq word_below_22 dest: map_of_SomeD intro: rev_image_eqI)

text \<open>
  C4. Registering into the empty map gives twenty-two paths whose ids are
  exactly 0 to 21, and no two paths share an id: the ids are a dense,
  collision-free key for the dispatch.
\<close>

theorem registry_ids:
  "ran (registerKnownDialogsByID Map.empty) = {n. n < 22} \<and>
   card (dom (registerKnownDialogsByID Map.empty)) = 22 \<and>
   inj_on (registerKnownDialogsByID Map.empty) (dom (registerKnownDialogsByID Map.empty))"
proof (intro conjI)
  have m: "registerKnownDialogsByID Map.empty = map_of known_dialogs"
    by (simp add: registerKnownDialogsByID_def assign_all_eq map_of_rev_distinct known_dialogs_distinct)
  show "ran (registerKnownDialogsByID Map.empty) = {n. n < 22}"
    using m known_dialogs_distinct(1) by (auto simp: ran_distinct word_below_22)
  show "card (dom (registerKnownDialogsByID Map.empty)) = 22"
    using m known_dialogs_distinct(1)
    by (simp add: dom_map_of_conv_image_fst distinct_card [symmetric] known_dialogs_def)
  show "inj_on (registerKnownDialogsByID Map.empty) (dom (registerKnownDialogsByID Map.empty))"
    using m known_dialogs_distinct by (auto intro!: inj_onI intro: map_of_injective)
qed

end
