(* ===== verification/Dispatch.thy ===== *)
theory Dispatch
  imports Fixture Registry
begin

text \<open>
  \<^verbatim>\<open>createDialogByID\<close>: given a dialog id, call the host factory method of
  that dialog with the arguments the case assembles, or return an empty
  \<^verbatim>\<open>VclPtr\<close> (\<open>None\<close>) for an id no case handles or when there is no factory.
  The factory methods are not modelled; the dialog they return is the
  constructor of \<open>dialog\<close> named after the method, holding the arguments it
  was called with. Each \<^verbatim>\<open>case n:\<close> block is one definition \<open>create_\<dots>\<close>,
  evaluating the call's arguments from left to right (C++ leaves the order
  unspecified; the getters make it irrelevant for the result, see the
  invariant lemmas of \<open>Fixture\<close>). \<open>dialog_table\<close> lists, for a ready
  fixture, the dialog each id is meant to create; the lemmas show that the
  switch creates exactly that dialog for every id 0..21 from a ready fixture
  with a factory, none for
  any other id, dereferences no null pointer once the document is loaded,
  and keeps the cache invariant on every path.
\<close>

datatype parent = DefDialogParent | FrameWeld handle

datatype presentation_objects = PresObjTitle

datatype bitmap = EmptyBitmap

datatype dialog =
    BreakDlg parent handle handle nat nat
  | CopyDlg parent item_set handle
  | SdCustomShowDlg parent handle
  | SdTabCharDialog parent item_set handle
  | SdTabPageDialog parent item_set handle bool bool
  | SdModifyFieldDlg parent "handle option" item_set
  | SdSnapLineDlg parent item_set handle
  | SdInsertLayerDlg parent item_set bool ustring
  | SdInsertPagesObjsDlg parent handle "handle option" ustring
  | MorphDlg parent handle handle
  | SdOutlineBulletTabDlg parent item_set handle
  | SdParagraphTabDlg parent item_set
  | SdStartPresentationDlg parent item_set "ustring list" "handle option"
  | RemoteDialog parent
  | SdPresLayoutTemplateDlg handle parent bool handle presentation_objects handle
  | SdPresLayoutDlg parent handle item_set
  | SdTabTemplateDlg parent handle handle handle handle
  | SdActionDialog parent item_set handle
  | SdVectorizeDlg parent bitmap handle
  | SdPhotoAlbumDialog parent handle
  | MasterLayoutDialog parent handle handle
  | HeaderFooterDialog handle parent handle handle

text \<open>\<^verbatim>\<open>getViewShell()->GetFrameWeld()\<close>.\<close>

definition frame_weld :: "host \<Rightarrow> parent test" where
  "frame_weld h = bindE (getViewShell h) (\<lambda>vs. ok (FrameWeld (h_frame_weld h vs)))"

text \<open>
  \<^verbatim>\<open>SdDrawDocument* pDrawDoc = getSdXImpressDocument()->GetDoc();
  CPPUNIT_ASSERT(pDrawDoc);\<close> at lines \<open>l\<close> and \<open>l'\<close>.
\<close>

definition get_draw_doc :: "nat \<Rightarrow> nat \<Rightarrow> host \<Rightarrow> handle test" where
  "get_draw_doc l l' h =
     bindE getSdXImpressDocument (\<lambda>p. bindE (deref l p) (\<lambda>doc. assert_ptr l' (h_doc h doc)))"

definition create_BreakDlg :: "host \<Rightarrow> dialog test" where
  "create_BreakDlg h =
     bindE (getDrawView h) (\<lambda>dv. bindE (getDocShell h) (\<lambda>ds.
     ok (BreakDlg DefDialogParent dv ds 0 0)))"

definition create_CopyDlg :: "host \<Rightarrow> dialog test" where
  "create_CopyDlg h =
     bindE (frame_weld h) (\<lambda>w. bindE (getSfxItemSetFromSdrObject h) (\<lambda>set.
     bindE (getDrawView h) (\<lambda>dv. ok (CopyDlg w set dv))))"

definition create_SdCustomShowDlg :: "host \<Rightarrow> dialog test" where
  "create_SdCustomShowDlg h =
     bindE (get_draw_doc 271 272 h) (\<lambda>dd. bindE (frame_weld h) (\<lambda>w.
     ok (SdCustomShowDlg w dd)))"

definition create_SdTabCharDialog :: "host \<Rightarrow> dialog test" where
  "create_SdTabCharDialog h =
     bindE (frame_weld h) (\<lambda>w. bindE (getEmptySfxItemSet h) (\<lambda>set.
     bindE (getDocShell h) (\<lambda>ds. ok (SdTabCharDialog w set ds))))"

definition create_SdTabPageDialog :: "host \<Rightarrow> dialog test" where
  "create_SdTabPageDialog h =
     bindE (frame_weld h) (\<lambda>w. bindE (getEmptyFillStyleSfxItemSet h) (\<lambda>set.
     bindE (getDocShell h) (\<lambda>ds. ok (SdTabPageDialog w set ds True False))))"

definition create_SdModifyFieldDlg :: "host \<Rightarrow> dialog test" where
  "create_SdModifyFieldDlg h =
     bindE (frame_weld h) (\<lambda>w. bindE (getEmptySfxItemSet h) (\<lambda>set.
     ok (SdModifyFieldDlg w None set)))"

definition create_SdSnapLineDlg :: "host \<Rightarrow> dialog test" where
  "create_SdSnapLineDlg h =
     bindE (get_draw_doc 313 314 h) (\<lambda>dd. bindE (frame_weld h) (\<lambda>w.
     bindE (getDrawView h) (\<lambda>dv. ok (SdSnapLineDlg w snapline_item_set dv))))"

definition create_SdInsertLayerDlg :: "host \<Rightarrow> dialog test" where
  "create_SdInsertLayerDlg h =
     bindE (get_draw_doc 327 328 h) (\<lambda>dd. bindE (frame_weld h) (\<lambda>w.
     ok (SdInsertLayerDlg w layer_item_set True (Res ''STR_INSERTLAYER''))))"

definition create_SdInsertPagesObjsDlg :: "host \<Rightarrow> dialog test" where
  "create_SdInsertPagesObjsDlg h =
     bindE (get_draw_doc 348 349 h) (\<lambda>dd. bindE (frame_weld h) (\<lambda>w.
     ok (SdInsertPagesObjsDlg w dd None (Lit ''foo''))))"

definition create_MorphDlg :: "host \<Rightarrow> dialog test" where
  "create_MorphDlg h =
     bindE (get_draw_doc 360 361 h) (\<lambda>dd.
     bindE (assert_ptr 363 (h_sd_page h dd 0)) (\<lambda>pg.
     bindE (assert_ptr 366 (h_obj h pg 0)) (\<lambda>ob.
     ok (MorphDlg DefDialogParent ob ob))))"

definition create_SdOutlineBulletTabDlg :: "host \<Rightarrow> dialog test" where
  "create_SdOutlineBulletTabDlg h =
     bindE (getEmptySfxItemSet h) (\<lambda>set. bindE (getDrawView h) (\<lambda>dv.
     ok (SdOutlineBulletTabDlg DefDialogParent set dv)))"

definition create_SdParagraphTabDlg :: "host \<Rightarrow> dialog test" where
  "create_SdParagraphTabDlg h =
     bindE (frame_weld h) (\<lambda>w. bindE (getEmptySfxItemSet h) (\<lambda>set.
     ok (SdParagraphTabDlg w set)))"

definition create_SdStartPresentationDlg :: "host \<Rightarrow> dialog test" where
  "create_SdStartPresentationDlg h =
     bindE (get_draw_doc 393 394 h) (\<lambda>dd.
     ok (SdStartPresentationDlg DefDialogParent (presentation_item_set (h_presentation h dd)) [] None))"

definition create_RemoteDialog :: "host \<Rightarrow> dialog test" where
  "create_RemoteDialog h = ok (RemoteDialog DefDialogParent)"

definition create_SdPresLayoutTemplateDlg :: "host \<Rightarrow> dialog test" where
  "create_SdPresLayoutTemplateDlg h =
     bindE (getDocShell h) (\<lambda>ds.
     bindE (assert_ptr 434 (h_style_pool h ds)) (\<lambda>pool.
     bindE (assert_ptr 436 (h_first_style h pool Page)) (\<lambda>st.
     bindE (getDocShell h) (\<lambda>ds'.
     ok (SdPresLayoutTemplateDlg ds' DefDialogParent False st PresObjTitle pool)))))"

definition create_SdPresLayoutDlg :: "host \<Rightarrow> dialog test" where
  "create_SdPresLayoutDlg h =
     bindE (getDocShell h) (\<lambda>ds. bindE (getEmptySfxItemSet h) (\<lambda>set.
     ok (SdPresLayoutDlg DefDialogParent ds set)))"

definition create_SdTabTemplateDlg :: "host \<Rightarrow> dialog test" where
  "create_SdTabTemplateDlg h =
     bindE (getDocShell h) (\<lambda>ds.
     bindE (assert_ptr 461 (h_style_pool h ds)) (\<lambda>pool.
     bindE (assert_ptr 463 (h_first_style h pool Pseudo)) (\<lambda>st.
     bindE (get_draw_doc 464 465 h) (\<lambda>dd.
     bindE (frame_weld h) (\<lambda>w. bindE (getDocShell h) (\<lambda>ds'.
     bindE (getDrawView h) (\<lambda>dv. ok (SdTabTemplateDlg w ds' st dd dv))))))))"

definition create_SdActionDialog :: "host \<Rightarrow> dialog test" where
  "create_SdActionDialog h =
     bindE (get_draw_doc 477 478 h) (\<lambda>dd. bindE (frame_weld h) (\<lambda>w.
     bindE (getDrawView h) (\<lambda>dv. ok (SdActionDialog w action_item_set dv))))"

definition create_SdVectorizeDlg :: "host \<Rightarrow> dialog test" where
  "create_SdVectorizeDlg h =
     bindE (getDocShell h) (\<lambda>ds. ok (SdVectorizeDlg DefDialogParent EmptyBitmap ds))"

definition create_SdPhotoAlbumDialog :: "host \<Rightarrow> dialog test" where
  "create_SdPhotoAlbumDialog h =
     bindE (get_draw_doc 516 517 h) (\<lambda>dd. ok (SdPhotoAlbumDialog DefDialogParent dd))"

definition create_MasterLayoutDialog :: "host \<Rightarrow> dialog test" where
  "create_MasterLayoutDialog h =
     bindE (get_draw_doc 526 527 h) (\<lambda>dd.
     bindE (assert_ptr 529 (h_sd_page h dd 0)) (\<lambda>pg.
     ok (MasterLayoutDialog DefDialogParent dd pg)))"

definition create_HeaderFooterDialog :: "host \<Rightarrow> dialog test" where
  "create_HeaderFooterDialog h =
     bindE (get_draw_doc 545 546 h) (\<lambda>dd.
     bindE (assert_ptr 548 (h_sd_page h dd 0)) (\<lambda>pg.
     bindE (getViewShell h) (\<lambda>vs. ok (HeaderFooterDialog vs DefDialogParent dd pg))))"

text \<open>\<^verbatim>\<open>pRetval = \<dots>; break;\<close>: the created dialog becomes the non-empty result.\<close>

definition assign_pRetval :: "dialog test \<Rightarrow> dialog option test" where
  "assign_pRetval m = bindE m (\<lambda>dlg. ok (Some dlg))"

text \<open>The \<^verbatim>\<open>switch (nID)\<close>, with \<^verbatim>\<open>default: break;\<close> leaving \<^verbatim>\<open>pRetval\<close> empty.\<close>

definition dialog_switch :: "host \<Rightarrow> 32 word \<Rightarrow> dialog option test" where
  "dialog_switch h nID =
     (if nID = 0 then assign_pRetval (create_BreakDlg h)
      else if nID = 1 then assign_pRetval (create_CopyDlg h)
      else if nID = 2 then assign_pRetval (create_SdCustomShowDlg h)
      else if nID = 3 then assign_pRetval (create_SdTabCharDialog h)
      else if nID = 4 then assign_pRetval (create_SdTabPageDialog h)
      else if nID = 5 then assign_pRetval (create_SdModifyFieldDlg h)
      else if nID = 6 then assign_pRetval (create_SdSnapLineDlg h)
      else if nID = 7 then assign_pRetval (create_SdInsertLayerDlg h)
      else if nID = 8 then assign_pRetval (create_SdInsertPagesObjsDlg h)
      else if nID = 9 then assign_pRetval (create_MorphDlg h)
      else if nID = 10 then assign_pRetval (create_SdOutlineBulletTabDlg h)
      else if nID = 11 then assign_pRetval (create_SdParagraphTabDlg h)
      else if nID = 12 then assign_pRetval (create_SdStartPresentationDlg h)
      else if nID = 13 then assign_pRetval (create_RemoteDialog h)
      else if nID = 14 then assign_pRetval (create_SdPresLayoutTemplateDlg h)
      else if nID = 15 then assign_pRetval (create_SdPresLayoutDlg h)
      else if nID = 16 then assign_pRetval (create_SdTabTemplateDlg h)
      else if nID = 17 then assign_pRetval (create_SdActionDialog h)
      else if nID = 18 then assign_pRetval (create_SdVectorizeDlg h)
      else if nID = 19 then assign_pRetval (create_SdPhotoAlbumDialog h)
      else if nID = 20 then assign_pRetval (create_MasterLayoutDialog h)
      else if nID = 21 then assign_pRetval (create_HeaderFooterDialog h)
      else ok None)"

definition createDialogByID :: "host \<Rightarrow> 32 word \<Rightarrow> dialog option test" where
  "createDialogByID h nID =
     bindE getSdAbstractDialogFactory (\<lambda>fact.
       if fact \<noteq> None then dialog_switch h nID else ok None)"

text \<open>
  What each case should create from a ready fixture: the factory method of
  the id with the objects of the loaded document as arguments (the first
  object's item set for the copy dialog, the empty pool set where the code
  asks for an empty one, the fill-style set for the page dialog, the sets of
  \<open>Bundles\<close> for ids 6, 7, 12 and 17).
\<close>

definition dialog_table :: "host \<Rightarrow> handle \<Rightarrow> dialog list" where
  "dialog_table h d =
     (let w = FrameWeld (h_frame_weld h (view_shell_of h d)); ds = doc_shell_of h d;
          dv = draw_view_of h d; dd = draw_doc_of h d in
     [BreakDlg DefDialogParent dv ds 0 0,
      CopyDlg w (h_merged_items h (object_of h d)) dv,
      SdCustomShowDlg w dd,
      SdTabCharDialog w empty_pool_item_set ds,
      SdTabPageDialog w fill_style_item_set ds True False,
      SdModifyFieldDlg w None empty_pool_item_set,
      SdSnapLineDlg w snapline_item_set dv,
      SdInsertLayerDlg w layer_item_set True (Res ''STR_INSERTLAYER''),
      SdInsertPagesObjsDlg w dd None (Lit ''foo''),
      MorphDlg DefDialogParent (object_of h d) (object_of h d),
      SdOutlineBulletTabDlg DefDialogParent empty_pool_item_set dv,
      SdParagraphTabDlg w empty_pool_item_set,
      SdStartPresentationDlg DefDialogParent (presentation_item_set (h_presentation h dd)) [] None,
      RemoteDialog DefDialogParent,
      SdPresLayoutTemplateDlg ds DefDialogParent False (first_style_of h d Page) PresObjTitle
        (style_pool_of h d),
      SdPresLayoutDlg DefDialogParent ds empty_pool_item_set,
      SdTabTemplateDlg w ds (first_style_of h d Pseudo) dd dv,
      SdActionDialog w action_item_set dv,
      SdVectorizeDlg DefDialogParent EmptyBitmap ds,
      SdPhotoAlbumDialog DefDialogParent dd,
      MasterLayoutDialog DefDialogParent dd (page_of h d),
      HeaderFooterDialog (view_shell_of h d) DefDialogParent dd (page_of h d)])"

lemmas create_defs = create_BreakDlg_def create_CopyDlg_def create_SdCustomShowDlg_def
  create_SdTabCharDialog_def create_SdTabPageDialog_def create_SdModifyFieldDlg_def
  create_SdSnapLineDlg_def create_SdInsertLayerDlg_def create_SdInsertPagesObjsDlg_def
  create_MorphDlg_def create_SdOutlineBulletTabDlg_def create_SdParagraphTabDlg_def
  create_SdStartPresentationDlg_def create_RemoteDialog_def create_SdPresLayoutTemplateDlg_def
  create_SdPresLayoutDlg_def create_SdTabTemplateDlg_def create_SdActionDialog_def
  create_SdVectorizeDlg_def create_SdPhotoAlbumDialog_def create_MasterLayoutDialog_def
  create_HeaderFooterDialog_def

subsection \<open>Every registered id creates its dialog\<close>

lemma runs_frame_weld [runs_intros]: "runs h d (frame_weld h) (FrameWeld (h_frame_weld h (view_shell_of h d)))"
  unfolding frame_weld_def by (rule runs_intros)+

lemma runs_get_draw_doc [runs_intros]: "runs h d (get_draw_doc l l' h) (draw_doc_of h d)"
  unfolding get_draw_doc_def by (rule runs_intros)+

lemma runs_assign_pRetval [runs_intros]:
  assumes "runs h d m x" shows "runs h d (assign_pRetval m) (Some x)"
  unfolding assign_pRetval_def by (rule runs_bindE [OF assms runs_ok])

lemma dialog_switch_table:
  assumes "n < 22"
  shows "runs h d (dialog_switch h n) (Some (dialog_table h d ! unat n))"
proof -
  from assms have "n \<in> set (map snd known_dialogs)" by (simp add: word_below_22)
  then show ?thesis
    by (simp add: known_dialogs_def)
      (elim disjE; simp add: dialog_switch_def dialog_table_def Let_def; unfold create_defs;
        (rule runs_intros)+)
qed

lemma dialog_switch_unknown:
  assumes "\<not> n < 22"
  shows "dialog_switch h n = ok None"
proof -
  from assms have "n \<notin> set (map snd known_dialogs)" by (simp add: word_below_22)
  then show ?thesis by (simp add: known_dialogs_def dialog_switch_def)
qed

lemma createDialogByID_eq:
  "createDialogByID h n s = (if mpFact s \<noteq> None then dialog_switch h n s else (Inr None, s))"
  by (simp add: createDialogByID_def getSdAbstractDialogFactory_def)

lemma createDialogByID_known:
  assumes "ready h d s" and "mpFact s \<noteq> None" and "n < 22"
  shows "\<exists>s'. createDialogByID h n s = (Inr (Some (dialog_table h d ! unat n)), s') \<and> ready h d s'"
  using runsD [OF dialog_switch_table [OF assms(3) ] assms(1)] assms(2)
  by (auto simp: createDialogByID_eq)

text \<open>
  C2. An id outside 0..21 (the \<^verbatim>\<open>default:\<close> branch), or any id when no dialog
  factory was created, yields the empty result and leaves the fixture
  unchanged: no getter runs and nothing is asserted.
\<close>

theorem createDialogByID_unknown:
  "\<not> n < 22 \<or> mpFact s = None \<Longrightarrow> createDialogByID h n s = (Inr None, s)"
  by (auto simp: createDialogByID_eq dialog_switch_unknown)

lemma createDialogByID_unknown_witness:
  "\<not> (22::32 word) < 22 \<and>
   createDialogByID example_host 22 example_fixture = (Inr None, example_fixture)"
proof -
  have n: "\<not> (22::32 word) < 22 \<or> mpFact example_fixture = None" by simp
  show ?thesis using createDialogByID_unknown [OF n] n by blast
qed

lemma createDialogByID_inv [preserves_intros]: "preserves (fixture_inv h) (createDialogByID h n)"
  unfolding createDialogByID_def dialog_switch_def assign_pRetval_def create_defs frame_weld_def
    get_draw_doc_def
  by (intro preserves_intros)

text \<open>
  C7. Creating any dialog, successfully or not, keeps the fixture's cache
  coherent: every cached pointer afterwards is still the host's answer for
  the object it was fetched from.
\<close>

theorem createDialogByID_keeps_inv:
  "fixture_inv h s \<Longrightarrow> fixture_inv h (snd (createDialogByID h n s))"
  by (rule preservesD [OF createDialogByID_inv])

lemma createDialogByID_keeps_inv_witness:
  "fixture_inv example_host example_fixture \<and>
   fixture_inv example_host (snd (createDialogByID example_host 16 example_fixture))"
proof -
  have i: "fixture_inv example_host example_fixture"
    by (simp add: fixture_inv_def example_fixture_def SdDialogsTest_def)
  show ?thesis using createDialogByID_keeps_inv [OF i] i by blast
qed


lemma createDialogByID_frame [preserves_intros]:
  "preserves (\<lambda>s. P (fixture_frame s)) (createDialogByID h n)"
  unfolding createDialogByID_def dialog_switch_def assign_pRetval_def create_defs frame_weld_def
    get_draw_doc_def
  by (intro preserves_intros)

lemma createDialogByID_step:
  assumes "ready h d s" and "mpFact s \<noteq> None" and "n < 22"
  shows "\<exists>s'. createDialogByID h n s = (Inr (Some (dialog_table h d ! unat n)), s') \<and> ready h d s' \<and>
    fixture_frame s' = fixture_frame s"
proof -
  obtain s' where c: "createDialogByID h n s = (Inr (Some (dialog_table h d ! unat n)), s')"
    and r: "ready h d s'" using createDialogByID_known [OF assms] by blast
  have "fixture_frame s' = fixture_frame s"
    using preservesD [OF createDialogByID_frame [where P = "\<lambda>f. f = fixture_frame s" and h = h and n = n], of s] c
    by simp
  with c r show ?thesis by blast
qed

text \<open>
  C15. From a ready fixture with a factory, each id 0..21 creates exactly
  the dialog of \<open>dialog_table\<close>: the right factory method, called with the
  objects of the loaded document and the item set the case builds, and the
  fixture stays ready.
\<close>

theorem createDialogByID_creates:
  assumes "ready h d s" and "mpFact s \<noteq> None" and "n < 22"
  shows "\<exists>s'. createDialogByID h n s = (Inr (Some (dialog_table h d ! unat n)), s') \<and> ready h d s'"
  using createDialogByID_known [OF assms] .

lemma createDialogByID_creates_witness:
  "ready example_host 2 example_fixture \<and> mpFact example_fixture \<noteq> None \<and> (12::32 word) < 22 \<and>
   (\<exists>s'. createDialogByID example_host 12 example_fixture =
      (Inr (Some (SdStartPresentationDlg DefDialogParent (presentation_item_set default_presentation) []
         None)), s') \<and> ready example_host 2 s')"
proof -
  note r = ready_example
  have f: "mpFact example_fixture \<noteq> None" by simp
  have n: "(12::32 word) < 22" by simp
  have "dialog_table example_host 2 ! unat (12::32 word) =
      SdStartPresentationDlg DefDialogParent (presentation_item_set default_presentation) [] None"
    by (simp add: dialog_table_def Let_def example_host_def)
  then show ?thesis using createDialogByID_creates [OF r f n] r f n by simp
qed

lemma get_draw_doc_fails [fails_intros]: "fails_only doc_loaded is_assert (get_draw_doc l l' h)"
  by (rule fails_onlyI)
    (auto simp: doc_loaded_def get_draw_doc_def getSdXImpressDocument_def assert_ptr_def split: option.splits)

lemma get_draw_doc_keeps [preserves_intros]: "preserves P (get_draw_doc l l' h)"
  unfolding get_draw_doc_def by (intro preserves_intros)

lemma frame_weld_keeps [preserves_intros]: "preserves doc_loaded (frame_weld h)"
  unfolding frame_weld_def by (intro preserves_intros)

lemma frame_weld_fails [fails_intros]: "fails_only doc_loaded is_assert (frame_weld h)"
  unfolding frame_weld_def by (intro fails_intros preserves_intros)

lemma createDialogByID_fails: "fails_only doc_loaded is_assert (createDialogByID h n)"
  unfolding createDialogByID_def dialog_switch_def assign_pRetval_def create_defs getSdAbstractDialogFactory_def
  by (intro fails_intros preserves_intros)


lemma createDialogByID_broken_doc_shell:
  "createDialogByID (example_host\<lparr>h_doc_shell := \<lambda>d. None\<rparr>) 0 example_fixture =
     (Inl (AssertFailed 136), example_fixture)"
proof -
  have "getDrawView (example_host\<lparr>h_doc_shell := \<lambda>d. None\<rparr>) example_fixture =
      (Inl (AssertFailed 136), example_fixture)"
    by (simp add: getDrawView_eq getViewShell_eq getDocShell_eq example_fixture_def SdDialogsTest_def)
  then show ?thesis
    by (simp add: createDialogByID_eq dialog_switch_def assign_pRetval_def create_BreakDlg_def
        bindE_Inl example_fixture_def)
qed

text \<open>
  C17. Once the document is loaded, \<^verbatim>\<open>createDialogByID\<close> never dereferences
  a null pointer: every way it can fail, for every id and every host, is a
  failed \<^verbatim>\<open>CPPUNIT_ASSERT\<close>.
\<close>

theorem createDialogByID_no_null_deref:
  "mpImpressDocument s \<noteq> None \<Longrightarrow> createDialogByID h n s = (Inl e, s') \<Longrightarrow> \<exists>l. e = AssertFailed l"
  using createDialogByID_fails [of h n] by (cases e) (auto simp: fails_only_def doc_loaded_def)

lemma createDialogByID_no_null_deref_witness:
  "mpImpressDocument example_fixture \<noteq> None \<and>
   createDialogByID (example_host\<lparr>h_doc_shell := \<lambda>d. None\<rparr>) 0 example_fixture =
     (Inl (AssertFailed 136), example_fixture) \<and> (\<exists>l. AssertFailed 136 = AssertFailed l)"
proof -
  have d: "mpImpressDocument example_fixture \<noteq> None" by (simp add: example_fixture_def)
  show ?thesis
    using createDialogByID_no_null_deref [OF d createDialogByID_broken_doc_shell] d
      createDialogByID_broken_doc_shell by blast
qed

end
