(* ===== verification/Harness.thy ===== *)
theory Harness
  imports Dispatch "HOL-Library.List_Lexorder" "HOL-Library.Char_ord"
begin

text \<open>
  The screenshot harness around the fixture. The base class
  \<^verbatim>\<open>ScreenshotTest\<close> is not in \<^verbatim>\<open>src/\<close>; its part here is modelled from
  the spec: it keeps the known-dialog map, which its \<^verbatim>\<open>setUp\<close> fills with
  \<^verbatim>\<open>registerKnownDialogsByID\<close> (the source's comment at line 68); it
  processes a batch list of UI-description paths, creating each known dialog
  through \<^verbatim>\<open>createDialogByID\<close> and dumping it, and falling back to dumping
  the raw path for an unknown one; and CppUnit runs \<^verbatim>\<open>setUp\<close>, the test
  method when \<^verbatim>\<open>setUp\<close> succeeded, and \<^verbatim>\<open>tearDown\<close> in every case. The
  base \<^verbatim>\<open>setUp\<close> may fail (\<open>h_base_ok\<close>), and then the fixture's
  \<^verbatim>\<open>setUp\<close> never runs; when either fails before an Impress document is
  stored, \<^verbatim>\<open>tearDown\<close> still runs and its \<^verbatim>\<open>mxComponent->dispose()\<close> at
  line 117 dereferences an empty reference whenever the load gave none. A dump
  is recorded in the list \<open>dumps\<close>; the batch file's lines are an input.
  \<^verbatim>\<open>processAllKnownDialogs\<close> iterates the known-dialog map in key order.
  Reading the batch file (and any filtering of its lines) and the rendering
  of a dump are not modelled.
\<close>

datatype dump = DumpDialog dialog | DumpUiFile string

record harness =
  maKnownDialogs :: mapType
  fx :: fixture
  dumps :: "dump list"

type_synonym 'a htest = "(harness, 'a) exc"

definition on_fixture :: "'a test \<Rightarrow> 'a htest" where
  "on_fixture m = (\<lambda>hs. case m (fx hs) of (r, s') \<Rightarrow> (r, hs\<lparr>fx := s'\<rparr>))"

text \<open>
  \<^verbatim>\<open>ScreenshotTest::setUp()\<close>: when the base fixture's set-up completes, it
  registers the known dialogs; when it fails (\<open>h_base_ok\<close> false), the
  failure propagates out of line 103 before any member of \<^verbatim>\<open>SdDialogsTest\<close>
  is assigned.
\<close>

definition ScreenshotTest_setUp :: "host \<Rightarrow> unit htest" where
  "ScreenshotTest_setUp h =
     (if h_base_ok h
      then modify (\<lambda>hs. hs\<lparr>maKnownDialogs := registerKnownDialogsByID (maKnownDialogs hs)\<rparr>)
      else throw (AssertFailed 103))"

text \<open>\<^verbatim>\<open>SdDialogsTest::setUp\<close> starts with \<^verbatim>\<open>ScreenshotTest::setUp()\<close> (line 103).\<close>

definition setUp_test :: "host \<Rightarrow> unit htest" where
  "setUp_test h = bindE (ScreenshotTest_setUp h) (\<lambda>_. on_fixture (setUp h))"

definition createDialogByName :: "host \<Rightarrow> string \<Rightarrow> dialog option htest" where
  "createDialogByName h rName =
     bindE (gets maKnownDialogs) (\<lambda>m. case m rName of
         Some nID \<Rightarrow> on_fixture (createDialogByID h nID)
       | None \<Rightarrow> ok None)"

definition dumpDialogToPath :: "dump \<Rightarrow> unit htest" where
  "dumpDialogToPath d = modify (\<lambda>hs. hs\<lparr>dumps := dumps hs @ [d]\<rparr>)"

text \<open>One line of the batch file: the dialog if the path is known, else the path itself.\<close>

definition processDialogLine :: "host \<Rightarrow> string \<Rightarrow> unit htest" where
  "processDialogLine h name =
     bindE (createDialogByName h name) (\<lambda>pDlg. case pDlg of
         Some d \<Rightarrow> dumpDialogToPath (DumpDialog d)
       | None \<Rightarrow> dumpDialogToPath (DumpUiFile name))"

primrec processDialogBatchFile :: "host \<Rightarrow> string list \<Rightarrow> unit htest" where
  "processDialogBatchFile h [] = ok ()"
| "processDialogBatchFile h (name # names) =
     bindE (processDialogLine h name) (\<lambda>_. processDialogBatchFile h names)"

text \<open>The disabled example "dump exactly one known dialog" (lines 579 to 597).\<close>

definition dumpOneKnownDialog :: "host \<Rightarrow> unit htest" where
  "dumpOneKnownDialog h =
     bindE (on_fixture (createDialogByID h 5)) (\<lambda>pDlg. case pDlg of
         Some d \<Rightarrow> dumpDialogToPath (DumpDialog d)
       | None \<Rightarrow> ok ())"

text \<open>
  \<^verbatim>\<open>ScreenshotTest::processAllKnownDialogs\<close>: a range-for over the known-dialog
  \<^verbatim>\<open>std::map\<close>, whose body is the one copied at lines 584 to 596. The map
  iterates its keys in ascending order (\<^verbatim>\<open>OString\<close> compares bytes, the
  order of \<^verbatim>\<open>List_Lexorder\<close> over \<^verbatim>\<open>Char_ord\<close>); the iterator steps from a key
  to the least key above it, until none is left. A \<^verbatim>\<open>std::map\<close> is finite,
  which the loop's guard records so that the step is defined.
\<close>

definition processKnownDialog :: "host \<Rightarrow> 32 word \<Rightarrow> unit htest" where
  "processKnownDialog h nID =
     bindE (on_fixture (createDialogByID h nID)) (\<lambda>pDlg. case pDlg of
         Some d \<Rightarrow> dumpDialogToPath (DumpDialog d)
       | None \<Rightarrow> ok ())"

definition keys_after :: "mapType \<Rightarrow> string option \<Rightarrow> string set" where
  "keys_after m k = {x \<in> dom m. case k of None \<Rightarrow> True | Some k0 \<Rightarrow> k0 < x}"

function known_dialogs_from :: "host \<Rightarrow> mapType \<Rightarrow> string option \<Rightarrow> unit htest" where
  "known_dialogs_from h m k =
     (if finite (dom m) \<and> keys_after m k \<noteq> {}
      then bindE (processKnownDialog h (the (m (Min (keys_after m k))))) (\<lambda>_.
             known_dialogs_from h m (Some (Min (keys_after m k))))
      else ok ())"
  by pat_completeness auto
termination
proof (relation "measure (\<lambda>(h, m, k). card (keys_after m k))")
  fix h m k
  assume a: "finite (dom m) \<and> keys_after m k \<noteq> {}"
  let ?S = "keys_after m k"
  have f: "finite ?S" using a by (simp add: keys_after_def)
  have M: "Min ?S \<in> ?S" using a f by simp
  have "keys_after m (Some (Min ?S)) \<subset> ?S"
  proof
    show "keys_after m (Some (Min ?S)) \<subseteq> ?S"
      using M by (auto simp: keys_after_def split: option.splits)
    show "keys_after m (Some (Min ?S)) \<noteq> ?S" using M by (auto simp: keys_after_def)
  qed
  with f show "((h, m, Some (Min ?S)), (h, m, k)) \<in> measure (\<lambda>(h, m, k). card (keys_after m k))"
    by (simp add: psubset_card_mono)
qed simp

definition processAllKnownDialogs :: "host \<Rightarrow> unit htest" where
  "processAllKnownDialogs h = bindE (gets maKnownDialogs) (\<lambda>m. known_dialogs_from h m None)"

text \<open>
  \<^verbatim>\<open>openAnyDialog\<close>: the enabled branch processes the batch file
  \<^verbatim>\<open>sd/qa/unit/data/dialogs-test.txt\<close>, whose lines are \<open>batch\<close>; the
  \<^verbatim>\<open>if ((false))\<close> branches follow it: all known dialogs, one known
  dialog, one dialog by its raw path.
\<close>

definition openAnyDialog :: "host \<Rightarrow> string list \<Rightarrow> unit htest" where
  "openAnyDialog h batch =
     bindE (if True then processDialogBatchFile h batch else ok ()) (\<lambda>_.
     bindE (if False then processAllKnownDialogs h else ok ()) (\<lambda>_.
     bindE (if False then dumpOneKnownDialog h else ok ()) (\<lambda>_.
     (if False then dumpDialogToPath (DumpUiFile ''modules/sdraw/ui/breakdialog.ui'') else ok ()))))"

text \<open>One CppUnit run of the test: the errors it reports and the final state.\<close>

definition run_openAnyDialog :: "host \<Rightarrow> string list \<Rightarrow> harness \<Rightarrow> error list \<times> harness" where
  "run_openAnyDialog h batch hs =
     (case setUp_test h hs of (r1, hs1) \<Rightarrow>
      case (case r1 of Inr _ \<Rightarrow> openAnyDialog h batch hs1 | Inl e \<Rightarrow> (Inl e, hs1)) of (r2, hs2) \<Rightarrow>
      case on_fixture tearDown hs2 of (r3, hs3) \<Rightarrow>
        (concat (map (\<lambda>r. case r of Inl e \<Rightarrow> [e] | Inr _ \<Rightarrow> []) [r2, r3]), hs3))"

text \<open>
  The dump a batch line should produce from a ready fixture on document
  \<open>d\<close>: the dialog \<open>dialog_table\<close> gives for a known path's id, the raw
  path otherwise.
\<close>

definition expected_dump :: "host \<Rightarrow> handle \<Rightarrow> mapType \<Rightarrow> string \<Rightarrow> dump" where
  "expected_dump h d m name =
     (case m name of Some n \<Rightarrow> DumpDialog (dialog_table h d ! unat n) | None \<Rightarrow> DumpUiFile name)"

text \<open>The harness as CppUnit creates it, before \<^verbatim>\<open>setUp\<close>.\<close>

definition example_harness :: harness where
  "example_harness = \<lparr>maKnownDialogs = Map.empty, fx = SdDialogsTest, dumps = []\<rparr>"

subsection \<open>Lemmas\<close>

lemma openAnyDialog_eq: "openAnyDialog h batch = processDialogBatchFile h batch"
proof -
  have "bindE m (\<lambda>_. ok ()) = m" for m :: "unit htest"
    by (simp add: bindE_def fun_eq_iff split: sum.split prod.split)
  then show ?thesis by (simp add: openAnyDialog_def)
qed

lemma on_fixture_apply [simp]: "m (fx hs) = (r, s') \<Longrightarrow> on_fixture m hs = (r, hs\<lparr>fx := s'\<rparr>)"
  by (simp add: on_fixture_def)

lemma on_fixture_preserves [preserves_intros]:
  "preserves P m \<Longrightarrow> preserves (\<lambda>hs. P (fx hs)) (on_fixture m)"
  by (simp add: preserves_def on_fixture_def split: prod.split) (metis snd_conv)

lemma dumpDialogToPath_fx [preserves_intros]: "preserves (\<lambda>hs. P (fx hs)) (dumpDialogToPath x)"
  by (simp add: preserves_def dumpDialogToPath_def)

lemma processDialogBatchFile_preserves:
  assumes "\<And>n. preserves P (createDialogByID h n)"
  shows "preserves (\<lambda>hs. P (fx hs)) (processDialogBatchFile h names)"
proof (induction names)
  case Nil
  show ?case unfolding processDialogBatchFile.simps by (rule preserves_ok)
next
  case (Cons a names)
  then show ?case unfolding processDialogBatchFile.simps processDialogLine_def createDialogByName_def
    by (intro preserves_intros assms)
qed

lemma processDialogBatchFile_frame:
  "preserves (\<lambda>hs. P (fixture_frame (fx hs))) (processDialogBatchFile h names)"
  by (rule processDialogBatchFile_preserves [OF createDialogByID_frame])

lemma createDialogByName_eq:
  "createDialogByName h name hs =
     (case maKnownDialogs hs name of None \<Rightarrow> (Inr None, hs)
      | Some n \<Rightarrow> on_fixture (createDialogByID h n) hs)"
  by (simp add: createDialogByName_def split: option.split)

lemma processDialogLine_ok:
  assumes "ready h d (fx hs)" and "mpFact (fx hs) \<noteq> None"
    and "maKnownDialogs hs = registerKnownDialogsByID Map.empty"
  shows "\<exists>hs1. processDialogLine h name hs = (Inr (), hs1) \<and> ready h d (fx hs1) \<and>
    mpFact (fx hs1) = mpFact (fx hs) \<and> maKnownDialogs hs1 = maKnownDialogs hs \<and>
    dumps hs1 = dumps hs @ [expected_dump h d (maKnownDialogs hs) name]"
proof (cases "maKnownDialogs hs name")
  case None
  then have "createDialogByName h name hs = (Inr None, hs)" by (simp add: createDialogByName_eq)
  then show ?thesis using assms(1) None
    by (simp add: processDialogLine_def bindE_Inr dumpDialogToPath_def expected_dump_def)
next
  case (Some n)
  then have "n < 22" using assms(3) by (simp add: registered_id_bound)
  then obtain s' where c: "createDialogByID h n (fx hs) = (Inr (Some (dialog_table h d ! unat n)), s')"
    and r: "ready h d s'" and "fixture_frame s' = fixture_frame (fx hs)"
    using createDialogByID_step assms(1,2) by blast
  then have "mpFact s' = mpFact (fx hs)" by (simp add: fixture_frame_def)
  moreover have "createDialogByName h name hs = (Inr (Some (dialog_table h d ! unat n)), hs\<lparr>fx := s'\<rparr>)"
    using c Some by (simp add: createDialogByName_eq)
  ultimately show ?thesis using r Some
    by (simp add: processDialogLine_def bindE_Inr dumpDialogToPath_def expected_dump_def)
qed

lemma processDialogBatchFile_dumps:
  assumes "ready h d (fx hs)" and "mpFact (fx hs) \<noteq> None"
    and "maKnownDialogs hs = registerKnownDialogsByID Map.empty"
  shows "\<exists>hs'. processDialogBatchFile h names hs = (Inr (), hs') \<and> ready h d (fx hs') \<and>
    maKnownDialogs hs' = maKnownDialogs hs \<and>
    dumps hs' = dumps hs @ map (expected_dump h d (maKnownDialogs hs)) names"
  using assms
proof (induction names arbitrary: hs)
  case Nil
  then show ?case by simp
next
  case (Cons name names)
  obtain hs1 where l: "processDialogLine h name hs = (Inr (), hs1)" and "ready h d (fx hs1)"
    and "mpFact (fx hs1) = mpFact (fx hs)" and k: "maKnownDialogs hs1 = maKnownDialogs hs"
    and du: "dumps hs1 = dumps hs @ [expected_dump h d (maKnownDialogs hs) name]"
    using processDialogLine_ok [OF Cons.prems] by blast
  with Cons.prems Cons.IH [of hs1] obtain hs' where
    "processDialogBatchFile h names hs1 = (Inr (), hs')" "ready h d (fx hs')"
    "maKnownDialogs hs' = maKnownDialogs hs1"
    "dumps hs' = dumps hs1 @ map (expected_dump h d (maKnownDialogs hs1)) names" by auto
  with l k du show ?case by (auto simp: bindE_Inr)
qed

lemma setUp_test_eq:
  "setUp_test h hs =
     (if h_base_ok h
      then on_fixture (setUp h) (hs\<lparr>maKnownDialogs := registerKnownDialogsByID (maKnownDialogs hs)\<rparr>)
      else (Inl (AssertFailed 103), hs))"
  by (simp add: setUp_test_def ScreenshotTest_setUp_def)

lemma batch_keeps_frame:
  "openAnyDialog h batch hs = (r, hs') \<Longrightarrow> fixture_frame (fx hs') = fixture_frame (fx hs)"
  using preservesD [OF processDialogBatchFile_frame [where P = "\<lambda>f. f = fixture_frame (fx hs)"
      and h = h and names = batch], of hs]
  by (simp add: openAnyDialog_eq)

lemma on_fixture_fails [fails_intros]:
  "fails_only P Q m \<Longrightarrow> fails_only (\<lambda>hs. P (fx hs)) Q (on_fixture m)"
  by (auto simp: fails_only_def on_fixture_def split: prod.splits)

lemma dumpDialogToPath_fails [fails_intros]: "fails_only P Q (dumpDialogToPath x)"
  by (simp add: dumpDialogToPath_def fails_only_modify)

lemma createDialogByID_keeps_doc_loaded [preserves_intros]: "preserves doc_loaded (createDialogByID h n)"
proof -
  have eq: "doc_loaded = (\<lambda>s. (\<lambda>f. fst (snd (snd f)) \<noteq> None) (fixture_frame s))"
    by (simp add: fun_eq_iff doc_loaded_def fixture_frame_def)
  show ?thesis unfolding eq by (rule createDialogByID_frame)
qed

lemma processDialogBatchFile_fails:
  "fails_only (\<lambda>hs. doc_loaded (fx hs)) is_assert (processDialogBatchFile h names)"
proof (induction names)
  case Nil
  show ?case unfolding processDialogBatchFile.simps by (rule fails_only_ok)
next
  case (Cons a names)
  then show ?case unfolding processDialogBatchFile.simps processDialogLine_def createDialogByName_def
    by (intro fails_intros preserves_intros createDialogByID_fails)
qed

text \<open>
  C3. On a host satisfying what the test asserts (the base set-up completes,
  the load returns an Impress document with its shells, draw view, first
  object and style sheets, and there is a dialog factory), one run of
  \<^verbatim>\<open>openAnyDialog\<close> on a fresh fixture reports no error, dumps one entry per
  batch line, exactly the dialog \<open>dialog_table\<close> gives for the id of each
  registered path and the raw path for every other line, and disposes the
  loaded document exactly once.
\<close>

theorem run_openAnyDialog_clean:
  assumes "h_base_ok h" and "h_load h = Some c" and "h_is_impress h c" and "doc_ok h c"
    and "h_factory h \<noteq> None" and "fx hs = SdDialogsTest" and "maKnownDialogs hs = Map.empty"
  shows "\<exists>hs'. run_openAnyDialog h batch hs = ([], hs') \<and>
    dumps hs' = dumps hs @ map (expected_dump h c (registerKnownDialogsByID Map.empty)) batch \<and>
    disposed (fx hs') = [c]"
proof -
  define s1 where "s1 = SdDialogsTest\<lparr>mpFact := h_factory h, mxComponent := Some c,
                      mpImpressDocument := Some c\<rparr>"
  define hs1 where "hs1 = hs\<lparr>maKnownDialogs := registerKnownDialogsByID Map.empty, fx := s1\<rparr>"
  have su: "setUp_test h hs = (Inr (), hs1)"
    using assms(1-3,6,7) by (simp add: setUp_test_eq setUp_eq impress_cast_def on_fixture_def hs1_def s1_def)
  have rd: "ready h c (fx hs1)"
    using assms(4) by (simp add: hs1_def s1_def ready_def fixture_inv_def SdDialogsTest_def)
  obtain hs2 where b: "processDialogBatchFile h batch hs1 = (Inr (), hs2)"
    and du: "dumps hs2 = dumps hs1 @ map (expected_dump h c (maKnownDialogs hs1)) batch"
    using processDialogBatchFile_dumps [OF rd] assms(5) by (simp add: hs1_def s1_def) blast
  have o: "openAnyDialog h batch hs1 = (Inr (), hs2)" using b by (simp add: openAnyDialog_eq)
  have "fixture_frame (fx hs2) = fixture_frame s1"
    using batch_keeps_frame [OF o] by (simp add: hs1_def)
  then have "mxComponent (fx hs2) = Some c \<and> disposed (fx hs2) = []"
    by (simp add: fixture_frame_def s1_def SdDialogsTest_def)
  then show ?thesis using su o du
    by (simp add: run_openAnyDialog_def on_fixture_def tearDown_eq Let_def hs1_def)
qed

lemma run_openAnyDialog_clean_witness:
  "h_base_ok example_host \<and> h_load example_host = Some 2 \<and> h_is_impress example_host 2 \<and>
   doc_ok example_host 2 \<and> h_factory example_host \<noteq> None \<and> fx example_harness = SdDialogsTest \<and>
   maKnownDialogs example_harness = Map.empty \<and>
   (\<exists>hs'. run_openAnyDialog example_host
        [''modules/sdraw/ui/copydlg.ui'', ''modules/sdraw/ui/unknown.ui''] example_harness = ([], hs') \<and>
      dumps hs' = dumps example_harness @ map (expected_dump example_host 2
        (registerKnownDialogsByID Map.empty)) [''modules/sdraw/ui/copydlg.ui'', ''modules/sdraw/ui/unknown.ui''] \<and>
      disposed (fx hs') = [2])"
proof -
  have a: "h_base_ok example_host" "h_load example_host = Some 2" "h_is_impress example_host 2"
    "doc_ok example_host 2" "h_factory example_host \<noteq> None" "fx example_harness = SdDialogsTest"
    "maKnownDialogs example_harness = Map.empty"
    using example_host_doc_ok by (simp_all add: example_host_def example_harness_def)
  show ?thesis using run_openAnyDialog_clean [OF a] a by blast
qed

text \<open>
  A run in two parts: the error of \<^verbatim>\<open>setUp\<close> or of the test method, which
  is always a failed assertion, and then \<^verbatim>\<open>tearDown\<close> on a fixture holding
  the component \<^verbatim>\<open>setUp\<close> stored: the loaded one if the base set-up
  completed, otherwise whatever the fixture held before.
\<close>

lemma run_openAnyDialog_split:
  assumes "run_openAnyDialog h batch hs = (es, hs')"
  shows "\<exists>(r2 :: error + unit) (hs2 :: harness). es = (case r2 of Inl e \<Rightarrow> [e] | Inr _ \<Rightarrow> []) @
      (case fst (tearDown (fx hs2)) of Inl e \<Rightarrow> [e] | Inr _ \<Rightarrow> []) \<and>
    disposed (fx hs') = disposed (snd (tearDown (fx hs2))) \<and>
    mxComponent (fx hs2) = (if h_base_ok h then h_load h else mxComponent (fx hs)) \<and>
    disposed (fx hs2) = disposed (fx hs) \<and> (\<forall>e. r2 = Inl e \<longrightarrow> is_assert e)"
proof -
  obtain r1 hs1 where s1: "setUp_test h hs = (r1, hs1)" by fastforce
  have c1: "mxComponent (fx hs1) = (if h_base_ok h then h_load h else mxComponent (fx hs)) \<and>
      disposed (fx hs1) = disposed (fx hs)"
    and d1: "r1 = Inr () \<Longrightarrow> doc_loaded (fx hs1)"
    and e1: "\<And>e. r1 = Inl e \<Longrightarrow> is_assert e"
    using s1 by (auto simp: setUp_test_eq setUp_eq on_fixture_def doc_loaded_def split: if_splits)
  obtain r2 hs2 where s2:
    "(case r1 of Inr _ \<Rightarrow> openAnyDialog h batch hs1 | Inl e \<Rightarrow> (Inl e, hs1)) = (r2, hs2)"
    by fastforce
  have c2: "fixture_frame (fx hs2) = fixture_frame (fx hs1)" and e2: "\<forall>e. r2 = Inl e \<longrightarrow> is_assert e"
  proof -
    show "fixture_frame (fx hs2) = fixture_frame (fx hs1)"
      using s2 batch_keeps_frame [of h batch hs1 r2 hs2] by (cases r1) auto
    show "\<forall>e. r2 = Inl e \<longrightarrow> is_assert e"
    proof (cases r1)
      case (Inl e)
      with s2 e1 show ?thesis by auto
    next
      case (Inr u)
      with s2 have "openAnyDialog h batch hs1 = (r2, hs2)" by simp
      with processDialogBatchFile_fails [of h batch] d1 Inr show ?thesis
        by (auto simp: fails_only_def openAnyDialog_eq)
    qed
  qed
  from assms s1 s2 have t: "es = (case r2 of Inl e \<Rightarrow> [e] | Inr _ \<Rightarrow> []) @
      (case fst (tearDown (fx hs2)) of Inl e \<Rightarrow> [e] | Inr _ \<Rightarrow> []) \<and>
    disposed (fx hs') = disposed (snd (tearDown (fx hs2)))"
    by (auto simp: run_openAnyDialog_def on_fixture_def split: prod.splits)
  from c1 c2 have m: "mxComponent (fx hs2) = (if h_base_ok h then h_load h else mxComponent (fx hs)) \<and>
      disposed (fx hs2) = disposed (fx hs)"
    by (simp add: fixture_frame_def)
  show ?thesis by (rule exI [of _ r2], rule exI [of _ hs2]) (use t m e2 in simp)
qed

text \<open>
  C12. \<^verbatim>\<open>tearDown\<close> disposes the component \<^verbatim>\<open>setUp\<close> stored, whatever
  failed in between. When there is none, because the base set-up failed at
  line 103 or the load returned an empty reference, \<^verbatim>\<open>tearDown\<close>, which
  CppUnit runs after a failed \<^verbatim>\<open>setUp\<close> too, dereferences the null
  \<^verbatim>\<open>mxComponent\<close> at line 117: the run ends in a null dereference instead of
  the assertion that reported the failure.
\<close>

theorem run_disposes_or_null_deref:
  "run_openAnyDialog h batch hs = (es, hs') \<Longrightarrow>
   (case (if h_base_ok h then h_load h else mxComponent (fx hs)) of
      Some c \<Rightarrow> disposed (fx hs') = c # disposed (fx hs)
    | None \<Rightarrow> disposed (fx hs') = disposed (fx hs) \<and> (\<exists>es0. es = es0 @ [NullDeref 117]))"
proof -
  assume "run_openAnyDialog h batch hs = (es, hs')"
  from run_openAnyDialog_split [OF this] obtain r2 :: "error + unit" and hs2 :: harness where
    es: "es = (case r2 of Inl e \<Rightarrow> [e] | Inr _ \<Rightarrow> []) @
      (case fst (tearDown (fx hs2)) of Inl e \<Rightarrow> [e] | Inr _ \<Rightarrow> [])"
    and d: "disposed (fx hs') = disposed (snd (tearDown (fx hs2)))"
    and m: "mxComponent (fx hs2) = (if h_base_ok h then h_load h else mxComponent (fx hs))"
    and d2: "disposed (fx hs2) = disposed (fx hs)" by blast
  show ?thesis unfolding m [symmetric] using es d d2
    by (cases "mxComponent (fx hs2)") (auto simp: tearDown_eq Let_def)
qed

lemma run_disposes_or_null_deref_witness:
  "run_openAnyDialog (example_host\<lparr>h_load := None\<rparr>) [] example_harness =
     ([AssertFailed 109, NullDeref 117], example_harness\<lparr>maKnownDialogs := registerKnownDialogsByID Map.empty,
        fx := SdDialogsTest\<lparr>mpFact := Some 1\<rparr>\<rparr>) \<and>
   disposed (SdDialogsTest\<lparr>mpFact := Some 1\<rparr>) = disposed (fx example_harness) \<and>
   (\<exists>es0. [AssertFailed 109, NullDeref 117] = es0 @ [NullDeref 117])"
proof -
  have r: "run_openAnyDialog (example_host\<lparr>h_load := None\<rparr>) [] example_harness =
     ([AssertFailed 109, NullDeref 117], example_harness\<lparr>maKnownDialogs := registerKnownDialogsByID Map.empty,
        fx := SdDialogsTest\<lparr>mpFact := Some 1\<rparr>\<rparr>)"
    by (simp add: run_openAnyDialog_def setUp_test_eq setUp_eq impress_cast_def on_fixture_def
        tearDown_eq Let_def example_harness_def example_host_def SdDialogsTest_def)
  have "h_base_ok (example_host\<lparr>h_load := None\<rparr>)" by (simp add: example_host_def)
  with run_disposes_or_null_deref [OF r] r show ?thesis by simp
qed

text \<open>
  C18. Every error a run of the test reports is a failed assertion, except
  one: the null dereference of \<^verbatim>\<open>tearDown\<close> at line 117, which happens
  exactly in the runs whose \<^verbatim>\<open>setUp\<close> stored no component. No getter and
  no case ever dereferences a null pointer during a run.
\<close>

theorem run_errors:
  "run_openAnyDialog h batch hs = (es, hs') \<Longrightarrow>
   \<forall>e \<in> set es. is_assert e \<or>
     (e = NullDeref 117 \<and> (if h_base_ok h then h_load h else mxComponent (fx hs)) = None)"
proof -
  assume "run_openAnyDialog h batch hs = (es, hs')"
  from run_openAnyDialog_split [OF this] obtain r2 :: "error + unit" and hs2 :: harness where
    es: "es = (case r2 of Inl e \<Rightarrow> [e] | Inr _ \<Rightarrow> []) @
      (case fst (tearDown (fx hs2)) of Inl e \<Rightarrow> [e] | Inr _ \<Rightarrow> [])"
    and m: "mxComponent (fx hs2) = (if h_base_ok h then h_load h else mxComponent (fx hs))"
    and e2: "\<forall>e. r2 = Inl e \<longrightarrow> is_assert e" by blast
  show ?thesis unfolding m [symmetric] using es e2
    by (cases "mxComponent (fx hs2)"; cases r2) (auto simp: tearDown_eq Let_def)
qed

lemma run_errors_witness:
  "run_openAnyDialog (example_host\<lparr>h_base_ok := False\<rparr>) [] example_harness =
     ([AssertFailed 103, NullDeref 117], example_harness) \<and>
   is_assert (AssertFailed 103) \<and>
   (if h_base_ok (example_host\<lparr>h_base_ok := False\<rparr>) then h_load (example_host\<lparr>h_base_ok := False\<rparr>)
    else mxComponent (fx example_harness)) = None"
proof -
  have r: "run_openAnyDialog (example_host\<lparr>h_base_ok := False\<rparr>) [] example_harness =
     ([AssertFailed 103, NullDeref 117], example_harness)"
    by (simp add: run_openAnyDialog_def setUp_test_eq on_fixture_def tearDown_eq Let_def
        example_harness_def SdDialogsTest_def)
  have "\<forall>e \<in> set [AssertFailed 103, NullDeref 117]. is_assert e \<or>
     (e = NullDeref 117 \<and> (if h_base_ok (example_host\<lparr>h_base_ok := False\<rparr>)
        then h_load (example_host\<lparr>h_base_ok := False\<rparr>) else mxComponent (fx example_harness)) = None)"
    using run_errors [OF r] .
  then show ?thesis using r by simp
qed

end
