(* ===== verification/Lifecycle.thy ===== *)
theory Lifecycle
  imports Dispatch
begin

text \<open>
  The fixture's life within one test. CppUnit builds a fresh
  \<^verbatim>\<open>SdDialogsTest\<close> object for every test method of the suite, calls
  \<^verbatim>\<open>setUp\<close> once, then the test method, which calls the getters and
  \<^verbatim>\<open>createDialogByID\<close>, then \<^verbatim>\<open>tearDown\<close>. \<open>fixture_step h\<close> has one
  rule per member function the test or CppUnit calls after \<^verbatim>\<open>setUp\<close>,
  each leading to the state the function leaves, whether it returned or
  failed. \<open>in_test h\<close> holds of the constructed fixture (\<^verbatim>\<open>setUp\<close> not
  reached, when the base set-up fails), of the fixture \<^verbatim>\<open>setUp\<close> leaves, and
  of every state any sequence of steps leads to from there. The host
  \<open>h\<close> is arbitrary, with any load result, and the steps may run in any
  order, also after a failed \<^verbatim>\<open>setUp\<close> (where CppUnit runs only
  \<^verbatim>\<open>tearDown\<close>), so a property of every \<open>in_test\<close> state holds in every
  real test. A fixture object reused for a second \<^verbatim>\<open>setUp\<close>, which CppUnit
  never does, is outside this relation; \<open>reuse_returns_stale_doc_shell\<close>
  shows what goes wrong there.
\<close>

inductive fixture_step :: "host \<Rightarrow> fixture \<Rightarrow> fixture \<Rightarrow> bool" for h where
  tear_down: "fixture_step h s (snd (tearDown s))"
| doc_shell: "fixture_step h s (snd (getDocShell h s))"
| view_shell: "fixture_step h s (snd (getViewShell h s))"
| draw_view: "fixture_step h s (snd (getDrawView h s))"
| object_items: "fixture_step h s (snd (getSfxItemSetFromSdrObject h s))"
| empty_items: "fixture_step h s (snd (getEmptySfxItemSet h s))"
| fill_items: "fixture_step h s (snd (getEmptyFillStyleSfxItemSet h s))"
| create: "fixture_step h s (snd (createDialogByID h n s))"

inductive in_test :: "host \<Rightarrow> fixture \<Rightarrow> bool" for h where
  constructed: "in_test h SdDialogsTest"
| set_up: "in_test h (snd (setUp h SdDialogsTest))"
| step: "in_test h s \<Longrightarrow> fixture_step h s t \<Longrightarrow> in_test h t"

definition lifecycle_inv :: "host \<Rightarrow> fixture \<Rightarrow> bool" where
  "lifecycle_inv h s \<longleftrightarrow> fixture_inv h s \<and>
     (mpImpressDocument s = None \<or> mpImpressDocument s = impress_cast h (h_load h)) \<and>
     (mxComponent s = None \<or> mxComponent s = h_load h) \<and>
     set (disposed s) \<subseteq> set_option (h_load h)"

subsection \<open>The invariant of every state of a test\<close>

lemma lifecycle_inv_start: "lifecycle_inv h SdDialogsTest"
  by (simp add: lifecycle_inv_def fixture_inv_def SdDialogsTest_def)

lemma setUp_lifecycle_inv: "lifecycle_inv h (snd (setUp h SdDialogsTest))"
  by (simp add: lifecycle_inv_def fixture_inv_def setUp_eq SdDialogsTest_def)

lemma tearDown_lifecycle_inv: "lifecycle_inv h s \<Longrightarrow> lifecycle_inv h (snd (tearDown s))"
  by (auto simp: lifecycle_inv_def fixture_inv_def tearDown_eq Let_def split: option.splits)

lemma frame_lifecycle_inv:
  assumes "preserves (fixture_inv h) m" and "\<And>P. preserves (\<lambda>s. P (fixture_frame s)) m"
    and "lifecycle_inv h s"
  shows "lifecycle_inv h (snd (m s))"
proof -
  have "fixture_frame (snd (m s)) = fixture_frame s"
    using preservesD [OF assms(2) [of "\<lambda>f. f = fixture_frame s"]] by simp
  with preservesD [OF assms(1)] assms(3) show ?thesis
    by (simp add: lifecycle_inv_def fixture_frame_def)
qed

lemma fixture_step_lifecycle_inv:
  assumes "fixture_step h s t" and "lifecycle_inv h s"
  shows "lifecycle_inv h t"
  using assms(1)
proof (cases rule: fixture_step.cases)
  case tear_down
  with assms(2) show ?thesis by (simp add: tearDown_lifecycle_inv)
qed (use assms(2) in \<open>simp_all add: frame_lifecycle_inv getDocShell_inv getViewShell_inv getDrawView_inv
      getSfxItemSetFromSdrObject_inv getEmptySfxItemSet_inv getEmptyFillStyleSfxItemSet_inv
      createDialogByID_inv getters_keep_frame createDialogByID_frame\<close>)

lemma in_test_lifecycle_inv: "in_test h s \<Longrightarrow> lifecycle_inv h s"
proof (induction rule: in_test.induct)
  case constructed
  show ?case by (rule lifecycle_inv_start)
next
  case set_up
  show ?case by (rule setUp_lifecycle_inv)
next
  case (step s t)
  then show ?case by (blast intro: fixture_step_lifecycle_inv)
qed

lemma in_test_example: "in_test example_host example_fixture"
  using in_test.set_up [of example_host] by (simp add: setUp_example)

text \<open>
  C19. In every state of a test, whatever the host loaded and whichever
  member calls succeeded or failed in whatever order, every cached pointer is
  the host's answer for its object, the document (if any) is the Impress
  document this test loaded, and only this test's component has been
  disposed.
\<close>

theorem in_test_coherent:
  "in_test h s \<Longrightarrow>
   fixture_inv h s \<and> (mpImpressDocument s = None \<or> mpImpressDocument s = impress_cast h (h_load h)) \<and>
   set (disposed s) \<subseteq> set_option (h_load h)"
  using in_test_lifecycle_inv [of h s] by (simp add: lifecycle_inv_def)

lemma in_test_coherent_witness:
  "in_test example_host example_fixture \<and> fixture_inv example_host example_fixture \<and>
   mpImpressDocument example_fixture = impress_cast example_host (h_load example_host) \<and>
   set (disposed example_fixture) \<subseteq> set_option (h_load example_host)"
proof -
  have "mpImpressDocument example_fixture \<noteq> None" by (simp add: example_fixture_def)
  then show ?thesis using in_test_coherent [OF in_test_example] in_test_example by auto
qed

end
