(* ===== verification/Caching.thy ===== *)
theory Caching
  imports Lifecycle
begin

text \<open>
  The lazy caches of \<^verbatim>\<open>SdDialogsTest\<close> (\<^verbatim>\<open>mpDocShell\<close>, \<^verbatim>\<open>mpViewShell\<close>,
  \<^verbatim>\<open>mpDrawView\<close> and the three item sets). \<open>getter_view h s\<close> collects
  what each of the six getters would return from \<open>s\<close>, its
  \<^emph>\<open>effective result\<close>: the cached value, or else what the getter computes
  from the document and the effective results of the getters it calls
  (\<open>cached_or\<close>, \<open>query\<close>, and the uncached \<open>doc_shell_result\<close>,
  \<open>object_set_result\<close>, \<open>pool_set_result\<close>). Every getter returns its
  effective result and leaves all six unchanged, in every state, coherent or
  not: a getter only fills an empty cache with the value it returns. So
  \<^verbatim>\<open>createDialogByID\<close> agrees (\<open>agree\<close> of \<open>Prelude\<close>) on states with the same
  frame and the same effective results (\<open>same_view\<close>), and creating a
  dialog never changes what the next creation returns.

  \<open>flush\<close> empties the six caches. Within a test (\<open>in_test\<close>) the caches
  hold what the document gives, and the cached empty item sets belong to a
  loaded draw document (\<open>caches_backed\<close>), so flushing changes no effective
  result: the caches are invisible. \<open>cache_visible_unbacked\<close> shows a
  coherent fixture outside any test, whose empty item set is cached with no
  document, on which the cache changes the error \<^verbatim>\<open>createDialogByID(10)\<close>
  raises.
\<close>


definition cached_or :: "'a option \<Rightarrow> error + 'a \<Rightarrow> error + 'a" where
  "cached_or c r = (case c of Some x \<Rightarrow> Inr x | None \<Rightarrow> r)"

definition query :: "error + 'a \<Rightarrow> ('a \<Rightarrow> 'b option) \<Rightarrow> nat \<Rightarrow> error + 'b" where
  "query r f l = (case r of Inl e \<Rightarrow> Inl e | Inr x \<Rightarrow> (case f x of None \<Rightarrow> Inl (AssertFailed l) | Some y \<Rightarrow> Inr y))"

definition doc_shell_result :: "host \<Rightarrow> handle option \<Rightarrow> error + handle" where
  "doc_shell_result h p = (case p of None \<Rightarrow> Inl (NullDeref 135) | Some d \<Rightarrow> query (Inr d) (h_doc_shell h) 136)"

definition object_set_result :: "host \<Rightarrow> handle option \<Rightarrow> error + item_set" where
  "object_set_result h p = (case p of None \<Rightarrow> Inl (NullDeref 168) | Some d \<Rightarrow>
     (case h_doc h d of None \<Rightarrow> Inl (AssertFailed 169) | Some dd \<Rightarrow>
       (case h_sd_page h dd 0 of None \<Rightarrow> Inl (AssertFailed 171) | Some pg \<Rightarrow>
         (case h_obj h pg 0 of None \<Rightarrow> Inl (AssertFailed 173) | Some ob \<Rightarrow> Inr (h_merged_items h ob)))))"

definition pool_set_result :: "host \<Rightarrow> nat \<Rightarrow> nat \<Rightarrow> item_set \<Rightarrow> handle option \<Rightarrow> error + item_set" where
  "pool_set_result h l l' x p = (case p of None \<Rightarrow> Inl (NullDeref l) | Some d \<Rightarrow>
     (case h_doc h d of None \<Rightarrow> Inl (AssertFailed l') | Some dd \<Rightarrow> Inr x))"

definition eff_doc_shell :: "host \<Rightarrow> fixture \<Rightarrow> error + handle" where
  "eff_doc_shell h s = cached_or (mpDocShell s) (doc_shell_result h (mpImpressDocument s))"

definition eff_view_shell :: "host \<Rightarrow> fixture \<Rightarrow> error + handle" where
  "eff_view_shell h s = cached_or (mpViewShell s) (query (eff_doc_shell h s) (h_view_shell h) 147)"

definition eff_draw_view :: "host \<Rightarrow> fixture \<Rightarrow> error + handle" where
  "eff_draw_view h s =
     cached_or (mpDrawView s) (query (eff_view_shell h s) (\<lambda>vs. draw_view_cast (h_draw_view h vs)) 158)"

definition getter_view :: "host \<Rightarrow> fixture \<Rightarrow> (error + handle) \<times> (error + handle) \<times> (error + handle) \<times>
    (error + item_set) \<times> (error + item_set) \<times> (error + item_set)" where
  "getter_view h s =
     (eff_doc_shell h s, eff_view_shell h s, eff_draw_view h s,
      cached_or (mpSfxItemSetFromSdrObject s) (object_set_result h (mpImpressDocument s)),
      cached_or (mpEmptySfxItemSet s) (pool_set_result h 186 187 empty_pool_item_set (mpImpressDocument s)),
      cached_or (mpEmptyFillStyleSfxItemSet s) (pool_set_result h 199 200 fill_style_item_set (mpImpressDocument s)))"

definition flush :: "fixture \<Rightarrow> fixture" where
  "flush s = s\<lparr>mpDocShell := None, mpViewShell := None, mpDrawView := None,
      mpSfxItemSetFromSdrObject := None, mpEmptySfxItemSet := None, mpEmptyFillStyleSfxItemSet := None\<rparr>"

definition caches_backed :: "host \<Rightarrow> fixture \<Rightarrow> bool" where
  "caches_backed h s \<longleftrightarrow>
     (mpEmptySfxItemSet s = None \<and> mpEmptyFillStyleSfxItemSet s = None) \<or>
     (case mpImpressDocument s of None \<Rightarrow> False | Some d \<Rightarrow> h_doc h d \<noteq> None)"

text \<open>The fixture after the draw view and the empty item set were fetched once.\<close>

definition warm_fixture :: fixture where
  "warm_fixture = snd (getDrawView example_host (snd (getEmptySfxItemSet example_host example_fixture)))"

definition same_view :: "host \<Rightarrow> fixture \<Rightarrow> fixture \<Rightarrow> bool" where
  "same_view h s t \<longleftrightarrow> fixture_frame s = fixture_frame t \<and> getter_view h s = getter_view h t"

lemma cached_or_simps [simp]: "cached_or (Some x) r = Inr x" "cached_or None r = r"
  by (simp_all add: cached_or_def)

lemma query_simps [simp]: "query (Inl e) f l = Inl e"
  "f x = None \<Longrightarrow> query (Inr x) f l = Inl (AssertFailed l)" "f x = Some y \<Longrightarrow> query (Inr x) f l = Inr y"
  by (simp_all add: query_def)

lemma getter_view_sel [simp]:
  "fst (getter_view h s) = eff_doc_shell h s" "fst (snd (getter_view h s)) = eff_view_shell h s"
  "fst (snd (snd (getter_view h s))) = eff_draw_view h s"
  by (simp_all add: getter_view_def)

lemma getDocShell_eff: "fst (getDocShell h s) = eff_doc_shell h s"
  by (simp add: getDocShell_eq eff_doc_shell_def doc_shell_result_def query_def split: option.split)

lemma fill_doc_shell:
  "mpDocShell t = None \<Longrightarrow> eff_doc_shell h t = Inr ds \<Longrightarrow>
   getter_view h (t\<lparr>mpDocShell := Some ds\<rparr>) = getter_view h t"
  by (simp add: getter_view_def eff_view_shell_def eff_draw_view_def eff_doc_shell_def)

lemma fill_view_shell:
  "mpViewShell t = None \<Longrightarrow> eff_view_shell h t = Inr vs \<Longrightarrow>
   getter_view h (t\<lparr>mpViewShell := Some vs\<rparr>) = getter_view h t"
  by (simp add: getter_view_def eff_view_shell_def eff_draw_view_def eff_doc_shell_def)

lemma fill_draw_view:
  "mpDrawView t = None \<Longrightarrow> eff_draw_view h t = Inr v \<Longrightarrow>
   getter_view h (t\<lparr>mpDrawView := Some v\<rparr>) = getter_view h t"
  by (simp add: getter_view_def eff_view_shell_def eff_draw_view_def eff_doc_shell_def)

lemma getDocShell_view: "getter_view h (snd (getDocShell h s)) = getter_view h s"
proof (cases "mpDocShell s")
  case None
  then show ?thesis
    by (cases "mpImpressDocument s"; cases "eff_doc_shell h s")
      (auto simp: getDocShell_eq eff_doc_shell_def doc_shell_result_def query_def fill_doc_shell
        split: option.splits)
qed (simp add: getDocShell_eq)

lemma getViewShell_eff_view:
  "fst (getViewShell h s) = eff_view_shell h s \<and> getter_view h (snd (getViewShell h s)) = getter_view h s"
proof (cases "mpViewShell s")
  case None
  obtain r s' where g: "getDocShell h s = (r, s')" by fastforce
  have r: "r = eff_doc_shell h s" using getDocShell_eff [of h s] g by simp
  have v: "getter_view h s' = getter_view h s" using getDocShell_view [of h s] g by simp
  then have e: "eff_doc_shell h s' = eff_doc_shell h s" and w: "eff_view_shell h s' = eff_view_shell h s"
    by (simp_all add: getter_view_def)
  have n: "mpViewShell s' = None" using None g by (auto dest: getDocShell_frame)
  show ?thesis
  proof (cases r)
    case (Inl e')
    with r have "eff_doc_shell h s = Inl e'" by simp
    with None g r v show ?thesis by (simp add: getViewShell_eq eff_view_shell_def)
  next
    case (Inr ds)
    from Inr r have rd: "eff_doc_shell h s = Inr ds" by simp
    show ?thesis
    proof (cases "h_view_shell h ds")
      case None
      with \<open>r = Inr ds\<close> None g r v show ?thesis
        by (simp add: getViewShell_eq eff_view_shell_def \<open>mpViewShell s = None\<close>)
    next
      case (Some vs)
      have ev: "eff_view_shell h s' = Inr vs"
        using n e rd Some by (simp add: eff_view_shell_def)
      with Inr Some g r \<open>mpViewShell s = None\<close> w fill_view_shell [OF n ev] v show ?thesis
        by (simp add: getViewShell_eq)
    qed
  qed
qed (simp add: getViewShell_eq eff_view_shell_def)

lemma getDrawView_eff_view:
  "fst (getDrawView h s) = eff_draw_view h s \<and> getter_view h (snd (getDrawView h s)) = getter_view h s"
proof (cases "mpDrawView s")
  case None
  obtain r s' where g: "getViewShell h s = (r, s')" by fastforce
  have r: "r = eff_view_shell h s" and v: "getter_view h s' = getter_view h s"
    using getViewShell_eff_view [of h s] g by simp_all
  then have e: "eff_view_shell h s' = eff_view_shell h s" and w: "eff_draw_view h s' = eff_draw_view h s"
    by (simp_all add: getter_view_def)
  have n: "mpDrawView s' = None" using None g by (auto dest: getViewShell_frame)
  show ?thesis
  proof (cases r)
    case (Inl e')
    with r have "eff_view_shell h s = Inl e'" by simp
    with None g r v show ?thesis by (simp add: getDrawView_eq eff_draw_view_def)
  next
    case (Inr vs)
    from Inr r have rd: "eff_view_shell h s = Inr vs" by simp
    show ?thesis
    proof (cases "draw_view_cast (h_draw_view h vs)")
      case None
      with Inr \<open>mpDrawView s = None\<close> g r v n show ?thesis
        by (simp add: getDrawView_eq eff_draw_view_def)
    next
      case (Some dv)
      have ev: "eff_draw_view h s' = Inr dv"
        using n e rd Some by (simp add: eff_draw_view_def)
      with Inr Some g r \<open>mpDrawView s = None\<close> w fill_draw_view [OF n ev] v show ?thesis
        by (simp add: getDrawView_eq)
    qed
  qed
qed (simp add: getDrawView_eq eff_draw_view_def)

lemma item_getters_eff_view:
  "fst (getSfxItemSetFromSdrObject h s) = fst (snd (snd (snd (getter_view h s)))) \<and>
   getter_view h (snd (getSfxItemSetFromSdrObject h s)) = getter_view h s"
  "fst (getEmptySfxItemSet h s) = fst (snd (snd (snd (snd (getter_view h s))))) \<and>
   getter_view h (snd (getEmptySfxItemSet h s)) = getter_view h s"
  "fst (getEmptyFillStyleSfxItemSet h s) = snd (snd (snd (snd (snd (getter_view h s))))) \<and>
   getter_view h (snd (getEmptyFillStyleSfxItemSet h s)) = getter_view h s"
  by (auto simp: getSfxItemSetFromSdrObject_eq getEmptySfxItemSet_eq getEmptyFillStyleSfxItemSet_eq
      getter_view_def eff_doc_shell_def eff_view_shell_def eff_draw_view_def object_set_result_def
      pool_set_result_def split: option.splits)

lemma agree_view_getter:
  assumes "\<And>s. fst (m s) = sel (getter_view h s)" and "\<And>s. getter_view h (snd (m s)) = getter_view h s"
    and "\<And>P. preserves (\<lambda>s. P (fixture_frame s)) m"
  shows "agree (same_view h) m"
proof (rule agreeI)
  fix s t assume "same_view h s t"
  moreover have "fixture_frame (snd (m s)) = fixture_frame s" "fixture_frame (snd (m t)) = fixture_frame t"
    using preservesD [OF assms(3) [of "\<lambda>f. f = fixture_frame s"]]
      preservesD [OF assms(3) [of "\<lambda>f. f = fixture_frame t"]] by simp_all
  ultimately show "fst (m s) = fst (m t) \<and> same_view h (snd (m s)) (snd (m t))"
    by (simp add: same_view_def assms(1,2))
qed

lemma preserves_view_getter:
  assumes "\<And>s. getter_view h (snd (m s)) = getter_view h s" and "\<And>P. preserves (\<lambda>s. P (fixture_frame s)) m"
  shows "preserves (\<lambda>t. P (fixture_frame t) (getter_view h t)) m"
proof (rule preservesI)
  fix s assume "P (fixture_frame s) (getter_view h s)"
  moreover have "fixture_frame (snd (m s)) = fixture_frame s"
    using preservesD [OF assms(2) [of "\<lambda>f. f = fixture_frame s"]] by simp
  ultimately show "P (fixture_frame (snd (m s))) (getter_view h (snd (m s)))" by (simp add: assms(1))
qed

lemmas getters_eff_view = getViewShell_eff_view getDrawView_eff_view item_getters_eff_view

lemma getDocShell_agree [agree_intros]: "agree (same_view h) (getDocShell h)"
  by (rule agree_view_getter [where sel = fst])
    (simp_all add: getDocShell_eff getDocShell_view getters_keep_frame)

lemma getViewShell_agree [agree_intros]: "agree (same_view h) (getViewShell h)"
  by (rule agree_view_getter [where sel = "\<lambda>v. fst (snd v)"])
    (simp_all add: getters_eff_view getters_keep_frame)

lemma getDrawView_agree [agree_intros]: "agree (same_view h) (getDrawView h)"
  by (rule agree_view_getter [where sel = "\<lambda>v. fst (snd (snd v))"])
    (simp_all add: getters_eff_view getters_keep_frame)

lemma item_getters_agree [agree_intros]:
  "agree (same_view h) (getSfxItemSetFromSdrObject h)"
  "agree (same_view h) (getEmptySfxItemSet h)" "agree (same_view h) (getEmptyFillStyleSfxItemSet h)"
  by (rule agree_view_getter [where sel = "\<lambda>v. fst (snd (snd (snd v)))"],
      simp_all add: getters_eff_view getters_keep_frame)
    (rule agree_view_getter [where sel = "\<lambda>v. fst (snd (snd (snd (snd v))))"]
      agree_view_getter [where sel = "\<lambda>v. snd (snd (snd (snd (snd v))))"],
      simp_all add: getters_eff_view getters_keep_frame)+

lemma getters_keep_view [preserves_intros]:
  "preserves (\<lambda>t. P (fixture_frame t) (getter_view h t)) (getDocShell h)"
  "preserves (\<lambda>t. P (fixture_frame t) (getter_view h t)) (getViewShell h)"
  "preserves (\<lambda>t. P (fixture_frame t) (getter_view h t)) (getDrawView h)"
  "preserves (\<lambda>t. P (fixture_frame t) (getter_view h t)) (getSfxItemSetFromSdrObject h)"
  "preserves (\<lambda>t. P (fixture_frame t) (getter_view h t)) (getEmptySfxItemSet h)"
  "preserves (\<lambda>t. P (fixture_frame t) (getter_view h t)) (getEmptyFillStyleSfxItemSet h)"
  by (rule preserves_view_getter, simp_all add: getDocShell_view getters_eff_view getters_keep_frame)+

lemma state_reads_agree [agree_intros]:
  "agree (same_view h) getSdXImpressDocument" "agree (same_view h) getSdAbstractDialogFactory"
  by (simp_all add: agree_def same_view_def fixture_frame_def getSdXImpressDocument_def
      getSdAbstractDialogFactory_def gets_def)

lemma createDialogByID_agree: "agree (same_view h) (createDialogByID h n)"
  unfolding createDialogByID_def dialog_switch_def assign_pRetval_def create_defs frame_weld_def get_draw_doc_def
  by (intro agree_intros)

lemma createDialogByID_keeps_view:
  "same_view h s (snd (createDialogByID h n s))"
proof -
  have "preserves (\<lambda>t. fixture_frame s = fixture_frame t \<and> getter_view h s = getter_view h t) (createDialogByID h n)"
    unfolding createDialogByID_def dialog_switch_def assign_pRetval_def create_defs frame_weld_def get_draw_doc_def
    by (intro preserves_intros)
  from preservesD [OF this] show ?thesis by (simp add: same_view_def)
qed

text \<open>
  C21. Creating a dialog leaves no trace that changes the next one: from
  every fixture state, the result of \<^verbatim>\<open>createDialogByID(m)\<close> is the same
  whether or not \<^verbatim>\<open>createDialogByID(n)\<close> ran before it.
\<close>

theorem createDialogByID_history_independent:
  "fst (createDialogByID h m (snd (createDialogByID h n s))) = fst (createDialogByID h m s)"
  using createDialogByID_agree [of h m] createDialogByID_keeps_view [of h s n] by (simp add: agree_def)

lemma inv_eff_doc_shell:
  "fixture_inv h s \<Longrightarrow> eff_doc_shell h s = doc_shell_result h (mpImpressDocument s)"
  by (cases "mpDocShell s") (auto simp: eff_doc_shell_def doc_shell_result_def fixture_inv_def split: option.splits)

lemma inv_eff_view_shell:
  assumes "fixture_inv h s"
  shows "eff_view_shell h s = query (doc_shell_result h (mpImpressDocument s)) (h_view_shell h) 147"
proof (cases "mpViewShell s")
  case None
  then show ?thesis by (simp add: eff_view_shell_def inv_eff_doc_shell [OF assms])
next
  case (Some vs)
  with assms obtain ds d where "mpDocShell s = Some ds" "h_view_shell h ds = Some vs"
    "mpImpressDocument s = Some d" "h_doc_shell h d = Some ds"
    by (auto simp: fixture_inv_def split: option.splits)
  with Some show ?thesis by (simp add: eff_view_shell_def doc_shell_result_def)
qed

lemma inv_eff_draw_view:
  assumes "fixture_inv h s"
  shows "eff_draw_view h s = query (query (doc_shell_result h (mpImpressDocument s)) (h_view_shell h) 147)
      (\<lambda>vs. draw_view_cast (h_draw_view h vs)) 158"
proof (cases "mpDrawView s")
  case None
  then show ?thesis by (simp add: eff_draw_view_def inv_eff_view_shell [OF assms])
next
  case (Some v)
  with assms obtain vs ds d where "mpViewShell s = Some vs" "draw_view_cast (h_draw_view h vs) = Some v"
    "mpDocShell s = Some ds" "h_view_shell h ds = Some vs"
    "mpImpressDocument s = Some d" "h_doc_shell h d = Some ds"
    by (auto simp: fixture_inv_def split: option.splits)
  with Some show ?thesis by (simp add: eff_draw_view_def doc_shell_result_def)
qed

lemma flush_view:
  assumes "fixture_inv h s" and "caches_backed h s"
  shows "getter_view h (flush s) = getter_view h s"
proof -
  have o: "cached_or (mpSfxItemSetFromSdrObject s) (object_set_result h (mpImpressDocument s)) =
      object_set_result h (mpImpressDocument s)"
    using assms(1) by (auto simp: fixture_inv_def object_set_result_def object_item_set_def split: option.splits)
  have p: "cached_or (mpEmptySfxItemSet s) (pool_set_result h 186 187 empty_pool_item_set (mpImpressDocument s)) =
      pool_set_result h 186 187 empty_pool_item_set (mpImpressDocument s)"
    "cached_or (mpEmptyFillStyleSfxItemSet s) (pool_set_result h 199 200 fill_style_item_set (mpImpressDocument s)) =
      pool_set_result h 199 200 fill_style_item_set (mpImpressDocument s)"
    using assms by (auto simp: fixture_inv_def caches_backed_def pool_set_result_def split: option.splits)
  show ?thesis
    using o p inv_eff_doc_shell [OF assms(1)] inv_eff_view_shell [OF assms(1)] inv_eff_draw_view [OF assms(1)]
    by (simp add: getter_view_def flush_def eff_doc_shell_def eff_view_shell_def eff_draw_view_def)
qed

lemma shells_keep_backed [simp]:
  "caches_backed h (s\<lparr>mpDocShell := x\<rparr>) = caches_backed h s"
  "caches_backed h (s\<lparr>mpViewShell := y\<rparr>) = caches_backed h s"
  "caches_backed h (s\<lparr>mpDrawView := z\<rparr>) = caches_backed h s"
  "caches_backed h (s\<lparr>mpSfxItemSetFromSdrObject := w\<rparr>) = caches_backed h s"
  by (simp_all add: caches_backed_def)

lemma getters_keep_backed [preserves_intros]:
  "preserves (caches_backed h) (getDocShell h)"
  "preserves (caches_backed h) (getViewShell h)"
  "preserves (caches_backed h) (getDrawView h)"
  "preserves (caches_backed h) (getSfxItemSetFromSdrObject h)"
  "preserves (caches_backed h) (getEmptySfxItemSet h)"
  "preserves (caches_backed h) (getEmptyFillStyleSfxItemSet h)"
  by (rule preserves_by_result; auto simp: getSfxItemSetFromSdrObject_eq getEmptySfxItemSet_eq
      getEmptyFillStyleSfxItemSet_eq caches_backed_def split: option.splits prod.splits
      dest!: getDocShell_frame getViewShell_frame getDrawView_frame)+

lemma createDialogByID_keeps_backed: "preserves (caches_backed h) (createDialogByID h n)"
  unfolding createDialogByID_def dialog_switch_def assign_pRetval_def create_defs frame_weld_def get_draw_doc_def
  by (intro preserves_intros)

lemma fixture_step_backed:
  assumes "fixture_step h s t" and "caches_backed h s"
  shows "caches_backed h t"
  using assms(1)
proof (cases rule: fixture_step.cases)
  case tear_down
  then show ?thesis by (simp add: tearDown_eq caches_backed_def Let_def split: option.splits)
qed (use assms(2) in \<open>simp_all add: getters_keep_backed createDialogByID_keeps_backed preservesD\<close>)

lemma in_test_backed: "in_test h s \<Longrightarrow> caches_backed h s"
proof (induction rule: in_test.induct)
  case constructed
  show ?case by (simp add: caches_backed_def SdDialogsTest_def)
next
  case set_up
  show ?case by (simp add: caches_backed_def setUp_eq SdDialogsTest_def)
next
  case (step s t)
  then show ?case by (blast intro: fixture_step_backed)
qed

text \<open>
  C20. Caching is invisible within a test: in every state of a test, for
  every id, \<^verbatim>\<open>createDialogByID\<close> returns the same dialog or the same error
  as on the same fixture with every cache flushed.
\<close>

theorem createDialogByID_cache_transparent:
  "in_test h s \<Longrightarrow> fst (createDialogByID h n s) = fst (createDialogByID h n (flush s))"
proof -
  assume t: "in_test h s"
  have "fixture_inv h s" using in_test_lifecycle_inv [OF t] by (simp add: lifecycle_inv_def)
  then have "same_view h s (flush s)"
    using flush_view [of h s] in_test_backed [OF t] by (simp add: same_view_def fixture_frame_def flush_def)
  then show ?thesis using createDialogByID_agree [of h n] by (simp add: agree_def)
qed

lemma createDialogByID_cache_transparent_witness:
  "in_test example_host warm_fixture \<and>
   fst (createDialogByID example_host 10 warm_fixture) = fst (createDialogByID example_host 10 (flush warm_fixture))"
proof -
  have "in_test example_host (snd (getEmptySfxItemSet example_host example_fixture))"
    by (rule in_test.step [OF in_test_example fixture_step.empty_items])
  then have r: "in_test example_host warm_fixture"
    unfolding warm_fixture_def by (rule in_test.step [OF _ fixture_step.draw_view])
  show ?thesis using createDialogByID_cache_transparent [OF r, of 10] r by simp
qed

text \<open>Outside a test, a cached empty item set without a document changes the error.\<close>

lemma cache_visible_unbacked:
  "fixture_inv example_host (example_fixture\<lparr>mpImpressDocument := None, mpEmptySfxItemSet := Some empty_pool_item_set\<rparr>) \<and>
   fst (createDialogByID example_host 10 (example_fixture\<lparr>mpImpressDocument := None, mpEmptySfxItemSet := Some empty_pool_item_set\<rparr>)) = Inl (NullDeref 135) \<and>
   fst (createDialogByID example_host 10 (flush (example_fixture\<lparr>mpImpressDocument := None, mpEmptySfxItemSet := Some empty_pool_item_set\<rparr>))) = Inl (NullDeref 186)"
  by (simp add: createDialogByID_eq fixture_inv_def example_fixture_def SdDialogsTest_def flush_def
      dialog_switch_def assign_pRetval_def create_SdOutlineBulletTabDlg_def getEmptySfxItemSet_eq
      getDrawView_eq getViewShell_eq getDocShell_eq bindE_def ok_def)

end
