(* ===== verification/Spec2Isabelle.thy ===== *)
theory Spec2Isabelle
  imports Harness Caching
begin

text \<open>
  \<^bold>\<open>A verification development of the Impress dialog screenshot test.\<close>

  The program is \<^verbatim>\<open>src/sd/qa/unit/dialogs-test.cxx\<close>, the fixture
  \<^verbatim>\<open>SdDialogsTest\<close> of the screenshot test suite. In \<^verbatim>\<open>setUp\<close> it runs the
  base class's set-up, creates the dialog factory, loads an empty Impress
  document and asserts that it is one. It lazily fetches and caches the
  objects the dialogs need (document shell, view shell, draw view, three item
  sets), registers twenty-two dialog UI-description paths under the ids 0 to
  21, creates the dialog of an id through the dialog factory in
  \<^verbatim>\<open>createDialogByID\<close>, and in \<^verbatim>\<open>openAnyDialog\<close> hands a batch file of paths
  to the harness, which creates and dumps each known dialog.
  \<^verbatim>\<open>tearDown\<close> releases the item sets and disposes the document.

  \<^bold>\<open>Theories.\<close>
  \<^item> \<open>Prelude\<close>: the exception-and-state monad every operation is written in
    (\<open>ok\<close>, \<open>throw\<close>, \<open>bindE\<close>, \<open>gets\<close>, \<open>modify\<close>). A failing
    \<^verbatim>\<open>CPPUNIT_ASSERT\<close> is \<open>assert_ptr l\<close> and a null dereference is
    \<open>deref l\<close>; both return the error tagged with its source line. It also
    holds the invariant predicate \<open>preserves\<close> with its collection
    \<open>preserves_intros\<close>, \<open>fails_only\<close> with \<open>fails_intros\<close>, which bounds the
    errors a composed operation can raise, and \<open>agree R\<close> with
    \<open>agree_intros\<close>, which shows that a composed operation returns the same
    result on \<open>R\<close>-related states.
  \<^item> \<open>ItemSet\<close>: \<^verbatim>\<open>SfxItemSet\<close> (not in \<^verbatim>\<open>src/\<close>, modelled from the spec) as
    a record of which-id ranges and a map from which-ids to item states, with
    \<^verbatim>\<open>Put\<close>, \<^verbatim>\<open>InvalidateItem\<close> and \<^verbatim>\<open>Get\<close>. The numeric ids are not in the
    repository, so a range holds only the named ids the test uses.
  \<^item> \<open>Host\<close>: the application objects the fixture queries, as a record of
    query functions (\<open>None\<close> for \<^verbatim>\<open>nullptr\<close>). It includes the outcome of the
    base set-up (\<open>h_base_ok\<close>) and the result of \<^verbatim>\<open>loadFromDesktop\<close>
    (\<open>h_load\<close>, \<open>None\<close> for an empty reference), the preconditions the test
    asserts (\<open>doc_ok\<close>) and one host meeting them (\<open>example_host\<close>).
  \<^item> \<open>Bundles\<close>: the item sets built inside the cases of
    \<^verbatim>\<open>createDialogByID\<close> (snap line 6, insert layer 7, presentation 12,
    action 17, fill style for \<^verbatim>\<open>getEmptyFillStyleSfxItemSet\<close>), and a
    reader of the presentation set.
  \<^item> \<open>Fixture\<close>: the record \<open>fixture\<close> of the class's members, plus the ghost
    list \<open>disposed\<close> of disposed components. It holds the constructor,
    \<^verbatim>\<open>setUp\<close>, \<^verbatim>\<open>tearDown\<close> and the six memoising getters (lines 91 to 207),
    the cache invariant \<open>fixture_inv\<close>, and \<open>runs\<close>: an operation that from
    every ready fixture returns a given value and leaves it ready.
  \<^item> \<open>Registry\<close>: \<^verbatim>\<open>registerKnownDialogsByID\<close> (lines 209 to 234).
  \<^item> \<open>Dispatch\<close>: \<^verbatim>\<open>createDialogByID\<close> (lines 236 to 562). It has a datatype
    \<open>dialog\<close> with one constructor per factory method holding the arguments
    passed, and one definition per \<^verbatim>\<open>case\<close> with every getter call and
    assertion. It also has the switch \<open>dialog_switch\<close>, the factory guard,
    and the table \<open>dialog_table\<close> of the dialog each id is meant to create.
  \<^item> \<open>Harness\<close>: the \<^verbatim>\<open>ScreenshotTest\<close> base class (modelled from the spec):
    its \<^verbatim>\<open>setUp\<close>, which may fail and which fills the known-dialog map; batch
    processing with the fallback to the raw path; the dump list; the loop
    \<^verbatim>\<open>processAllKnownDialogs\<close> over the known-dialog map in key order. It
    also models \<^verbatim>\<open>openAnyDialog\<close> with all four branches (lines 564 to 612)
    and one CppUnit run of the test (\<open>setUp\<close>, the test method if
    \<open>setUp\<close> succeeded, \<open>tearDown\<close> always).
  \<^item> \<open>Lifecycle\<close>: the fixture's life in one test. CppUnit builds a fresh
    fixture per test, so \<open>in_test h\<close> holds of the constructed fixture, of the
    fixture \<^verbatim>\<open>setUp\<close> leaves, and of every state reached from there by any
    sequence of member calls (\<open>fixture_step\<close>, one rule per member
    function), failed ones included. The host \<open>h\<close> is arbitrary, with any
    load result.
  \<^item> \<open>Caching\<close>: the effective result of each getter (\<open>getter_view\<close>): the
    cached value, or what the getter would compute. Every getter returns its
    effective result and leaves all six unchanged, in every state. Within a
    test, flushing the caches (\<open>flush\<close>) changes no effective result.
  \<^item> This theory: the properties spanning registry, dispatch and fixture.

  \<^bold>\<open>What is shown.\<close>
  \<^item> Registration gives the ids 0 to 21, one per path (C4).
  \<^item> Every registered path yields a dialog from a ready fixture (C1). An id
    outside 0..21, or a missing factory, yields none (C2).
  \<^item> Against \<open>dialog_table\<close>, every case calls the right factory method
    with the right objects and item set (C15).
  \<^item> With the document loaded, no case dereferences a null pointer (C17), and
    every creation keeps the cache invariant (C7).
  \<^item> A full run on a host meeting the test's assertions succeeds. It dumps
    every batch line exactly and disposes the document once (C3).
  \<^item> Any run disposes the loaded component. When there is none, because the
    load or the base set-up failed, \<^verbatim>\<open>tearDown\<close> ends the run with a null
    dereference at line 117 (C12). Every other error a run reports is a failed
    assertion (C18).
  \<^item> The presentation settings read back from the item set the code builds
    (C5).
  \<^item> The getters memoise (C6), return the host's objects (C8), and fail at
    line 158 on a view that is not a draw view (C16).
  \<^item> What \<^verbatim>\<open>setUp\<close> does on success (C9) and on failure (C14), and what
    \<^verbatim>\<open>tearDown\<close> does (C10).
  \<^item> In every state of a test the caches are coherent, and only the test's
    own component is disposed (C19).
  \<^item> The caches are an invisible optimisation. Within a test,
    \<^verbatim>\<open>createDialogByID\<close> returns what it would return with every cache
    flushed (C20). In every state, what one creation fills into the caches
    never changes the result of the next (C21).
  \<^item> Three results record behaviour the comments do not lead one to expect:
    the stale cached shell when a fixture object is reused (C11), the empty
    item set of \<^verbatim>\<open>getEmptySfxItemSet\<close> (C13), and the null dereference of
    \<^verbatim>\<open>tearDown\<close> after a failed set-up (C12), a bug of the code.

  \<^bold>\<open>Bounds.\<close> No loop of the program is unbounded. The batch is a finite
  list (structural recursion), and registration is a fixed sequence of 22
  assignments. The map loop is a \<^theory_text>\<open>function\<close> whose measure is the number
  of keys still to visit; a \<^verbatim>\<open>std::map\<close> is finite, and the loop's guard
  records it. Ids are \<open>32 word\<close> (\<^verbatim>\<open>sal_uInt32\<close>). No fuel is used: every
  definition is total.

  \<^bold>\<open>Not modelled.\<close> Every function of \<^verbatim>\<open>dialogs-test.cxx\<close> is modelled.
  The lines left out are the licence header, the includes and the two
  CppUnit registration macros (lines 614 to 616), which generate suite
  plumbing. The rest lies outside the file and cannot be modelled
  faithfully, because neither the source nor the spec gives its behaviour:
  \<^item> the dialog factory's implementations, library code the test only calls.
    A created dialog is the record of the factory call and its arguments;
  \<^item> rendering and writing of screenshots;
  \<^item> the internals of \<^verbatim>\<open>loadFromDesktop\<close>. Its result is the host's
    \<open>h_load\<close>;
  \<^item> \<^verbatim>\<open>ScreenshotTest::tearDown()\<close>, called at line 118. It changes no member
    of the fixture;
  \<^item> the numeric values of the item ids and ranges (\<^verbatim>\<open>sdattr.hrc\<close>,
    \<^verbatim>\<open>svx/xdef.hxx\<close>). A range holds the ids the test names in it;
  \<^item> reading and filtering the batch file, whose format the spec does not
    describe. Its lines are an input list;
  \<^item> reference counting of \<^verbatim>\<open>ScopedVclPtr\<close>.
  The \<^verbatim>\<open>ScreenshotTest\<close> base class is modelled from the spec as far as
  the spec describes it: its set-up, the known-dialog map, the batch loop
  with its fallback, the dump entry point and the CppUnit run.
\<close>

text \<open>A second host whose loaded document has a different document shell.\<close>

definition other_host :: host where
  "other_host =
     example_host\<lparr>h_load := Some 20, h_is_impress := (\<lambda>d. d = 20),
                  h_doc_shell := (\<lambda>d. if d = 20 then Some 13 else None)\<rparr>"

text \<open>
  C1. Every path \<^verbatim>\<open>registerKnownDialogsByID\<close> registers has a case in
  \<^verbatim>\<open>createDialogByID\<close>: from a ready fixture with a dialog factory, creating
  the dialog of its id succeeds, returns a dialog, and leaves the fixture
  ready for the next one.
\<close>

theorem registered_dialog_created:
  assumes "registerKnownDialogsByID Map.empty p = Some n"
    and "ready h d s" and "mpFact s \<noteq> None"
  shows "\<exists>dlg s'. createDialogByID h n s = (Inr (Some dlg), s') \<and> ready h d s'"
  using createDialogByID_known [OF assms(2,3) registered_id_bound [OF assms(1)]] by blast

lemma registered_dialog_created_witness:
  "registerKnownDialogsByID Map.empty ''modules/sdraw/ui/copydlg.ui'' = Some 1 \<and>
   ready example_host 2 example_fixture \<and> mpFact example_fixture \<noteq> None \<and>
   (\<exists>dlg s'. createDialogByID example_host 1 example_fixture = (Inr (Some dlg), s') \<and>
      ready example_host 2 s')"
proof -
  have r: "registerKnownDialogsByID Map.empty ''modules/sdraw/ui/copydlg.ui'' = Some 1"
    by (simp add: registerKnownDialogsByID_def known_dialogs_def)
  have f: "mpFact example_fixture \<noteq> None" by simp
  show ?thesis using registered_dialog_created [OF r ready_example f] r ready_example f by blast
qed

text \<open>
  C11. \<^verbatim>\<open>tearDown\<close> does not reset the cached document shell: a fixture
  object reused for a second \<^verbatim>\<open>setUp\<close> returns the first document's shell
  from \<^verbatim>\<open>getDocShell\<close>, whatever document the second \<^verbatim>\<open>setUp\<close> loaded.
\<close>

theorem reuse_returns_stale_doc_shell:
  assumes "getDocShell h s = (Inr ds, s1)" and "tearDown s1 = (r, s2)"
    and "setUp h' s2 = (Inr (), s3)"
  shows "getDocShell h' s3 = (Inr ds, s3)"
proof -
  have "mpDocShell s1 = Some ds" using getDocShell_cached [OF assms(1)] .
  then have "mpDocShell s2 = Some ds"
    using assms(2) by (cases "mxComponent s1") (auto simp: tearDown_eq Let_def)
  then have "mpDocShell s3 = Some ds"
    using assms(3) by (auto simp: setUp_eq split: if_splits)
  then show ?thesis by (simp add: getDocShell_eq)
qed

lemma reuse_returns_stale_doc_shell_witness:
  "getDocShell example_host example_fixture = (Inr 3, example_fixture\<lparr>mpDocShell := Some 3\<rparr>) \<and>
   tearDown (example_fixture\<lparr>mpDocShell := Some 3\<rparr>) =
     (Inr (), example_fixture\<lparr>mpDocShell := Some 3, disposed := [2]\<rparr>) \<and>
   setUp other_host (example_fixture\<lparr>mpDocShell := Some 3, disposed := [2]\<rparr>) =
     (Inr (), example_fixture\<lparr>mpDocShell := Some 3, disposed := [2], mxComponent := Some 20,
        mpImpressDocument := Some 20\<rparr>) \<and>
   getDocShell other_host (example_fixture\<lparr>mpDocShell := Some 3, disposed := [2],
        mxComponent := Some 20, mpImpressDocument := Some 20\<rparr>) =
     (Inr 3, example_fixture\<lparr>mpDocShell := Some 3, disposed := [2], mxComponent := Some 20,
        mpImpressDocument := Some 20\<rparr>) \<and>
   h_load other_host = Some 20 \<and> h_doc_shell other_host 20 = Some 13"
proof -
  have a: "getDocShell example_host example_fixture = (Inr 3, example_fixture\<lparr>mpDocShell := Some 3\<rparr>)"
    by (simp add: getDocShell_eq example_fixture_def SdDialogsTest_def example_host_def)
  have b: "tearDown (example_fixture\<lparr>mpDocShell := Some 3\<rparr>) =
     (Inr (), example_fixture\<lparr>mpDocShell := Some 3, disposed := [2]\<rparr>)"
    by (simp add: tearDown_eq example_fixture_def SdDialogsTest_def)
  have c: "setUp other_host (example_fixture\<lparr>mpDocShell := Some 3, disposed := [2]\<rparr>) =
     (Inr (), example_fixture\<lparr>mpDocShell := Some 3, disposed := [2], mxComponent := Some 20,
        mpImpressDocument := Some 20\<rparr>)"
    by (simp add: setUp_eq impress_cast_def other_host_def example_host_def example_fixture_def SdDialogsTest_def)
  have d: "h_load other_host = Some 20 \<and> h_doc_shell other_host 20 = Some 13" by (simp add: other_host_def)
  show ?thesis using reuse_returns_stale_doc_shell [OF a b c] a b c d by blast
qed

end
